theory Spec2Isabelle
  imports Complex_Main "HOL-Library.Multiset"
begin

section \<open>Data model\<close>

text \<open>
  The exporter (\<^verbatim>\<open>pkg/exporter/exporter.go\<close>) turns the flat key/value records that a
  memcached server returns into Prometheus observations. A raw record is Go's
  \<^verbatim>\<open>map[string]string\<close>, modelled as a partial map. The log calls of the source have no
  effect on the observations and are left out.
\<close>

type_synonym raw_record = "string \<rightharpoonup> string"

text \<open>
  The \<^verbatim>\<open>float64\<close> of Go, as far as the source uses it: the three constants it writes
  (\<^verbatim>\<open>0\<close>, \<^verbatim>\<open>1\<close> and \<^verbatim>\<open>1000.0*1000.0\<close>, which the compiler folds into one constant), addition,
  subtraction and division, and \<^verbatim>\<open>strconv.ParseFloat(value, 64)\<close>, with \<open>None\<close> when
  ParseFloat returns an error. Nothing is assumed about the type \<open>'f\<close> of the values or
  about the operations, so what is proved holds for the operations of Go, which round as
  IEEE arithmetic does and have infinities and values that are not a number. Every
  definition that computes with \<^verbatim>\<open>float64\<close> takes the operations as its first argument.
\<close>

record 'f float64 =
  ParseFloat :: "string \<Rightarrow> 'f option"
  fzero :: 'f
  fone :: 'f
  fmillion :: 'f
  fadd :: "'f \<Rightarrow> 'f \<Rightarrow> 'f"
  fsub :: "'f \<Rightarrow> 'f \<Rightarrow> 'f"
  fdiv :: "'f \<Rightarrow> 'f \<Rightarrow> 'f"

text \<open>
  Errors are values. \<^verbatim>\<open>errKeyNotFound\<close> is the sentinel of the source; \<open>NumError\<close> is the
  error of \<^verbatim>\<open>strconv.ParseFloat\<close> and carries the rejected text; the two \<^verbatim>\<open>errors.New\<close>
  messages of \<^verbatim>\<open>parseBool\<close> and \<^verbatim>\<open>parseTimeval\<close> are one constructor each; \<open>ClientError\<close>
  stands for whatever the memcache client reports.
\<close>

datatype error =
    errKeyNotFound
  | NumError string
  | errParseBool
  | errParseTimeval
  | ClientError string

datatype ValueType = CounterValue | GaugeValue

text \<open>
  A descriptor as \<^verbatim>\<open>prometheus.NewDesc\<close> builds it: fully qualified name and the ordered
  label names (the help text is documentation only and is left out). An observation
  holds its descriptor, the value kind, the value and the label values in order.
\<close>

datatype Desc = NewDesc (fqName: string) (variableLabels: "string list")

datatype 'f Metric =
  Metric (mdesc: Desc) (mtype: ValueType) (mvalue: 'f) (mlabels: "string list")

text \<open>
  \<^verbatim>\<open>memcache.Stats\<close> of the client library: the server-level record and the records of
  each slab class. The source ranges over the two slab maps (\<^verbatim>\<open>map[int]map[string]string\<close>);
  Go leaves the order of a \<^verbatim>\<open>range\<close> over a map open, so a ranged-over map is given as the
  list of its entries in the order the loop visits them.
\<close>

record Stats =
  Stats :: raw_record
  Slabs :: "(int \<times> raw_record) list"
  Items :: "(int \<times> raw_record) list"

text \<open>
  What the three calls to the memcache client hand back for one server: the error of
  \<^verbatim>\<open>memcache.New\<close>, and value and error of \<^verbatim>\<open>c.Stats()\<close> and \<^verbatim>\<open>c.StatsSettings()\<close> (a Go call
  returns both). The maps are keyed by \<^verbatim>\<open>net.Addr\<close>, here a string.
\<close>

record client =
  newErr :: "error option"
  statsResult :: "(string \<times> Stats) list \<times> error option"
  settingsResult :: "(string \<times> raw_record) list \<times> error option"

text \<open>
  \<^verbatim>\<open>prometheus.MustNewConstMetric\<close> panics when it is given a wrong number of label values
  or a label value that is not valid UTF-8; nothing in the source recovers from a panic.
  So a piece of the program either returns or panics, and in both cases it has sent some
  observations on the channel before. A run is the list of the observations sent, in
  order, and the way it ended; for the translators and the binder the returned value is
  an error (\<open>None\<close> is Go's \<^verbatim>\<open>nil\<close>).
\<close>

datatype 'a ending = Returns 'a | Panics

type_synonym ('f, 'a) run = "'f Metric list \<times> 'a ending"

section \<open>Library functions used by the source\<close>

text \<open>\<^verbatim>\<open>prometheus.BuildFQName\<close>: the non-empty parts joined by an underscore.\<close>

definition BuildFQName :: "string \<Rightarrow> string \<Rightarrow> string \<Rightarrow> string" where
  "BuildFQName namespace subsystem name =
     (if name = [] then []
      else if namespace \<noteq> [] \<and> subsystem \<noteq> [] then namespace @ ''_'' @ subsystem @ ''_'' @ name
      else if namespace \<noteq> [] then namespace @ ''_'' @ name
      else if subsystem \<noteq> [] then subsystem @ ''_'' @ name
      else name)"

text \<open>
  \<^verbatim>\<open>utf8.ValidString\<close>, on the bytes of the string: one byte below 128, or a lead byte with
  its continuation bytes in the ranges of well-formed UTF-8 (no overlong form, no
  surrogate, nothing above U+10FFFF).
\<close>

definition cont :: "nat \<Rightarrow> bool" where
  "cont b = (128 \<le> b \<and> b \<le> 191)"

fun validBytes :: "nat list \<Rightarrow> bool" where
  "validBytes [] = True"
| "validBytes (b0 # bs) =
     (if b0 < 128 then validBytes bs
      else if 194 \<le> b0 \<and> b0 \<le> 223 then
        (case bs of b1 # r \<Rightarrow> cont b1 \<and> validBytes r | _ \<Rightarrow> False)
      else if 224 \<le> b0 \<and> b0 \<le> 239 then
        (case bs of
           b1 # b2 # r \<Rightarrow>
             (if b0 = 224 then 160 \<le> b1 \<and> b1 \<le> 191
              else if b0 = 237 then 128 \<le> b1 \<and> b1 \<le> 159
              else cont b1) \<and> cont b2 \<and> validBytes r
         | _ \<Rightarrow> False)
      else if 240 \<le> b0 \<and> b0 \<le> 244 then
        (case bs of
           b1 # b2 # b3 # r \<Rightarrow>
             (if b0 = 240 then 144 \<le> b1 \<and> b1 \<le> 191
              else if b0 = 244 then 128 \<le> b1 \<and> b1 \<le> 143
              else cont b1) \<and> cont b2 \<and> cont b3 \<and> validBytes r
         | _ \<Rightarrow> False)
      else False)"

definition ValidString :: "string \<Rightarrow> bool" where
  "ValidString s = validBytes (map of_char s)"

text \<open>
  \<^verbatim>\<open>validateLabelValues\<close> of the Prometheus client, and \<^verbatim>\<open>MustNewConstMetric\<close>: the observation,
  or \<open>None\<close> when it panics. The descriptors of the exporter are all well formed, so the
  label values are the only thing checked.
\<close>

definition validateLabelValues :: "string list \<Rightarrow> nat \<Rightarrow> bool" where
  "validateLabelValues vals expectedNumberOfValues =
     (length vals = expectedNumberOfValues \<and> list_all ValidString vals)"

definition MustNewConstMetric ::
  "Desc \<Rightarrow> ValueType \<Rightarrow> 'f \<Rightarrow> string list \<Rightarrow> 'f Metric option" where
  "MustNewConstMetric desc valueType v labelValues =
     (if validateLabelValues labelValues (length (variableLabels desc))
      then Some (Metric desc valueType v labelValues)
      else None)"

text \<open>
  \<^verbatim>\<open>ch <- prometheus.MustNewConstMetric(...)\<close> followed by a return of \<open>a\<close>: the observation is
  sent and \<open>a\<close> returned, or the call panics and nothing is sent.
\<close>

definition send :: "'f Metric option \<Rightarrow> 'a \<Rightarrow> ('f, 'a) run" where
  "send m a = (case m of None \<Rightarrow> ([], Panics) | Some x \<Rightarrow> ([x], Returns a))"

text \<open>
  \<^verbatim>\<open>strings.Split(value, ".")\<close>, for a separator of one byte: the pieces between the
  separators, one more piece than there are separators.
\<close>

fun Split :: "string \<Rightarrow> char \<Rightarrow> string list" where
  "Split [] sep = [[]]"
| "Split (c # cs) sep =
     (if c = sep then [] # Split cs sep
      else (case Split cs sep of
              [] \<Rightarrow> [[c]]
            | p # ps \<Rightarrow> (c # p) # ps))"

text \<open>\<^verbatim>\<open>strconv.Itoa\<close>: the decimal text of an integer.\<close>

definition digit :: "nat \<Rightarrow> char" where
  "digit n = ''0123456789'' ! n"

function digits :: "nat \<Rightarrow> string" where
  "digits n = (if n < 10 then [digit n] else digits (n div 10) @ [digit (n mod 10)])"
  by pat_completeness auto
termination
  by (relation "measure id") auto

declare digits.simps [simp del]

definition Itoa :: "int \<Rightarrow> string" where
  "Itoa i = (if i < 0 then CHR ''-'' # digits (nat (- i)) else digits (nat i))"

text \<open>Indexing a Go map gives the empty string for a key that is not there.\<close>

definition index :: "raw_record \<Rightarrow> string \<Rightarrow> string" where
  "index m key = (case m key of None \<Rightarrow> [] | Some v \<Rightarrow> v)"

section \<open>The descriptors of the exporter\<close>

definition Namespace :: string where
  "Namespace = ''memcached''"

definition subsystemLruCrawler :: string where
  "subsystemLruCrawler = ''lru_crawler''"

definition subsystemSlab :: string where
  "subsystemSlab = ''slab''"

named_theorems descs \<open>the descriptor fields of the Exporter, as New builds them\<close>

definition up :: Desc where [descs]:
  "up = NewDesc (BuildFQName Namespace '''' ''up'') [''server'']"

definition uptime :: Desc where [descs]:
  "uptime = NewDesc (BuildFQName Namespace '''' ''uptime_seconds'') [''server'']"

definition time :: Desc where [descs]:
  "time = NewDesc (BuildFQName Namespace '''' ''time_seconds'') [''server'']"

definition version :: Desc where [descs]:
  "version = NewDesc (BuildFQName Namespace '''' ''version'') [''version'', ''server'']"

definition rusageUser :: Desc where [descs]:
  "rusageUser = NewDesc (BuildFQName Namespace '''' ''process_user_cpu_seconds_total'') [''server'']"

definition rusageSystem :: Desc where [descs]:
  "rusageSystem = NewDesc (BuildFQName Namespace '''' ''process_system_cpu_seconds_total'') [''server'']"

definition bytesRead :: Desc where [descs]:
  "bytesRead = NewDesc (BuildFQName Namespace '''' ''read_bytes_total'') [''server'']"

definition bytesWritten :: Desc where [descs]:
  "bytesWritten = NewDesc (BuildFQName Namespace '''' ''written_bytes_total'') [''server'']"

definition currentConnections :: Desc where [descs]:
  "currentConnections = NewDesc (BuildFQName Namespace '''' ''current_connections'') [''server'']"

definition maxConnections :: Desc where [descs]:
  "maxConnections = NewDesc (BuildFQName Namespace '''' ''max_connections'') [''server'']"

definition connectionsTotal :: Desc where [descs]:
  "connectionsTotal = NewDesc (BuildFQName Namespace '''' ''connections_total'') [''server'']"

definition rejectedConnections :: Desc where [descs]:
  "rejectedConnections = NewDesc (BuildFQName Namespace '''' ''connections_rejected_total'') [''server'']"

definition connsYieldedTotal :: Desc where [descs]:
  "connsYieldedTotal = NewDesc (BuildFQName Namespace '''' ''connections_yielded_total'') [''server'']"

definition listenerDisabledTotal :: Desc where [descs]:
  "listenerDisabledTotal = NewDesc (BuildFQName Namespace '''' ''connections_listener_disabled_total'') [''server'']"

definition currentBytes :: Desc where [descs]:
  "currentBytes = NewDesc (BuildFQName Namespace '''' ''current_bytes'') [''server'']"

definition limitBytes :: Desc where [descs]:
  "limitBytes = NewDesc (BuildFQName Namespace '''' ''limit_bytes'') [''server'']"

definition commands :: Desc where [descs]:
  "commands = NewDesc (BuildFQName Namespace '''' ''commands_total'') [''command'', ''status'', ''server'']"

definition items :: Desc where [descs]:
  "items = NewDesc (BuildFQName Namespace '''' ''current_items'') [''server'']"

definition itemsTotal :: Desc where [descs]:
  "itemsTotal = NewDesc (BuildFQName Namespace '''' ''items_total'') [''server'']"

definition evictions :: Desc where [descs]:
  "evictions = NewDesc (BuildFQName Namespace '''' ''items_evicted_total'') [''server'']"

definition reclaimed :: Desc where [descs]:
  "reclaimed = NewDesc (BuildFQName Namespace '''' ''items_reclaimed_total'') [''server'']"

definition lruCrawlerEnabled :: Desc where [descs]:
  "lruCrawlerEnabled = NewDesc (BuildFQName Namespace subsystemLruCrawler ''enabled'') [''server'']"

definition lruCrawlerSleep :: Desc where [descs]:
  "lruCrawlerSleep = NewDesc (BuildFQName Namespace subsystemLruCrawler ''sleep'') [''server'']"

definition lruCrawlerMaxItems :: Desc where [descs]:
  "lruCrawlerMaxItems = NewDesc (BuildFQName Namespace subsystemLruCrawler ''to_crawl'') [''server'']"

definition lruMaintainerThread :: Desc where [descs]:
  "lruMaintainerThread = NewDesc (BuildFQName Namespace subsystemLruCrawler ''maintainer_thread'') [''server'']"

definition lruHotPercent :: Desc where [descs]:
  "lruHotPercent = NewDesc (BuildFQName Namespace subsystemLruCrawler ''hot_percent'') [''server'']"

definition lruWarmPercent :: Desc where [descs]:
  "lruWarmPercent = NewDesc (BuildFQName Namespace subsystemLruCrawler ''warm_percent'') [''server'']"

definition lruHotMaxAgeFactor :: Desc where [descs]:
  "lruHotMaxAgeFactor = NewDesc (BuildFQName Namespace subsystemLruCrawler ''hot_max_factor'') [''server'']"

definition lruWarmMaxAgeFactor :: Desc where [descs]:
  "lruWarmMaxAgeFactor = NewDesc (BuildFQName Namespace subsystemLruCrawler ''warm_max_factor'') [''server'']"

definition lruCrawlerStarts :: Desc where [descs]:
  "lruCrawlerStarts = NewDesc (BuildFQName Namespace subsystemLruCrawler ''starts_total'') [''server'']"

definition lruCrawlerReclaimed :: Desc where [descs]:
  "lruCrawlerReclaimed = NewDesc (BuildFQName Namespace subsystemLruCrawler ''reclaimed_total'') [''server'']"

definition lruCrawlerItemsChecked :: Desc where [descs]:
  "lruCrawlerItemsChecked = NewDesc (BuildFQName Namespace subsystemLruCrawler ''items_checked_total'') [''server'']"

definition lruCrawlerMovesToCold :: Desc where [descs]:
  "lruCrawlerMovesToCold = NewDesc (BuildFQName Namespace subsystemLruCrawler ''moves_to_cold_total'') [''server'']"

definition lruCrawlerMovesToWarm :: Desc where [descs]:
  "lruCrawlerMovesToWarm = NewDesc (BuildFQName Namespace subsystemLruCrawler ''moves_to_warm_total'') [''server'']"

definition lruCrawlerMovesWithinLru :: Desc where [descs]:
  "lruCrawlerMovesWithinLru = NewDesc (BuildFQName Namespace subsystemLruCrawler ''moves_within_lru_total'') [''server'']"

definition malloced :: Desc where [descs]:
  "malloced = NewDesc (BuildFQName Namespace '''' ''malloced_bytes'') [''server'']"

definition itemsNumber :: Desc where [descs]:
  "itemsNumber = NewDesc (BuildFQName Namespace subsystemSlab ''current_items'') [''slab'', ''server'']"

definition itemsAge :: Desc where [descs]:
  "itemsAge = NewDesc (BuildFQName Namespace subsystemSlab ''items_age_seconds'') [''slab'', ''server'']"

definition itemsCrawlerReclaimed :: Desc where [descs]:
  "itemsCrawlerReclaimed = NewDesc (BuildFQName Namespace subsystemSlab ''items_crawler_reclaimed_total'') [''slab'', ''server'']"

definition itemsEvicted :: Desc where [descs]:
  "itemsEvicted = NewDesc (BuildFQName Namespace subsystemSlab ''items_evicted_total'') [''slab'', ''server'']"

definition itemsEvictedNonzero :: Desc where [descs]:
  "itemsEvictedNonzero = NewDesc (BuildFQName Namespace subsystemSlab ''items_evicted_nonzero_total'') [''slab'', ''server'']"

definition itemsEvictedTime :: Desc where [descs]:
  "itemsEvictedTime = NewDesc (BuildFQName Namespace subsystemSlab ''items_evicted_time_seconds'') [''slab'', ''server'']"

definition itemsEvictedUnfetched :: Desc where [descs]:
  "itemsEvictedUnfetched = NewDesc (BuildFQName Namespace subsystemSlab ''items_evicted_unfetched_total'') [''slab'', ''server'']"

definition itemsExpiredUnfetched :: Desc where [descs]:
  "itemsExpiredUnfetched = NewDesc (BuildFQName Namespace subsystemSlab ''items_expired_unfetched_total'') [''slab'', ''server'']"

definition itemsOutofmemory :: Desc where [descs]:
  "itemsOutofmemory = NewDesc (BuildFQName Namespace subsystemSlab ''items_outofmemory_total'') [''slab'', ''server'']"

definition itemsReclaimed :: Desc where [descs]:
  "itemsReclaimed = NewDesc (BuildFQName Namespace subsystemSlab ''items_reclaimed_total'') [''slab'', ''server'']"

definition itemsTailrepairs :: Desc where [descs]:
  "itemsTailrepairs = NewDesc (BuildFQName Namespace subsystemSlab ''items_tailrepairs_total'') [''slab'', ''server'']"

definition itemsMovesToCold :: Desc where [descs]:
  "itemsMovesToCold = NewDesc (BuildFQName Namespace subsystemSlab ''items_moves_to_cold'') [''slab'', ''server'']"

definition itemsMovesToWarm :: Desc where [descs]:
  "itemsMovesToWarm = NewDesc (BuildFQName Namespace subsystemSlab ''items_moves_to_warm'') [''slab'', ''server'']"

definition itemsMovesWithinLru :: Desc where [descs]:
  "itemsMovesWithinLru = NewDesc (BuildFQName Namespace subsystemSlab ''items_moves_within_lru'') [''slab'', ''server'']"

definition itemsHot :: Desc where [descs]:
  "itemsHot = NewDesc (BuildFQName Namespace subsystemSlab ''hot_items'') [''slab'', ''server'']"

definition itemsWarm :: Desc where [descs]:
  "itemsWarm = NewDesc (BuildFQName Namespace subsystemSlab ''warm_items'') [''slab'', ''server'']"

definition itemsCold :: Desc where [descs]:
  "itemsCold = NewDesc (BuildFQName Namespace subsystemSlab ''cold_items'') [''slab'', ''server'']"

definition itemsTemporary :: Desc where [descs]:
  "itemsTemporary = NewDesc (BuildFQName Namespace subsystemSlab ''temporary_items'') [''slab'', ''server'']"

definition itemsAgeOldestHot :: Desc where [descs]:
  "itemsAgeOldestHot = NewDesc (BuildFQName Namespace subsystemSlab ''hot_age_seconds'') [''slab'', ''server'']"

definition itemsAgeOldestWarm :: Desc where [descs]:
  "itemsAgeOldestWarm = NewDesc (BuildFQName Namespace subsystemSlab ''warm_age_seconds'') [''slab'', ''server'']"

definition itemsLruHits :: Desc where [descs]:
  "itemsLruHits = NewDesc (BuildFQName Namespace subsystemSlab ''lru_hits_total'') [''slab'', ''lru'', ''server'']"

definition slabsChunkSize :: Desc where [descs]:
  "slabsChunkSize = NewDesc (BuildFQName Namespace subsystemSlab ''chunk_size_bytes'') [''slab'', ''server'']"

definition slabsChunksPerPage :: Desc where [descs]:
  "slabsChunksPerPage = NewDesc (BuildFQName Namespace subsystemSlab ''chunks_per_page'') [''slab'', ''server'']"

definition slabsCurrentPages :: Desc where [descs]:
  "slabsCurrentPages = NewDesc (BuildFQName Namespace subsystemSlab ''current_pages'') [''slab'', ''server'']"

definition slabsCurrentChunks :: Desc where [descs]:
  "slabsCurrentChunks = NewDesc (BuildFQName Namespace subsystemSlab ''current_chunks'') [''slab'', ''server'']"

definition slabsChunksUsed :: Desc where [descs]:
  "slabsChunksUsed = NewDesc (BuildFQName Namespace subsystemSlab ''chunks_used'') [''slab'', ''server'']"

definition slabsChunksFree :: Desc where [descs]:
  "slabsChunksFree = NewDesc (BuildFQName Namespace subsystemSlab ''chunks_free'') [''slab'', ''server'']"

definition slabsChunksFreeEnd :: Desc where [descs]:
  "slabsChunksFreeEnd = NewDesc (BuildFQName Namespace subsystemSlab ''chunks_free_end'') [''slab'', ''server'']"

definition slabsMemRequested :: Desc where [descs]:
  "slabsMemRequested = NewDesc (BuildFQName Namespace subsystemSlab ''mem_requested_bytes'') [''slab'', ''server'']"

definition slabsCommands :: Desc where [descs]:
  "slabsCommands = NewDesc (BuildFQName Namespace subsystemSlab ''commands_total'') [''slab'', ''command'', ''status'', ''server'']"

definition extstoreCompactLost :: Desc where [descs]:
  "extstoreCompactLost = NewDesc (BuildFQName Namespace '''' ''extstore_compact_lost_total'') [''server'']"

definition extstoreCompactRescues :: Desc where [descs]:
  "extstoreCompactRescues = NewDesc (BuildFQName Namespace '''' ''extstore_compact_rescued_total'') [''server'']"

definition extstoreCompactSkipped :: Desc where [descs]:
  "extstoreCompactSkipped = NewDesc (BuildFQName Namespace '''' ''extstore_compact_skipped_total'') [''server'']"

definition extstorePageAllocs :: Desc where [descs]:
  "extstorePageAllocs = NewDesc (BuildFQName Namespace '''' ''extstore_pages_allocated_total'') [''server'']"

definition extstorePageEvictions :: Desc where [descs]:
  "extstorePageEvictions = NewDesc (BuildFQName Namespace '''' ''extstore_pages_evicted_total'') [''server'']"

definition extstorePageReclaims :: Desc where [descs]:
  "extstorePageReclaims = NewDesc (BuildFQName Namespace '''' ''extstore_pages_reclaimed_total'') [''server'']"

definition extstorePagesFree :: Desc where [descs]:
  "extstorePagesFree = NewDesc (BuildFQName Namespace '''' ''extstore_pages_free'') [''server'']"

definition extstorePagesUsed :: Desc where [descs]:
  "extstorePagesUsed = NewDesc (BuildFQName Namespace '''' ''extstore_pages_used'') [''server'']"

definition extstoreObjectsEvicted :: Desc where [descs]:
  "extstoreObjectsEvicted = NewDesc (BuildFQName Namespace '''' ''extstore_objects_evicted_total'') [''server'']"

definition extstoreObjectsRead :: Desc where [descs]:
  "extstoreObjectsRead = NewDesc (BuildFQName Namespace '''' ''extstore_objects_read_total'') [''server'']"

definition extstoreObjectsWritten :: Desc where [descs]:
  "extstoreObjectsWritten = NewDesc (BuildFQName Namespace '''' ''extstore_objects_written_total'') [''server'']"

definition extstoreObjectsUsed :: Desc where [descs]:
  "extstoreObjectsUsed = NewDesc (BuildFQName Namespace '''' ''extstore_objects_used'') [''server'']"

definition extstoreBytesEvicted :: Desc where [descs]:
  "extstoreBytesEvicted = NewDesc (BuildFQName Namespace '''' ''extstore_bytes_evicted_total'') [''server'']"

definition extstoreBytesWritten :: Desc where [descs]:
  "extstoreBytesWritten = NewDesc (BuildFQName Namespace '''' ''extstore_bytes_written_total'') [''server'']"

definition extstoreBytesRead :: Desc where [descs]:
  "extstoreBytesRead = NewDesc (BuildFQName Namespace '''' ''extstore_bytes_read_total'') [''server'']"

definition extstoreBytesUsed :: Desc where [descs]:
  "extstoreBytesUsed = NewDesc (BuildFQName Namespace '''' ''extstore_bytes_used'') [''server'']"

definition extstoreBytesFragmented :: Desc where [descs]:
  "extstoreBytesFragmented = NewDesc (BuildFQName Namespace '''' ''extstore_bytes_fragmented'') [''server'']"

definition extstoreBytesLimit :: Desc where [descs]:
  "extstoreBytesLimit = NewDesc (BuildFQName Namespace '''' ''extstore_bytes_limit'') [''server'']"

definition extstoreIOQueueDepth :: Desc where [descs]:
  "extstoreIOQueueDepth = NewDesc (BuildFQName Namespace '''' ''extstore_io_queue_depth'') [''server'']"

definition acceptingConnections :: Desc where [descs]:
  "acceptingConnections = NewDesc (BuildFQName Namespace '''' ''accepting_connections'') [''server'']"

text \<open>The descriptor fields of the \<^verbatim>\<open>Exporter\<close> struct, in the order of their declaration.\<close>

definition descriptor_fields :: "Desc list" where
  "descriptor_fields =
    [up, uptime, time, version,
     rusageUser, rusageSystem, bytesRead, bytesWritten,
     currentConnections, maxConnections, connectionsTotal, rejectedConnections,
     connsYieldedTotal, listenerDisabledTotal, currentBytes, limitBytes,
     commands, items, itemsTotal, evictions,
     reclaimed, lruCrawlerEnabled, lruCrawlerSleep, lruCrawlerMaxItems,
     lruMaintainerThread, lruHotPercent, lruWarmPercent, lruHotMaxAgeFactor,
     lruWarmMaxAgeFactor, lruCrawlerStarts, lruCrawlerReclaimed, lruCrawlerItemsChecked,
     lruCrawlerMovesToCold, lruCrawlerMovesToWarm, lruCrawlerMovesWithinLru, malloced,
     itemsNumber, itemsAge, itemsCrawlerReclaimed, itemsEvicted,
     itemsEvictedNonzero, itemsEvictedTime, itemsEvictedUnfetched, itemsExpiredUnfetched,
     itemsOutofmemory, itemsReclaimed, itemsTailrepairs, itemsMovesToCold,
     itemsMovesToWarm, itemsMovesWithinLru, itemsHot, itemsWarm,
     itemsCold, itemsTemporary, itemsAgeOldestHot, itemsAgeOldestWarm,
     itemsLruHits, slabsChunkSize, slabsChunksPerPage, slabsCurrentPages,
     slabsCurrentChunks, slabsChunksUsed, slabsChunksFree, slabsChunksFreeEnd,
     slabsMemRequested, slabsCommands, extstoreCompactLost, extstoreCompactRescues,
     extstoreCompactSkipped, extstorePageAllocs, extstorePageEvictions, extstorePageReclaims,
     extstorePagesFree, extstorePagesUsed, extstoreObjectsEvicted, extstoreObjectsRead,
     extstoreObjectsWritten, extstoreObjectsUsed, extstoreBytesEvicted, extstoreBytesWritten,
     extstoreBytesRead, extstoreBytesUsed, extstoreBytesLimit, extstoreBytesFragmented,
     extstoreIOQueueDepth, acceptingConnections]"

text \<open>\<^verbatim>\<open>Describe\<close>: the descriptors sent on the channel, in order.\<close>

definition Describe :: "Desc list" where
  "Describe =
    [up, uptime, time, version,
     rusageUser, rusageSystem, bytesRead, bytesWritten,
     currentConnections, maxConnections, connectionsTotal, rejectedConnections,
     connsYieldedTotal, listenerDisabledTotal, currentBytes, limitBytes,
     commands, items, itemsTotal, evictions,
     reclaimed, lruCrawlerEnabled, lruCrawlerSleep, lruCrawlerMaxItems,
     lruMaintainerThread, lruHotPercent, lruWarmPercent, lruHotMaxAgeFactor,
     lruWarmMaxAgeFactor, lruCrawlerStarts, lruCrawlerReclaimed, lruCrawlerItemsChecked,
     lruCrawlerMovesToCold, lruCrawlerMovesToWarm, lruCrawlerMovesWithinLru, itemsLruHits,
     malloced, itemsNumber, itemsAge, itemsCrawlerReclaimed,
     itemsEvicted, itemsEvictedNonzero, itemsEvictedTime, itemsEvictedUnfetched,
     itemsExpiredUnfetched, itemsOutofmemory, itemsReclaimed, itemsTailrepairs,
     itemsExpiredUnfetched, itemsMovesToCold, itemsMovesToWarm, itemsMovesWithinLru,
     itemsHot, itemsWarm, itemsCold, itemsTemporary,
     itemsAgeOldestHot, itemsAgeOldestWarm, slabsChunkSize, slabsChunksPerPage,
     slabsCurrentPages, slabsCurrentChunks, slabsChunksUsed, slabsChunksFree,
     slabsChunksFreeEnd, slabsMemRequested, slabsCommands, extstoreCompactLost,
     extstoreCompactRescues, extstoreCompactSkipped, extstorePageAllocs, extstorePageEvictions,
     extstorePageReclaims, extstorePagesFree, extstorePagesUsed, extstoreObjectsEvicted,
     extstoreObjectsRead, extstoreObjectsWritten, extstoreObjectsUsed, extstoreBytesEvicted,
     extstoreBytesWritten, extstoreBytesRead, extstoreBytesUsed, extstoreBytesFragmented,
     extstoreBytesLimit, extstoreIOQueueDepth, acceptingConnections]"

section \<open>Scalar parsers\<close>

definition parse :: "'f float64 \<Rightarrow> raw_record \<Rightarrow> string \<Rightarrow> error + 'f" where
  "parse fl stats key =
     (case stats key of
        None \<Rightarrow> Inl errKeyNotFound
      | Some val \<Rightarrow>
          (case ParseFloat fl val of
             None \<Rightarrow> Inl (NumError val)
           | Some v \<Rightarrow> Inr v))"

definition parseBool :: "'f float64 \<Rightarrow> raw_record \<Rightarrow> string \<Rightarrow> error + 'f" where
  "parseBool fl stats key =
     (case stats key of
        None \<Rightarrow> Inl errKeyNotFound
      | Some val \<Rightarrow>
          (if val = ''yes'' then Inr (fone fl)
           else if val = ''no'' then Inr (fzero fl)
           else Inl errParseBool))"

definition parseTimeval :: "'f float64 \<Rightarrow> raw_record \<Rightarrow> string \<Rightarrow> error + 'f" where
  "parseTimeval fl stats key =
     (case stats key of
        None \<Rightarrow> Inl errKeyNotFound
      | Some val \<Rightarrow>
          (case Split val (CHR ''.'') of
             [v0, v1] \<Rightarrow>
               (case ParseFloat fl v0 of
                  None \<Rightarrow> Inl errParseTimeval
                | Some seconds \<Rightarrow>
                    (case ParseFloat fl v1 of
                       None \<Rightarrow> Inl errParseTimeval
                     | Some microseconds \<Rightarrow>
                         Inr (fadd fl seconds (fdiv fl microseconds (fmillion fl)))))
           | _ \<Rightarrow> Inl errParseTimeval))"

text \<open>\<^verbatim>\<open>sum\<close>: the loop over the keys, with the running total \<open>s\<close>, which starts at 0.\<close>

fun sum_loop :: "'f float64 \<Rightarrow> raw_record \<Rightarrow> string list \<Rightarrow> 'f \<Rightarrow> error + 'f" where
  "sum_loop fl stats [] s = Inr s"
| "sum_loop fl stats (key # keys) s =
     (case stats key of
        None \<Rightarrow> Inl errKeyNotFound
      | Some val \<Rightarrow>
          (case ParseFloat fl val of
             None \<Rightarrow> Inl (NumError val)
           | Some v \<Rightarrow> sum_loop fl stats keys (fadd fl s v)))"

definition sum_keys :: "'f float64 \<Rightarrow> raw_record \<Rightarrow> string list \<Rightarrow> error + 'f" where
  "sum_keys fl stats keys = sum_loop fl stats keys (fzero fl)"

fun firstError :: "error option list \<Rightarrow> error option" where
  "firstError [] = None"
| "firstError (v # errors) = (case v of Some e \<Rightarrow> Some e | None \<Rightarrow> firstError errors)"

section \<open>Field-to-metric binder\<close>

definition extractValueAndNewMetric ::
  "Desc \<Rightarrow> ValueType \<Rightarrow> (raw_record \<Rightarrow> string \<Rightarrow> error + 'f) \<Rightarrow> raw_record \<Rightarrow> string \<Rightarrow>
   string list \<Rightarrow> ('f, error option) run" where
  "extractValueAndNewMetric desc valueType f stats key labelValues =
     (case f stats key of
        Inl err \<Rightarrow> (if err = errKeyNotFound then ([], Returns None) else ([], Returns (Some err)))
      | Inr v \<Rightarrow> send (MustNewConstMetric desc valueType v labelValues) None)"

definition parseAndNewMetric ::
  "'f float64 \<Rightarrow> Desc \<Rightarrow> ValueType \<Rightarrow> raw_record \<Rightarrow> string \<Rightarrow> string list \<Rightarrow>
   ('f, error option) run" where
  "parseAndNewMetric fl desc valueType stats key labelValues =
     extractValueAndNewMetric desc valueType (parse fl) stats key labelValues"

definition parseBoolAndNewMetric ::
  "'f float64 \<Rightarrow> Desc \<Rightarrow> ValueType \<Rightarrow> raw_record \<Rightarrow> string \<Rightarrow> string list \<Rightarrow>
   ('f, error option) run" where
  "parseBoolAndNewMetric fl desc valueType stats key labelValues =
     extractValueAndNewMetric desc valueType (parseBool fl) stats key labelValues"

definition parseTimevalAndNewMetric ::
  "'f float64 \<Rightarrow> Desc \<Rightarrow> ValueType \<Rightarrow> raw_record \<Rightarrow> string \<Rightarrow> string list \<Rightarrow>
   ('f, error option) run" where
  "parseTimevalAndNewMetric fl desc valueType stats key labelValues =
     extractValueAndNewMetric desc valueType (parseTimeval fl) stats key labelValues"

section \<open>Sequencing\<close>

text \<open>
  \<^verbatim>\<open>firstError(a, b, ...)\<close> with binder calls as arguments. Go evaluates the arguments from
  left to right: every call sends its observation, until one panics; when all have
  returned, \<^verbatim>\<open>firstError\<close> is called on their errors.
\<close>

fun evalArgs :: "('f, 'a) run list \<Rightarrow> ('f, 'a list) run" where
  "evalArgs [] = ([], Returns [])"
| "evalArgs (c # cs) =
     (case snd c of
        Panics \<Rightarrow> (fst c, Panics)
      | Returns a \<Rightarrow>
          (case snd (evalArgs cs) of
             Panics \<Rightarrow> (fst c @ fst (evalArgs cs), Panics)
           | Returns as \<Rightarrow> (fst c @ fst (evalArgs cs), Returns (a # as))))"

definition firstErrorOf :: "('f, error option) run list \<Rightarrow> ('f, error option) run" where
  "firstErrorOf calls =
     (case snd (evalArgs calls) of
        Panics \<Rightarrow> (fst (evalArgs calls), Panics)
      | Returns errors \<Rightarrow> (fst (evalArgs calls), Returns (firstError errors)))"

text \<open>
  A step followed by \<^verbatim>\<open>if err != nil { parseError = err }\<close> and then by the rest: when the
  step panics the rest is not run; otherwise the observations of both are sent, and the
  error is the later one when there is one. \<open>steps\<close> runs a sequence of such steps,
  starting from \<^verbatim>\<open>var parseError error\<close>.
\<close>

definition andThen :: "('f, error option) run \<Rightarrow> ('f, error option) run \<Rightarrow> ('f, error option) run" where
  "andThen a b =
     (case snd a of
        Panics \<Rightarrow> (fst a, Panics)
      | Returns erra \<Rightarrow>
          (case snd b of
             Panics \<Rightarrow> (fst a @ fst b, Panics)
           | Returns errb \<Rightarrow>
               (fst a @ fst b, Returns (case errb of None \<Rightarrow> erra | Some err \<Rightarrow> Some err))))"

fun steps :: "('f, error option) run list \<Rightarrow> ('f, error option) run" where
  "steps [] = ([], Returns None)"
| "steps (b # bs) = andThen b (steps bs)"

section \<open>Per-server stats translator\<close>

definition ops :: "string list" where
  "ops = [''get'', ''delete'', ''incr'', ''decr'', ''cas'', ''touch'']"

text \<open>
  The two metric tables of \<^verbatim>\<open>parseStats\<close>. They are Go maps that the slab loop ranges
  over; the entries are listed in the order of the source text.
\<close>

definition itemsCounterMetrics :: "(string \<times> Desc) list" where
  "itemsCounterMetrics =
     [(''crawler_reclaimed'', itemsCrawlerReclaimed),
      (''evicted'', itemsEvicted),
      (''evicted_nonzero'', itemsEvictedNonzero),
      (''evicted_time'', itemsEvictedTime),
      (''evicted_unfetched'', itemsEvictedUnfetched),
      (''expired_unfetched'', itemsExpiredUnfetched),
      (''outofmemory'', itemsOutofmemory),
      (''reclaimed'', itemsReclaimed),
      (''tailrepairs'', itemsTailrepairs),
      (''mem_requested'', slabsMemRequested),
      (''moves_to_cold'', itemsMovesToCold),
      (''moves_to_warm'', itemsMovesToWarm),
      (''moves_within_lru'', itemsMovesWithinLru)]"

definition itemsGaugeMetrics :: "(string \<times> Desc) list" where
  "itemsGaugeMetrics =
     [(''number_hot'', itemsHot),
      (''number_warm'', itemsWarm),
      (''number_cold'', itemsCold),
      (''number_temp'', itemsTemporary),
      (''age_hot'', itemsAgeOldestHot),
      (''age_warm'', itemsAgeOldestWarm)]"

text \<open>
  The version observation: the first statement of the loop body, before anything is
  looked up. It panics when the version of the record or the server is no valid UTF-8.
\<close>

definition statsVersion :: "'f float64 \<Rightarrow> raw_record \<Rightarrow> string \<Rightarrow> ('f, error option) run" where
  "statsVersion fl s server =
     send (MustNewConstMetric version GaugeValue (fone fl) [index s ''version'', server]) None"

text \<open>The hit and miss counters of each command.\<close>

definition statsCommands :: "'f float64 \<Rightarrow> raw_record \<Rightarrow> string \<Rightarrow> ('f, error option) run" where
  "statsCommands fl s server =
     steps (map (\<lambda>op. firstErrorOf
       [parseAndNewMetric fl commands CounterValue s (op @ ''_hits'') [op, ''hit'', server],
        parseAndNewMetric fl commands CounterValue s (op @ ''_misses'') [op, ''miss'', server]]) ops)"

definition statsUptime :: "'f float64 \<Rightarrow> raw_record \<Rightarrow> string \<Rightarrow> ('f, error option) run" where
  "statsUptime fl s server =
     firstErrorOf
       [parseAndNewMetric fl uptime CounterValue s ''uptime'' [server],
        parseAndNewMetric fl time GaugeValue s ''time'' [server],
        parseAndNewMetric fl commands CounterValue s ''cas_badval'' [''cas'', ''badval'', server],
        parseAndNewMetric fl commands CounterValue s ''cmd_flush'' [''flush'', ''hit'', server]]"

text \<open>
  \<^verbatim>\<open>// memcached includes cas operations again in cmd_set.\<close>
  The set counter without the cas operations.
\<close>

definition statsSet :: "'f float64 \<Rightarrow> raw_record \<Rightarrow> string \<Rightarrow> ('f, error option) run" where
  "statsSet fl s server =
     (case parse fl s ''cmd_set'' of
        Inr setCmd \<Rightarrow>
          (case sum_keys fl s [''cas_misses'', ''cas_hits'', ''cas_badval''] of
             Inr cas \<Rightarrow>
               send (MustNewConstMetric commands CounterValue (fsub fl setCmd cas)
                       [''set'', ''hit'', server]) None
           | Inl casErr \<Rightarrow> ([], Returns (Some casErr)))
      | Inl err \<Rightarrow> ([], Returns (Some err)))"

text \<open>
  \<^verbatim>\<open>// extstore stats are only included if extstore is actually active. Take the presence\<close>
  \<^verbatim>\<open>// of the maxbytes key as a signal that they all should be there and do the parsing\<close>
\<close>

definition extstoreCalls :: "'f float64 \<Rightarrow> raw_record \<Rightarrow> string \<Rightarrow> ('f, error option) run list" where
  "extstoreCalls fl s server =
     [parseAndNewMetric fl extstoreCompactLost CounterValue s ''extstore_compact_lost'' [server],
      parseAndNewMetric fl extstoreCompactRescues CounterValue s ''extstore_compact_rescues'' [server],
      parseAndNewMetric fl extstoreCompactSkipped CounterValue s ''extstore_compact_skipped'' [server],
      parseAndNewMetric fl extstorePageAllocs CounterValue s ''extstore_page_allocs'' [server],
      parseAndNewMetric fl extstorePageEvictions CounterValue s ''extstore_page_evictions'' [server],
      parseAndNewMetric fl extstorePageReclaims CounterValue s ''extstore_page_reclaims'' [server],
      parseAndNewMetric fl extstorePagesFree GaugeValue s ''extstore_pages_free'' [server],
      parseAndNewMetric fl extstorePagesUsed GaugeValue s ''extstore_pages_used'' [server],
      parseAndNewMetric fl extstoreObjectsEvicted CounterValue s ''extstore_objects_evicted'' [server],
      parseAndNewMetric fl extstoreObjectsRead CounterValue s ''extstore_objects_read'' [server],
      parseAndNewMetric fl extstoreObjectsWritten CounterValue s ''extstore_objects_written'' [server],
      parseAndNewMetric fl extstoreObjectsUsed GaugeValue s ''extstore_objects_used'' [server],
      parseAndNewMetric fl extstoreBytesEvicted CounterValue s ''extstore_bytes_evicted'' [server],
      parseAndNewMetric fl extstoreBytesWritten CounterValue s ''extstore_bytes_written'' [server],
      parseAndNewMetric fl extstoreBytesRead CounterValue s ''extstore_bytes_read'' [server],
      parseAndNewMetric fl extstoreBytesUsed CounterValue s ''extstore_bytes_used'' [server],
      parseAndNewMetric fl extstoreBytesFragmented GaugeValue s ''extstore_bytes_fragmented'' [server],
      parseAndNewMetric fl extstoreBytesLimit GaugeValue s ''extstore_limit_maxbytes'' [server],
      parseAndNewMetric fl extstoreIOQueueDepth GaugeValue s ''extstore_io_queue'' [server]]"

definition statsExtstore :: "'f float64 \<Rightarrow> raw_record \<Rightarrow> string \<Rightarrow> ('f, error option) run" where
  "statsExtstore fl s server =
     (if s ''extstore_limit_maxbytes'' \<noteq> None then firstErrorOf (extstoreCalls fl s server)
      else ([], Returns None))"

definition generalCalls :: "'f float64 \<Rightarrow> raw_record \<Rightarrow> string \<Rightarrow> ('f, error option) run list" where
  "generalCalls fl s server =
     [parseTimevalAndNewMetric fl rusageUser CounterValue s ''rusage_user'' [server],
      parseTimevalAndNewMetric fl rusageSystem CounterValue s ''rusage_system'' [server],
      parseAndNewMetric fl currentBytes GaugeValue s ''bytes'' [server],
      parseAndNewMetric fl limitBytes GaugeValue s ''limit_maxbytes'' [server],
      parseAndNewMetric fl items GaugeValue s ''curr_items'' [server],
      parseAndNewMetric fl itemsTotal CounterValue s ''total_items'' [server],
      parseAndNewMetric fl bytesRead CounterValue s ''bytes_read'' [server],
      parseAndNewMetric fl bytesWritten CounterValue s ''bytes_written'' [server],
      parseAndNewMetric fl currentConnections GaugeValue s ''curr_connections'' [server],
      parseAndNewMetric fl connectionsTotal CounterValue s ''total_connections'' [server],
      parseAndNewMetric fl rejectedConnections CounterValue s ''rejected_connections'' [server],
      parseAndNewMetric fl connsYieldedTotal CounterValue s ''conn_yields'' [server],
      parseAndNewMetric fl listenerDisabledTotal CounterValue s ''listen_disabled_num'' [server],
      parseAndNewMetric fl evictions CounterValue s ''evictions'' [server],
      parseAndNewMetric fl reclaimed CounterValue s ''reclaimed'' [server],
      parseAndNewMetric fl lruCrawlerStarts CounterValue s ''lru_crawler_starts'' [server],
      parseAndNewMetric fl lruCrawlerItemsChecked CounterValue s ''crawler_items_checked'' [server],
      parseAndNewMetric fl lruCrawlerReclaimed CounterValue s ''crawler_reclaimed'' [server],
      parseAndNewMetric fl lruCrawlerMovesToCold CounterValue s ''moves_to_cold'' [server],
      parseAndNewMetric fl lruCrawlerMovesToWarm CounterValue s ''moves_to_warm'' [server],
      parseAndNewMetric fl lruCrawlerMovesWithinLru CounterValue s ''moves_within_lru'' [server],
      parseAndNewMetric fl malloced GaugeValue s ''total_malloced'' [server],
      parseAndNewMetric fl acceptingConnections GaugeValue s ''accepting_conns'' [server]]"

definition statsGeneral :: "'f float64 \<Rightarrow> raw_record \<Rightarrow> string \<Rightarrow> ('f, error option) run" where
  "statsGeneral fl s server = firstErrorOf (generalCalls fl s server)"

text \<open>
  One round of \<^verbatim>\<open>for slab, u := range t.Items\<close>. A table entry is bound only when its key is
  in the record of the slab.
\<close>

definition itemsTable ::
  "'f float64 \<Rightarrow> ValueType \<Rightarrow> (string \<times> Desc) list \<Rightarrow> raw_record \<Rightarrow> string \<Rightarrow> string \<Rightarrow>
   ('f, error option) run" where
  "itemsTable fl valueType table u slab server =
     steps (map (\<lambda>(m, d).
       if u m = None then ([], Returns None)
       else parseAndNewMetric fl d valueType u m [slab, server]) table)"

definition itemsCalls ::
  "'f float64 \<Rightarrow> raw_record \<Rightarrow> string \<Rightarrow> string \<Rightarrow> ('f, error option) run list" where
  "itemsCalls fl u slab server =
     [parseAndNewMetric fl itemsNumber GaugeValue u ''number'' [slab, server],
      parseAndNewMetric fl itemsAge GaugeValue u ''age'' [slab, server],
      parseAndNewMetric fl itemsLruHits CounterValue u ''hits_to_hot'' [slab, ''hot'', server],
      parseAndNewMetric fl itemsLruHits CounterValue u ''hits_to_warm'' [slab, ''warm'', server],
      parseAndNewMetric fl itemsLruHits CounterValue u ''hits_to_cold'' [slab, ''cold'', server],
      parseAndNewMetric fl itemsLruHits CounterValue u ''hits_to_temp'' [slab, ''temporary'', server]]"

definition statsItems :: "'f float64 \<Rightarrow> int \<times> raw_record \<Rightarrow> string \<Rightarrow> ('f, error option) run" where
  "statsItems fl entry server =
     (let slab = Itoa (fst entry); u = snd entry in
      steps
        [firstErrorOf (itemsCalls fl u slab server),
         itemsTable fl CounterValue itemsCounterMetrics u slab server,
         itemsTable fl GaugeValue itemsGaugeMetrics u slab server])"

text \<open>One round of \<^verbatim>\<open>for slab, v := range t.Slabs\<close>, in three parts.\<close>

definition slabCommands ::
  "'f float64 \<Rightarrow> raw_record \<Rightarrow> string \<Rightarrow> string \<Rightarrow> ('f, error option) run" where
  "slabCommands fl v slab server =
     steps
       (map (\<lambda>op. parseAndNewMetric fl slabsCommands CounterValue v (op @ ''_hits'')
                    [slab, op, ''hit'', server]) ops
        @ [parseAndNewMetric fl slabsCommands CounterValue v ''cas_badval''
             [slab, ''cas'', ''badval'', server]])"

definition slabSet :: "'f float64 \<Rightarrow> raw_record \<Rightarrow> string \<Rightarrow> string \<Rightarrow> ('f, error option) run" where
  "slabSet fl v slab server =
     (case parse fl v ''cmd_set'' of
        Inr slabSetCmd \<Rightarrow>
          (case sum_keys fl v [''cas_hits'', ''cas_badval''] of
             Inr slabCas \<Rightarrow>
               send (MustNewConstMetric slabsCommands CounterValue (fsub fl slabSetCmd slabCas)
                       [slab, ''set'', ''hit'', server]) None
           | Inl slabCasErr \<Rightarrow> ([], Returns (Some slabCasErr)))
      | Inl err \<Rightarrow> ([], Returns (Some err)))"

definition chunkCalls ::
  "'f float64 \<Rightarrow> raw_record \<Rightarrow> string \<Rightarrow> string \<Rightarrow> ('f, error option) run list" where
  "chunkCalls fl v slab server =
     [parseAndNewMetric fl slabsChunkSize GaugeValue v ''chunk_size'' [slab, server],
      parseAndNewMetric fl slabsChunksPerPage GaugeValue v ''chunks_per_page'' [slab, server],
      parseAndNewMetric fl slabsCurrentPages GaugeValue v ''total_pages'' [slab, server],
      parseAndNewMetric fl slabsCurrentChunks GaugeValue v ''total_chunks'' [slab, server],
      parseAndNewMetric fl slabsChunksUsed GaugeValue v ''used_chunks'' [slab, server],
      parseAndNewMetric fl slabsChunksFree GaugeValue v ''free_chunks'' [slab, server],
      parseAndNewMetric fl slabsChunksFreeEnd GaugeValue v ''free_chunks_end'' [slab, server],
      parseAndNewMetric fl slabsMemRequested GaugeValue v ''mem_requested'' [slab, server]]"

definition slabChunks ::
  "'f float64 \<Rightarrow> raw_record \<Rightarrow> string \<Rightarrow> string \<Rightarrow> ('f, error option) run" where
  "slabChunks fl v slab server = firstErrorOf (chunkCalls fl v slab server)"

definition statsSlabs :: "'f float64 \<Rightarrow> int \<times> raw_record \<Rightarrow> string \<Rightarrow> ('f, error option) run" where
  "statsSlabs fl entry server =
     (let slab = Itoa (fst entry); v = snd entry in
      steps
        [slabCommands fl v slab server,
         slabSet fl v slab server,
         slabChunks fl v slab server])"

text \<open>The body of \<^verbatim>\<open>for _, t := range stats\<close>, and the loop.\<close>

definition parseStatsRecord :: "'f float64 \<Rightarrow> Stats \<Rightarrow> string \<Rightarrow> ('f, error option) run" where
  "parseStatsRecord fl t server =
     (let s = Stats t in
      steps
        ([statsVersion fl s server,
          statsCommands fl s server,
          statsUptime fl s server,
          statsSet fl s server,
          statsExtstore fl s server,
          statsGeneral fl s server]
         @ map (\<lambda>entry. statsItems fl entry server) (Items t)
         @ map (\<lambda>entry. statsSlabs fl entry server) (Slabs t)))"

definition parseStats ::
  "'f float64 \<Rightarrow> (string \<times> Stats) list \<Rightarrow> string \<Rightarrow> ('f, error option) run" where
  "parseStats fl stats server = steps (map (\<lambda>(addr, t). parseStatsRecord fl t server) stats)"

section \<open>Settings translator\<close>

definition crawlerCalls :: "'f float64 \<Rightarrow> raw_record \<Rightarrow> string \<Rightarrow> ('f, error option) run list" where
  "crawlerCalls fl settings server =
     [parseBoolAndNewMetric fl lruCrawlerEnabled GaugeValue settings ''lru_crawler'' [server],
      parseAndNewMetric fl lruCrawlerSleep GaugeValue settings ''lru_crawler_sleep'' [server],
      parseAndNewMetric fl lruCrawlerMaxItems GaugeValue settings ''lru_crawler_tocrawl'' [server],
      parseBoolAndNewMetric fl lruMaintainerThread GaugeValue settings ''lru_maintainer_thread'' [server],
      parseAndNewMetric fl lruHotPercent GaugeValue settings ''hot_lru_pct'' [server],
      parseAndNewMetric fl lruWarmPercent GaugeValue settings ''warm_lru_pct'' [server],
      parseAndNewMetric fl lruHotMaxAgeFactor GaugeValue settings ''hot_max_factor'' [server],
      parseAndNewMetric fl lruWarmMaxAgeFactor GaugeValue settings ''warm_max_factor'' [server]]"

definition parseSettingsRecord :: "'f float64 \<Rightarrow> raw_record \<Rightarrow> string \<Rightarrow> ('f, error option) run" where
  "parseSettingsRecord fl settings server =
     steps
       [parseAndNewMetric fl maxConnections GaugeValue settings ''maxconns'' [server],
        (if settings ''lru_crawler'' = Some ''yes''
         then firstErrorOf (crawlerCalls fl settings server)
         else ([], Returns None))]"

definition parseStatsSettings ::
  "'f float64 \<Rightarrow> (string \<times> raw_record) list \<Rightarrow> string \<Rightarrow> ('f, error option) run" where
  "parseStatsSettings fl statsSettings server =
     steps (map (\<lambda>(addr, settings). parseSettingsRecord fl settings server) statsSettings)"

section \<open>Collector\<close>

text \<open>
  A piece of the program, and then a second one that is given what the first returned:
  the second is not run when the first panics.
\<close>

definition next_run :: "('f, 'a) run \<Rightarrow> ('a \<Rightarrow> ('f, 'b) run) \<Rightarrow> ('f, 'b) run" where
  "next_run r f =
     (case snd r of
        Panics \<Rightarrow> (fst r, Panics)
      | Returns a \<Rightarrow> (fst r @ fst (f a), snd (f a)))"

text \<open>
  \<^verbatim>\<open>CollectServer\<close>. \<open>up1\<close> to \<open>up4\<close> are the local \<^verbatim>\<open>up\<close> of the source after each of its four
  tests.
\<close>

definition CollectServer :: "'f float64 \<Rightarrow> client \<Rightarrow> string \<Rightarrow> ('f, unit) run" where
  "CollectServer fl c server =
     (case newErr c of
        Some err \<Rightarrow> send (MustNewConstMetric up GaugeValue (fzero fl) [server]) ()
      | None \<Rightarrow>
          (let up0 = fone fl;
               (stats, err1) = statsResult c;
               up1 = (if err1 \<noteq> None then fzero fl else up0);
               (statsSettings, err2) = settingsResult c;
               up2 = (if err2 \<noteq> None then fzero fl else up1)
           in next_run (parseStats fl stats server) (\<lambda>err3.
                let up3 = (if err3 \<noteq> None then fzero fl else up2)
                in next_run (parseStatsSettings fl statsSettings server) (\<lambda>err4.
                     let up4 = (if err4 \<noteq> None then fzero fl else up3)
                     in send (MustNewConstMetric up GaugeValue up4 [server]) ()))))"

text \<open>
  \<^verbatim>\<open>Collect\<close> starts one goroutine per address, each running \<^verbatim>\<open>CollectServer\<close> and sending to
  the same channel, and waits for all of them. The workers share nothing else, so the
  observations of a cycle are those of the workers, interleaved in some order, and a
  worker that panics ends the program. The run below is the schedule in which the workers
  run one after the other. \<open>net\<close> gives what the memcache client returns for each address.
\<close>

fun Collect :: "'f float64 \<Rightarrow> (string \<Rightarrow> client) \<Rightarrow> string list \<Rightarrow> ('f, unit) run" where
  "Collect fl net [] = ([], Returns ())"
| "Collect fl net (address # addresses) =
     next_run (CollectServer fl (net address) address) (\<lambda>_. Collect fl net addresses)"

section \<open>Notions used in the statements\<close>

text \<open>
  An integer numeral in text: decimal digits, not empty, with an optional sign in front.
\<close>

definition isDigit :: "char \<Rightarrow> bool" where
  "isDigit c = (c \<in> set ''0123456789'')"

definition int_literal :: "string \<Rightarrow> bool" where
  "int_literal s =
     (case s of
        [] \<Rightarrow> False
      | c # cs \<Rightarrow>
          (if c = CHR ''-'' \<or> c = CHR ''+'' then cs \<noteq> [] \<and> list_all isDigit cs
           else list_all isDigit s))"

text \<open>A byte below 128. A string of such bytes is valid UTF-8.\<close>

definition ascii :: "char \<Rightarrow> bool" where
  "ascii c = (\<not> digit7 c)"

text \<open>
  An instance of the \<^verbatim>\<open>float64\<close> operations for the examples. Its values are real numbers,
  its arithmetic is exact, and its \<open>ParseFloat\<close> reads a non-empty string of decimal digits
  as the integer it denotes and rejects every other string. \<^verbatim>\<open>float64\<close> arithmetic rounds and
  \<^verbatim>\<open>strconv.ParseFloat\<close> accepts more strings; the examples use the instance only at integers
  below a million and at 12.5, where \<^verbatim>\<open>float64\<close> is exact and \<^verbatim>\<open>strconv.ParseFloat\<close> reads the
  same number, and at the words \<^verbatim>\<open>many\<close>, \<^verbatim>\<open>soon\<close> and \<^verbatim>\<open>x\<close>, which \<^verbatim>\<open>strconv.ParseFloat\<close> rejects as
  well.
\<close>

definition digitVal :: "char \<Rightarrow> nat option" where
  "digitVal = map_of (zip ''0123456789'' [0, 1, 2, 3, 4, 5, 6, 7, 8, 9])"

fun decimal_loop :: "string \<Rightarrow> nat \<Rightarrow> nat option" where
  "decimal_loop [] n = Some n"
| "decimal_loop (c # cs) n =
     (case digitVal c of
        None \<Rightarrow> None
      | Some d \<Rightarrow> decimal_loop cs (10 * n + d))"

definition decimal :: "string \<Rightarrow> real option" where
  "decimal val = (if val = [] then None else map_option real (decimal_loop val 0))"

definition exact :: "real float64" where
  "exact =
     \<lparr>ParseFloat = decimal, fzero = 0, fone = 1, fmillion = 1000000,
      fadd = (\<lambda>x y. x + y), fsub = (\<lambda>x y. x - y), fdiv = (\<lambda>x y. x / y)\<rparr>"

text \<open>The descriptors of the two groups that are bound only under a condition.\<close>

definition extstoreDescs :: "Desc list" where
  "extstoreDescs =
     [extstoreCompactLost, extstoreCompactRescues, extstoreCompactSkipped, extstorePageAllocs,
      extstorePageEvictions, extstorePageReclaims, extstorePagesFree, extstorePagesUsed,
      extstoreObjectsEvicted, extstoreObjectsRead, extstoreObjectsWritten, extstoreObjectsUsed,
      extstoreBytesEvicted, extstoreBytesWritten, extstoreBytesRead, extstoreBytesUsed,
      extstoreBytesFragmented, extstoreBytesLimit, extstoreIOQueueDepth]"

definition crawlerDescs :: "Desc list" where
  "crawlerDescs =
     [lruCrawlerEnabled, lruCrawlerSleep, lruCrawlerMaxItems, lruMaintainerThread,
      lruHotPercent, lruWarmPercent, lruHotMaxAgeFactor, lruWarmMaxAgeFactor]"

text \<open>
  The descriptors that the parts of \<^verbatim>\<open>parseStats\<close> use: the server-level ones outside the
  version and extstore observations, those of the loop over \<^verbatim>\<open>t.Items\<close>, and those of the
  loop over \<^verbatim>\<open>t.Slabs\<close>.
\<close>

definition generalDescs :: "Desc list" where
  "generalDescs =
     [rusageUser, rusageSystem, currentBytes, limitBytes, items, itemsTotal, bytesRead,
      bytesWritten, currentConnections, connectionsTotal, rejectedConnections,
      connsYieldedTotal, listenerDisabledTotal, evictions, reclaimed, lruCrawlerStarts,
      lruCrawlerItemsChecked, lruCrawlerReclaimed, lruCrawlerMovesToCold,
      lruCrawlerMovesToWarm, lruCrawlerMovesWithinLru, malloced, acceptingConnections]"

definition serverDescs :: "Desc list" where
  "serverDescs = [commands, uptime, time] @ generalDescs"

definition itemsDescs :: "Desc list" where
  "itemsDescs =
     [itemsNumber, itemsAge, itemsLruHits] @ map snd itemsCounterMetrics @ map snd itemsGaugeMetrics"

definition chunkDescs :: "Desc list" where
  "chunkDescs =
     [slabsChunkSize, slabsChunksPerPage, slabsCurrentPages, slabsCurrentChunks,
      slabsChunksUsed, slabsChunksFree, slabsChunksFreeEnd, slabsMemRequested]"

definition slabsDescs :: "Desc list" where
  "slabsDescs = slabsCommands # chunkDescs"

text \<open>
  The keys that the translators read as numbers, part by part, in the order of the
  calls, and the inputs of the two derived set counters.
\<close>

definition commandKeys :: "string list" where
  "commandKeys = concat (map (\<lambda>op. [op @ ''_hits'', op @ ''_misses'']) ops)"

definition uptimeKeys :: "string list" where
  "uptimeKeys = [''uptime'', ''time'', ''cas_badval'', ''cmd_flush'']"

definition setKeys :: "string list" where
  "setKeys = [''cmd_set'', ''cas_misses'', ''cas_hits'', ''cas_badval'']"

definition extstoreKeys :: "string list" where
  "extstoreKeys =
     [''extstore_compact_lost'', ''extstore_compact_rescues'', ''extstore_compact_skipped'',
      ''extstore_page_allocs'', ''extstore_page_evictions'', ''extstore_page_reclaims'',
      ''extstore_pages_free'', ''extstore_pages_used'', ''extstore_objects_evicted'',
      ''extstore_objects_read'', ''extstore_objects_written'', ''extstore_objects_used'',
      ''extstore_bytes_evicted'', ''extstore_bytes_written'', ''extstore_bytes_read'',
      ''extstore_bytes_used'', ''extstore_bytes_fragmented'', ''extstore_limit_maxbytes'',
      ''extstore_io_queue'']"

definition timevalKeys :: "string list" where
  "timevalKeys = [''rusage_user'', ''rusage_system'']"

definition generalKeys :: "string list" where
  "generalKeys =
     [''bytes'', ''limit_maxbytes'', ''curr_items'', ''total_items'', ''bytes_read'',
      ''bytes_written'', ''curr_connections'', ''total_connections'', ''rejected_connections'',
      ''conn_yields'', ''listen_disabled_num'', ''evictions'', ''reclaimed'',
      ''lru_crawler_starts'', ''crawler_items_checked'', ''crawler_reclaimed'',
      ''moves_to_cold'', ''moves_to_warm'', ''moves_within_lru'', ''total_malloced'',
      ''accepting_conns'']"

definition itemsKeys :: "string list" where
  "itemsKeys =
     [''number'', ''age'', ''hits_to_hot'', ''hits_to_warm'', ''hits_to_cold'', ''hits_to_temp'']
     @ map fst itemsCounterMetrics @ map fst itemsGaugeMetrics"

definition slabSetKeys :: "string list" where
  "slabSetKeys = [''cmd_set'', ''cas_hits'', ''cas_badval'']"

definition chunkKeys :: "string list" where
  "chunkKeys =
     [''chunk_size'', ''chunks_per_page'', ''total_pages'', ''total_chunks'', ''used_chunks'',
      ''free_chunks'', ''free_chunks_end'', ''mem_requested'']"

definition slabKeys :: "string list" where
  "slabKeys = map (\<lambda>op. op @ ''_hits'') ops @ [''cas_badval''] @ slabSetKeys @ chunkKeys"

definition crawlerKeys :: "string list" where
  "crawlerKeys =
     [''lru_crawler_sleep'', ''lru_crawler_tocrawl'', ''hot_lru_pct'', ''warm_lru_pct'',
      ''hot_max_factor'', ''warm_max_factor'']"

text \<open>
  A field that is there and malformed for the parser that reads it: a value that
  ParseFloat rejects, a value that is no split duration, a flag that is neither \<^verbatim>\<open>yes\<close> nor
  \<^verbatim>\<open>no\<close>.
\<close>

definition rejected :: "'f float64 \<Rightarrow> raw_record \<Rightarrow> string \<Rightarrow> bool" where
  "rejected fl u key = (case u key of None \<Rightarrow> False | Some val \<Rightarrow> ParseFloat fl val = None)"

definition notTimeval :: "'f float64 \<Rightarrow> raw_record \<Rightarrow> string \<Rightarrow> bool" where
  "notTimeval fl u key = (parseTimeval fl u key = Inl errParseTimeval)"

definition notBool :: "raw_record \<Rightarrow> string \<Rightarrow> bool" where
  "notBool u key = (case u key of None \<Rightarrow> False | Some val \<Rightarrow> val \<noteq> ''yes'' \<and> val \<noteq> ''no'')"

text \<open>
  A stats record with a malformed field among those the translator reads, a stats record
  that lacks an input of a derived set counter, and a settings record with a malformed
  field among those the translator reads.
\<close>

definition malformedStats :: "'f float64 \<Rightarrow> Stats \<Rightarrow> bool" where
  "malformedStats fl t =
     ((\<exists>k\<in>set (commandKeys @ uptimeKeys @ setKeys @ generalKeys). rejected fl (Stats t) k) \<or>
      (Stats t ''extstore_limit_maxbytes'' \<noteq> None \<and>
         (\<exists>k\<in>set extstoreKeys. rejected fl (Stats t) k)) \<or>
      (\<exists>k\<in>set timevalKeys. notTimeval fl (Stats t) k) \<or>
      (\<exists>u\<in>snd ` set (Items t). \<exists>k\<in>set itemsKeys. rejected fl u k) \<or>
      (\<exists>v\<in>snd ` set (Slabs t). \<exists>k\<in>set slabKeys. rejected fl v k))"

definition missingSetInput :: "Stats \<Rightarrow> bool" where
  "missingSetInput t =
     ((\<exists>k\<in>set setKeys. Stats t k = None) \<or>
      (\<exists>v\<in>snd ` set (Slabs t). \<exists>k\<in>set slabSetKeys. v k = None))"

definition malformedSettings :: "'f float64 \<Rightarrow> raw_record \<Rightarrow> bool" where
  "malformedSettings fl settings =
     (rejected fl settings ''maxconns'' \<or>
      (settings ''lru_crawler'' = Some ''yes'' \<and>
         ((\<exists>k\<in>set crawlerKeys. rejected fl settings k) \<or>
          notBool settings ''lru_maintainer_thread'')))"

text \<open>
  The label values that one run of \<^verbatim>\<open>CollectServer\<close> hands to \<^verbatim>\<open>MustNewConstMetric\<close> from
  outside the program are all valid UTF-8: the server address and, when the client was
  created, the version string of every stats record that the client returns.
\<close>

definition labelsValid :: "client \<Rightarrow> string \<Rightarrow> bool" where
  "labelsValid c server =
     (ValidString server \<and>
      (newErr c = None \<longrightarrow>
         (\<forall>t\<in>snd ` set (fst (statsResult c)). ValidString (index (Stats t) ''version''))))"


section \<open>Basic facts\<close>

text \<open>The descriptors with their names worked out, and the number of their labels.\<close>

lemma desc_vals:
  "up = NewDesc ''memcached_up'' [''server'']"
  "uptime = NewDesc ''memcached_uptime_seconds'' [''server'']"
  "time = NewDesc ''memcached_time_seconds'' [''server'']"
  "version = NewDesc ''memcached_version'' [''version'', ''server'']"
  "rusageUser = NewDesc ''memcached_process_user_cpu_seconds_total'' [''server'']"
  "rusageSystem = NewDesc ''memcached_process_system_cpu_seconds_total'' [''server'']"
  "bytesRead = NewDesc ''memcached_read_bytes_total'' [''server'']"
  "bytesWritten = NewDesc ''memcached_written_bytes_total'' [''server'']"
  "currentConnections = NewDesc ''memcached_current_connections'' [''server'']"
  "maxConnections = NewDesc ''memcached_max_connections'' [''server'']"
  "connectionsTotal = NewDesc ''memcached_connections_total'' [''server'']"
  "rejectedConnections = NewDesc ''memcached_connections_rejected_total'' [''server'']"
  "connsYieldedTotal = NewDesc ''memcached_connections_yielded_total'' [''server'']"
  "listenerDisabledTotal = NewDesc ''memcached_connections_listener_disabled_total'' [''server'']"
  "currentBytes = NewDesc ''memcached_current_bytes'' [''server'']"
  "limitBytes = NewDesc ''memcached_limit_bytes'' [''server'']"
  "commands = NewDesc ''memcached_commands_total'' [''command'', ''status'', ''server'']"
  "items = NewDesc ''memcached_current_items'' [''server'']"
  "itemsTotal = NewDesc ''memcached_items_total'' [''server'']"
  "evictions = NewDesc ''memcached_items_evicted_total'' [''server'']"
  "reclaimed = NewDesc ''memcached_items_reclaimed_total'' [''server'']"
  "lruCrawlerEnabled = NewDesc ''memcached_lru_crawler_enabled'' [''server'']"
  "lruCrawlerSleep = NewDesc ''memcached_lru_crawler_sleep'' [''server'']"
  "lruCrawlerMaxItems = NewDesc ''memcached_lru_crawler_to_crawl'' [''server'']"
  "lruMaintainerThread = NewDesc ''memcached_lru_crawler_maintainer_thread'' [''server'']"
  "lruHotPercent = NewDesc ''memcached_lru_crawler_hot_percent'' [''server'']"
  "lruWarmPercent = NewDesc ''memcached_lru_crawler_warm_percent'' [''server'']"
  "lruHotMaxAgeFactor = NewDesc ''memcached_lru_crawler_hot_max_factor'' [''server'']"
  "lruWarmMaxAgeFactor = NewDesc ''memcached_lru_crawler_warm_max_factor'' [''server'']"
  "lruCrawlerStarts = NewDesc ''memcached_lru_crawler_starts_total'' [''server'']"
  "lruCrawlerReclaimed = NewDesc ''memcached_lru_crawler_reclaimed_total'' [''server'']"
  "lruCrawlerItemsChecked = NewDesc ''memcached_lru_crawler_items_checked_total'' [''server'']"
  "lruCrawlerMovesToCold = NewDesc ''memcached_lru_crawler_moves_to_cold_total'' [''server'']"
  "lruCrawlerMovesToWarm = NewDesc ''memcached_lru_crawler_moves_to_warm_total'' [''server'']"
  "lruCrawlerMovesWithinLru = NewDesc ''memcached_lru_crawler_moves_within_lru_total'' [''server'']"
  "malloced = NewDesc ''memcached_malloced_bytes'' [''server'']"
  "itemsNumber = NewDesc ''memcached_slab_current_items'' [''slab'', ''server'']"
  "itemsAge = NewDesc ''memcached_slab_items_age_seconds'' [''slab'', ''server'']"
  "itemsCrawlerReclaimed = NewDesc ''memcached_slab_items_crawler_reclaimed_total'' [''slab'', ''server'']"
  "itemsEvicted = NewDesc ''memcached_slab_items_evicted_total'' [''slab'', ''server'']"
  "itemsEvictedNonzero = NewDesc ''memcached_slab_items_evicted_nonzero_total'' [''slab'', ''server'']"
  "itemsEvictedTime = NewDesc ''memcached_slab_items_evicted_time_seconds'' [''slab'', ''server'']"
  "itemsEvictedUnfetched = NewDesc ''memcached_slab_items_evicted_unfetched_total'' [''slab'', ''server'']"
  "itemsExpiredUnfetched = NewDesc ''memcached_slab_items_expired_unfetched_total'' [''slab'', ''server'']"
  "itemsOutofmemory = NewDesc ''memcached_slab_items_outofmemory_total'' [''slab'', ''server'']"
  "itemsReclaimed = NewDesc ''memcached_slab_items_reclaimed_total'' [''slab'', ''server'']"
  "itemsTailrepairs = NewDesc ''memcached_slab_items_tailrepairs_total'' [''slab'', ''server'']"
  "itemsMovesToCold = NewDesc ''memcached_slab_items_moves_to_cold'' [''slab'', ''server'']"
  "itemsMovesToWarm = NewDesc ''memcached_slab_items_moves_to_warm'' [''slab'', ''server'']"
  "itemsMovesWithinLru = NewDesc ''memcached_slab_items_moves_within_lru'' [''slab'', ''server'']"
  "itemsHot = NewDesc ''memcached_slab_hot_items'' [''slab'', ''server'']"
  "itemsWarm = NewDesc ''memcached_slab_warm_items'' [''slab'', ''server'']"
  "itemsCold = NewDesc ''memcached_slab_cold_items'' [''slab'', ''server'']"
  "itemsTemporary = NewDesc ''memcached_slab_temporary_items'' [''slab'', ''server'']"
  "itemsAgeOldestHot = NewDesc ''memcached_slab_hot_age_seconds'' [''slab'', ''server'']"
  "itemsAgeOldestWarm = NewDesc ''memcached_slab_warm_age_seconds'' [''slab'', ''server'']"
  "itemsLruHits = NewDesc ''memcached_slab_lru_hits_total'' [''slab'', ''lru'', ''server'']"
  "slabsChunkSize = NewDesc ''memcached_slab_chunk_size_bytes'' [''slab'', ''server'']"
  "slabsChunksPerPage = NewDesc ''memcached_slab_chunks_per_page'' [''slab'', ''server'']"
  "slabsCurrentPages = NewDesc ''memcached_slab_current_pages'' [''slab'', ''server'']"
  "slabsCurrentChunks = NewDesc ''memcached_slab_current_chunks'' [''slab'', ''server'']"
  "slabsChunksUsed = NewDesc ''memcached_slab_chunks_used'' [''slab'', ''server'']"
  "slabsChunksFree = NewDesc ''memcached_slab_chunks_free'' [''slab'', ''server'']"
  "slabsChunksFreeEnd = NewDesc ''memcached_slab_chunks_free_end'' [''slab'', ''server'']"
  "slabsMemRequested = NewDesc ''memcached_slab_mem_requested_bytes'' [''slab'', ''server'']"
  "slabsCommands = NewDesc ''memcached_slab_commands_total'' [''slab'', ''command'', ''status'', ''server'']"
  "extstoreCompactLost = NewDesc ''memcached_extstore_compact_lost_total'' [''server'']"
  "extstoreCompactRescues = NewDesc ''memcached_extstore_compact_rescued_total'' [''server'']"
  "extstoreCompactSkipped = NewDesc ''memcached_extstore_compact_skipped_total'' [''server'']"
  "extstorePageAllocs = NewDesc ''memcached_extstore_pages_allocated_total'' [''server'']"
  "extstorePageEvictions = NewDesc ''memcached_extstore_pages_evicted_total'' [''server'']"
  "extstorePageReclaims = NewDesc ''memcached_extstore_pages_reclaimed_total'' [''server'']"
  "extstorePagesFree = NewDesc ''memcached_extstore_pages_free'' [''server'']"
  "extstorePagesUsed = NewDesc ''memcached_extstore_pages_used'' [''server'']"
  "extstoreObjectsEvicted = NewDesc ''memcached_extstore_objects_evicted_total'' [''server'']"
  "extstoreObjectsRead = NewDesc ''memcached_extstore_objects_read_total'' [''server'']"
  "extstoreObjectsWritten = NewDesc ''memcached_extstore_objects_written_total'' [''server'']"
  "extstoreObjectsUsed = NewDesc ''memcached_extstore_objects_used'' [''server'']"
  "extstoreBytesEvicted = NewDesc ''memcached_extstore_bytes_evicted_total'' [''server'']"
  "extstoreBytesWritten = NewDesc ''memcached_extstore_bytes_written_total'' [''server'']"
  "extstoreBytesRead = NewDesc ''memcached_extstore_bytes_read_total'' [''server'']"
  "extstoreBytesUsed = NewDesc ''memcached_extstore_bytes_used'' [''server'']"
  "extstoreBytesFragmented = NewDesc ''memcached_extstore_bytes_fragmented'' [''server'']"
  "extstoreBytesLimit = NewDesc ''memcached_extstore_bytes_limit'' [''server'']"
  "extstoreIOQueueDepth = NewDesc ''memcached_extstore_io_queue_depth'' [''server'']"
  "acceptingConnections = NewDesc ''memcached_accepting_connections'' [''server'']"
  by (simp_all add: descs BuildFQName_def Namespace_def subsystemLruCrawler_def subsystemSlab_def)

lemma desc_arity:
  "length (variableLabels up) = 1"
  "length (variableLabels uptime) = 1"
  "length (variableLabels time) = 1"
  "length (variableLabels version) = 2"
  "length (variableLabels rusageUser) = 1"
  "length (variableLabels rusageSystem) = 1"
  "length (variableLabels bytesRead) = 1"
  "length (variableLabels bytesWritten) = 1"
  "length (variableLabels currentConnections) = 1"
  "length (variableLabels maxConnections) = 1"
  "length (variableLabels connectionsTotal) = 1"
  "length (variableLabels rejectedConnections) = 1"
  "length (variableLabels connsYieldedTotal) = 1"
  "length (variableLabels listenerDisabledTotal) = 1"
  "length (variableLabels currentBytes) = 1"
  "length (variableLabels limitBytes) = 1"
  "length (variableLabels commands) = 3"
  "length (variableLabels items) = 1"
  "length (variableLabels itemsTotal) = 1"
  "length (variableLabels evictions) = 1"
  "length (variableLabels reclaimed) = 1"
  "length (variableLabels lruCrawlerEnabled) = 1"
  "length (variableLabels lruCrawlerSleep) = 1"
  "length (variableLabels lruCrawlerMaxItems) = 1"
  "length (variableLabels lruMaintainerThread) = 1"
  "length (variableLabels lruHotPercent) = 1"
  "length (variableLabels lruWarmPercent) = 1"
  "length (variableLabels lruHotMaxAgeFactor) = 1"
  "length (variableLabels lruWarmMaxAgeFactor) = 1"
  "length (variableLabels lruCrawlerStarts) = 1"
  "length (variableLabels lruCrawlerReclaimed) = 1"
  "length (variableLabels lruCrawlerItemsChecked) = 1"
  "length (variableLabels lruCrawlerMovesToCold) = 1"
  "length (variableLabels lruCrawlerMovesToWarm) = 1"
  "length (variableLabels lruCrawlerMovesWithinLru) = 1"
  "length (variableLabels malloced) = 1"
  "length (variableLabels itemsNumber) = 2"
  "length (variableLabels itemsAge) = 2"
  "length (variableLabels itemsCrawlerReclaimed) = 2"
  "length (variableLabels itemsEvicted) = 2"
  "length (variableLabels itemsEvictedNonzero) = 2"
  "length (variableLabels itemsEvictedTime) = 2"
  "length (variableLabels itemsEvictedUnfetched) = 2"
  "length (variableLabels itemsExpiredUnfetched) = 2"
  "length (variableLabels itemsOutofmemory) = 2"
  "length (variableLabels itemsReclaimed) = 2"
  "length (variableLabels itemsTailrepairs) = 2"
  "length (variableLabels itemsMovesToCold) = 2"
  "length (variableLabels itemsMovesToWarm) = 2"
  "length (variableLabels itemsMovesWithinLru) = 2"
  "length (variableLabels itemsHot) = 2"
  "length (variableLabels itemsWarm) = 2"
  "length (variableLabels itemsCold) = 2"
  "length (variableLabels itemsTemporary) = 2"
  "length (variableLabels itemsAgeOldestHot) = 2"
  "length (variableLabels itemsAgeOldestWarm) = 2"
  "length (variableLabels itemsLruHits) = 3"
  "length (variableLabels slabsChunkSize) = 2"
  "length (variableLabels slabsChunksPerPage) = 2"
  "length (variableLabels slabsCurrentPages) = 2"
  "length (variableLabels slabsCurrentChunks) = 2"
  "length (variableLabels slabsChunksUsed) = 2"
  "length (variableLabels slabsChunksFree) = 2"
  "length (variableLabels slabsChunksFreeEnd) = 2"
  "length (variableLabels slabsMemRequested) = 2"
  "length (variableLabels slabsCommands) = 4"
  "length (variableLabels extstoreCompactLost) = 1"
  "length (variableLabels extstoreCompactRescues) = 1"
  "length (variableLabels extstoreCompactSkipped) = 1"
  "length (variableLabels extstorePageAllocs) = 1"
  "length (variableLabels extstorePageEvictions) = 1"
  "length (variableLabels extstorePageReclaims) = 1"
  "length (variableLabels extstorePagesFree) = 1"
  "length (variableLabels extstorePagesUsed) = 1"
  "length (variableLabels extstoreObjectsEvicted) = 1"
  "length (variableLabels extstoreObjectsRead) = 1"
  "length (variableLabels extstoreObjectsWritten) = 1"
  "length (variableLabels extstoreObjectsUsed) = 1"
  "length (variableLabels extstoreBytesEvicted) = 1"
  "length (variableLabels extstoreBytesWritten) = 1"
  "length (variableLabels extstoreBytesRead) = 1"
  "length (variableLabels extstoreBytesUsed) = 1"
  "length (variableLabels extstoreBytesFragmented) = 1"
  "length (variableLabels extstoreBytesLimit) = 1"
  "length (variableLabels extstoreIOQueueDepth) = 1"
  "length (variableLabels acceptingConnections) = 1"
  by (simp_all add: desc_vals)

subsection \<open>Label values\<close>

lemma ascii_byte: "ascii c \<Longrightarrow> (of_char c :: nat) < 128"
  by (cases c) (simp add: ascii_def)

lemma ascii_valid: "list_all ascii s \<Longrightarrow> ValidString s"
  unfolding ValidString_def by (induction s) (simp_all add: ascii_byte)

lemma digit_ascii: "n < 10 \<Longrightarrow> ascii (digit n)"
proof -
  assume "n < 10"
  moreover have "list_all ascii ''0123456789''"
    by (simp add: ascii_def)
  ultimately show ?thesis
    unfolding digit_def by (simp add: list_all_length)
qed

lemma digits_ascii: "list_all ascii (digits n)"
proof (induction n rule: digits.induct)
  case (1 n)
  show ?case
  proof (cases "n < 10")
    case True
    then show ?thesis by (subst digits.simps) (simp add: digit_ascii)
  next
    case False
    with 1 show ?thesis by (subst digits.simps) (simp add: digit_ascii)
  qed
qed

lemma Itoa_valid: "ValidString (Itoa i)"
  by (rule ascii_valid) (simp add: Itoa_def digits_ascii ascii_def)

lemmas valid_simps = validateLabelValues_def desc_arity ascii_valid ascii_def Itoa_valid

subsection \<open>Sequencing\<close>

lemma evalArgs_panics: "(snd (evalArgs cs) = Panics) = (\<exists>c\<in>set cs. snd c = Panics)"
  by (induction cs) (auto split: ending.splits)

lemma evalArgs_sent: "m \<in> set (fst (evalArgs cs)) \<Longrightarrow> \<exists>c\<in>set cs. m \<in> set (fst c)"
  by (induction cs) (auto split: ending.splits)

lemma evalArgs_Returns:
  "snd (evalArgs cs) = Returns as \<Longrightarrow>
   fst (evalArgs cs) = concat (map fst cs) \<and> map snd cs = map Returns as"
  by (induction cs arbitrary: as) (auto split: ending.splits)

lemma firstError_None: "(firstError es = None) = (\<forall>e\<in>set es. e = None)"
  by (induction es) (auto split: option.splits)

lemma firstError_Some: "firstError es = Some e \<Longrightarrow> Some e \<in> set es"
  by (induction es) (auto split: option.splits)

lemma firstErrorOf_panics: "(snd (firstErrorOf cs) = Panics) = (\<exists>c\<in>set cs. snd c = Panics)"
  using evalArgs_panics [of cs] by (auto simp: firstErrorOf_def split: ending.splits)

lemma firstErrorOf_sent: "m \<in> set (fst (firstErrorOf cs)) \<Longrightarrow> \<exists>c\<in>set cs. m \<in> set (fst c)"
  using evalArgs_sent [of m cs] by (auto simp: firstErrorOf_def split: ending.splits)

lemma firstErrorOf_fst:
  "\<forall>c\<in>set cs. snd c \<noteq> Panics \<Longrightarrow> fst (firstErrorOf cs) = concat (map fst cs)"
proof -
  assume "\<forall>c\<in>set cs. snd c \<noteq> Panics"
  then obtain as where "snd (evalArgs cs) = Returns as"
    using evalArgs_panics [of cs] by (cases "snd (evalArgs cs)") auto
  then show ?thesis
    using evalArgs_Returns [of cs as] by (simp add: firstErrorOf_def)
qed

lemma firstErrorOf_None:
  "(snd (firstErrorOf cs) = Returns None) = (\<forall>c\<in>set cs. snd c = Returns None)"
proof
  assume "snd (firstErrorOf cs) = Returns None"
  then obtain as where a: "snd (evalArgs cs) = Returns as" and n: "firstError as = None"
    by (auto simp: firstErrorOf_def split: ending.splits)
  from a have "map snd cs = map Returns as"
    using evalArgs_Returns by blast
  moreover from n have "\<forall>e\<in>set as. e = None"
    by (simp add: firstError_None)
  ultimately have "\<forall>x\<in>set (map snd cs). x = Returns None"
    by auto
  then show "\<forall>c\<in>set cs. snd c = Returns None"
    by simp
next
  assume all: "\<forall>c\<in>set cs. snd c = Returns None"
  then obtain as where a: "snd (evalArgs cs) = Returns as"
    using evalArgs_panics [of cs] by (cases "snd (evalArgs cs)") auto
  then have "map snd cs = map Returns as"
    using evalArgs_Returns by blast
  then have "set (map Returns as) = set (map snd cs)"
    by simp
  with all have "\<forall>x\<in>set (map Returns as). x = Returns None"
    by simp
  then have "\<forall>e\<in>set as. e = None"
    by simp
  with a show "snd (firstErrorOf cs) = Returns None"
    by (simp add: firstErrorOf_def firstError_None)
qed

lemma firstErrorOf_Some:
  "snd (firstErrorOf cs) = Returns (Some e) \<Longrightarrow> \<exists>c\<in>set cs. snd c = Returns (Some e)"
proof -
  assume "snd (firstErrorOf cs) = Returns (Some e)"
  then obtain as where a: "snd (evalArgs cs) = Returns as" and n: "firstError as = Some e"
    by (auto simp: firstErrorOf_def split: ending.splits)
  from n have "Returns (Some e) \<in> set (map Returns as)"
    using firstError_Some by fastforce
  with a have "Returns (Some e) \<in> set (map snd cs)"
    using evalArgs_Returns [of cs as] by simp
  then obtain c where "c \<in> set cs" and "snd c = Returns (Some e)"
    by (auto simp: image_iff)
  then show ?thesis by blast
qed

lemma steps_panics: "(snd (steps bs) = Panics) = (\<exists>b\<in>set bs. snd b = Panics)"
  by (induction bs) (auto simp: andThen_def split: ending.splits)

lemma steps_sent: "m \<in> set (fst (steps bs)) \<Longrightarrow> \<exists>b\<in>set bs. m \<in> set (fst b)"
  by (induction bs) (auto simp: andThen_def split: ending.splits)

lemma steps_fst:
  "\<forall>b\<in>set bs. snd b \<noteq> Panics \<Longrightarrow> fst (steps bs) = concat (map fst bs)"
proof (induction bs)
  case Nil
  then show ?case by simp
next
  case (Cons b bs)
  then have "snd (steps bs) \<noteq> Panics"
    by (simp add: steps_panics)
  with Cons show ?case
    by (auto simp: andThen_def split: ending.splits)
qed

lemma steps_None: "(snd (steps bs) = Returns None) = (\<forall>b\<in>set bs. snd b = Returns None)"
  by (induction bs) (auto simp: andThen_def split: ending.splits option.splits)

lemma steps_Some:
  "snd (steps bs) = Returns (Some e) \<Longrightarrow> \<exists>b\<in>set bs. snd b = Returns (Some e)"
  by (induction bs) (auto simp: andThen_def split: ending.splits option.splits)

text \<open>A run that does not panic returns an error or none.\<close>

lemma returns_cases:
  "snd r \<noteq> Panics \<Longrightarrow> (\<exists>e. snd r = Returns (Some e)) = (snd r \<noteq> Returns None)"
  by (cases "snd r") auto

subsection \<open>The binder\<close>

lemma extract_sent:
  "m \<in> set (fst (extractValueAndNewMetric d vt f u k ls)) \<Longrightarrow>
   mdesc m = d \<and> mtype m = vt \<and> mlabels m = ls"
  by (auto simp: extractValueAndNewMetric_def send_def MustNewConstMetric_def
      split: sum.splits if_splits)

lemma parse_sent:
  "m \<in> set (fst (parseAndNewMetric fl d vt u k ls)) \<Longrightarrow> mdesc m = d \<and> mlabels m = ls"
  unfolding parseAndNewMetric_def using extract_sent by blast

lemma timeval_sent:
  "m \<in> set (fst (parseTimevalAndNewMetric fl d vt u k ls)) \<Longrightarrow> mdesc m = d \<and> mlabels m = ls"
  unfolding parseTimevalAndNewMetric_def using extract_sent by blast

lemma bool_sent:
  "m \<in> set (fst (parseBoolAndNewMetric fl d vt u k ls)) \<Longrightarrow> mdesc m = d \<and> mlabels m = ls"
  unfolding parseBoolAndNewMetric_def using extract_sent by blast

lemma send_valid:
  "validateLabelValues ls (length (variableLabels d)) \<Longrightarrow>
   send (MustNewConstMetric d vt v ls) a = ([Metric d vt v ls], Returns a)"
  by (simp add: send_def MustNewConstMetric_def)

lemma send_invalid:
  "\<not> validateLabelValues ls (length (variableLabels d)) \<Longrightarrow>
   send (MustNewConstMetric d vt v ls) a = ([], Panics)"
  by (simp add: send_def MustNewConstMetric_def)

lemma parseAndNewMetric_ok:
  "u k = Some val \<Longrightarrow> ParseFloat fl val = Some x \<Longrightarrow>
   validateLabelValues ls (length (variableLabels d)) \<Longrightarrow>
   parseAndNewMetric fl d vt u k ls = ([Metric d vt x ls], Returns None)"
  by (simp add: parseAndNewMetric_def extractValueAndNewMetric_def parse_def send_valid)

lemma parse_returns:
  "validateLabelValues ls (length (variableLabels d)) \<Longrightarrow>
   snd (parseAndNewMetric fl d vt u k ls) \<noteq> Panics"
  by (simp add: parseAndNewMetric_def extractValueAndNewMetric_def send_valid
      split: sum.splits)

lemma timeval_returns:
  "validateLabelValues ls (length (variableLabels d)) \<Longrightarrow>
   snd (parseTimevalAndNewMetric fl d vt u k ls) \<noteq> Panics"
  by (simp add: parseTimevalAndNewMetric_def extractValueAndNewMetric_def send_valid
      split: sum.splits)

lemma bool_returns:
  "validateLabelValues ls (length (variableLabels d)) \<Longrightarrow>
   snd (parseBoolAndNewMetric fl d vt u k ls) \<noteq> Panics"
  by (simp add: parseBoolAndNewMetric_def extractValueAndNewMetric_def send_valid
      split: sum.splits)

lemma parse_None:
  "validateLabelValues ls (length (variableLabels d)) \<Longrightarrow>
   (snd (parseAndNewMetric fl d vt u k ls) = Returns None) = (\<not> rejected fl u k)"
  by (simp add: parseAndNewMetric_def extractValueAndNewMetric_def send_valid parse_def
      rejected_def split: option.splits)

lemma timeval_None:
  "validateLabelValues ls (length (variableLabels d)) \<Longrightarrow>
   (snd (parseTimevalAndNewMetric fl d vt u k ls) = Returns None) = (\<not> notTimeval fl u k)"
  by (auto simp: parseTimevalAndNewMetric_def extractValueAndNewMetric_def send_valid
      parseTimeval_def notTimeval_def split: option.splits list.splits sum.splits)

lemma bool_None:
  "validateLabelValues ls (length (variableLabels d)) \<Longrightarrow>
   (snd (parseBoolAndNewMetric fl d vt u k ls) = Returns None) = (\<not> notBool u k)"
  by (simp add: parseBoolAndNewMetric_def extractValueAndNewMetric_def send_valid parseBool_def
      notBool_def split: option.splits)

subsection \<open>Splitting on the separator\<close>

lemma Split_not_Nil: "Split s sep \<noteq> []"
  by (induction s) (auto split: list.splits)

lemma Split_no_sep: "sep \<notin> set s \<Longrightarrow> Split s sep = [s]"
  by (induction s) auto

lemma Split_at_sep: "sep \<notin> set a \<Longrightarrow> Split (a @ sep # b) sep = a # Split b sep"
  by (induction a) auto

lemma length_Split: "length (Split s sep) = Suc (count_list s sep)"
  by (induction s) (auto split: list.splits simp: Split_not_Nil)

lemma isDigit_not_dot: "isDigit c \<Longrightarrow> c \<noteq> CHR ''.''"
  by (auto simp: isDigit_def)

lemma digits_no_dot: "list_all isDigit s \<Longrightarrow> CHR ''.'' \<notin> set s"
  using isDigit_not_dot by (induction s) auto

lemma int_literal_no_dot: "int_literal s \<Longrightarrow> CHR ''.'' \<notin> set s"
proof (cases s)
  case Nil
  then show ?thesis by simp
next
  case (Cons c cs)
  assume "int_literal s"
  with Cons have "(c = CHR ''-'' \<or> c = CHR ''+'') \<and> list_all isDigit cs \<or> list_all isDigit (c # cs)"
    by (simp add: int_literal_def split: if_splits)
  then have "CHR ''.'' \<notin> set (c # cs)"
    using digits_no_dot [of cs] digits_no_dot [of "c # cs"] by auto
  with Cons show ?thesis by simp
qed

section \<open>The binder on a missing key\<close>

text \<open>
  Claim C5. For every raw record and every key that is not in the record, a binder call
  for that key sends no observation and returns no error, whichever of the three parsers
  (numeric, boolean, split duration) reads the field.
\<close>

theorem binder_absent_key_noop:
  "stats key = None \<Longrightarrow>
   parseAndNewMetric fl desc valueType stats key labelValues = ([], Returns None) \<and>
   parseBoolAndNewMetric fl desc valueType stats key labelValues = ([], Returns None) \<and>
   parseTimevalAndNewMetric fl desc valueType stats key labelValues = ([], Returns None)"
  by (simp add: parseAndNewMetric_def parseBoolAndNewMetric_def parseTimevalAndNewMetric_def
      extractValueAndNewMetric_def parse_def parseBool_def parseTimeval_def)

theorem binder_absent_key_noop_witness:
  "[''time'' \<mapsto> ''7''] ''uptime'' = None \<and>
   parseAndNewMetric exact uptime CounterValue [''time'' \<mapsto> ''7''] ''uptime'' [''srv'']
     = ([], Returns None) \<and>
   parseBoolAndNewMetric exact uptime CounterValue [''time'' \<mapsto> ''7''] ''uptime'' [''srv'']
     = ([], Returns None) \<and>
   parseTimevalAndNewMetric exact uptime CounterValue [''time'' \<mapsto> ''7''] ''uptime'' [''srv'']
     = ([], Returns None)"
proof -
  have h: "[''time'' \<mapsto> ''7''] ''uptime'' = None" by simp
  show ?thesis
    using h binder_absent_key_noop [of "[''time'' \<mapsto> ''7'']" "''uptime''" exact uptime
        CounterValue "[''srv'']"]
    by simp
qed

section \<open>The split-duration parser\<close>

text \<open>
  Claim C6. For a value that is there and has the form \<open>S.F\<close> with integer numerals \<open>S\<close> and
  \<open>F\<close>, read by ParseFloat as \<open>s\<close> and \<open>f\<close>, \<^verbatim>\<open>parseTimeval\<close> returns \<open>s + f / 1000000\<close>, the sum
  and the quotient being those of \<^verbatim>\<open>float64\<close>, and the binder sends it when the label values
  pass. For a value that is there and does not split into exactly two parts at the dots,
  or has a part that ParseFloat rejects, \<^verbatim>\<open>parseTimeval\<close> fails with its own error and the
  binder sends nothing.
\<close>

theorem parseTimeval_split_duration:
  "(stats key = Some (S @ ''.'' @ F) \<and> int_literal S \<and> int_literal F \<and>
      ParseFloat fl S = Some s \<and> ParseFloat fl F = Some f \<longrightarrow>
    parseTimeval fl stats key = Inr (fadd fl s (fdiv fl f (fmillion fl))) \<and>
    (validateLabelValues labelValues (length (variableLabels desc)) \<longrightarrow>
     parseTimevalAndNewMetric fl desc valueType stats key labelValues =
       ([Metric desc valueType (fadd fl s (fdiv fl f (fmillion fl))) labelValues], Returns None)))
   \<and>
   (stats key = Some val \<and>
      (length (Split val (CHR ''.'')) \<noteq> 2 \<or>
       (\<exists>p\<in>set (Split val (CHR ''.'')). ParseFloat fl p = None)) \<longrightarrow>
    parseTimeval fl stats key = Inl errParseTimeval \<and>
    parseTimevalAndNewMetric fl desc valueType stats key labelValues =
      ([], Returns (Some errParseTimeval)))"
proof (intro conjI impI)
  assume h: "stats key = Some (S @ ''.'' @ F) \<and> int_literal S \<and> int_literal F \<and>
      ParseFloat fl S = Some s \<and> ParseFloat fl F = Some f"
  then have "Split (S @ ''.'' @ F) (CHR ''.'') = [S, F]"
    using Split_at_sep [of "CHR ''.''" S F] Split_no_sep [of "CHR ''.''" F]
    by (simp add: int_literal_no_dot)
  with h show r: "parseTimeval fl stats key = Inr (fadd fl s (fdiv fl f (fmillion fl)))"
    by (simp add: parseTimeval_def)
  show "parseTimevalAndNewMetric fl desc valueType stats key labelValues =
      ([Metric desc valueType (fadd fl s (fdiv fl f (fmillion fl))) labelValues], Returns None)"
    if "validateLabelValues labelValues (length (variableLabels desc))"
    using r that by (simp add: parseTimevalAndNewMetric_def extractValueAndNewMetric_def send_valid)
next
  assume h: "stats key = Some val \<and>
      (length (Split val (CHR ''.'')) \<noteq> 2 \<or>
       (\<exists>p\<in>set (Split val (CHR ''.'')). ParseFloat fl p = None))"
  then show r: "parseTimeval fl stats key = Inl errParseTimeval"
    by (auto simp: parseTimeval_def split: list.splits option.splits)
  then show "parseTimevalAndNewMetric fl desc valueType stats key labelValues =
      ([], Returns (Some errParseTimeval))"
    by (simp add: parseTimevalAndNewMetric_def extractValueAndNewMetric_def)
qed

theorem parseTimeval_split_duration_witness:
  "parseTimeval exact [''rusage_user'' \<mapsto> ''12.500000''] ''rusage_user'' = Inr (25 / 2) \<and>
   parseTimevalAndNewMetric exact rusageUser CounterValue [''rusage_user'' \<mapsto> ''12.500000'']
       ''rusage_user'' [''srv'']
     = ([Metric rusageUser CounterValue (25 / 2) [''srv'']], Returns None) \<and>
   parseTimeval exact [''rusage_user'' \<mapsto> ''1.2.3''] ''rusage_user'' = Inl errParseTimeval \<and>
   parseTimevalAndNewMetric exact rusageUser CounterValue [''rusage_user'' \<mapsto> ''1.2.3'']
       ''rusage_user'' [''srv'']
     = ([], Returns (Some errParseTimeval))"
proof -
  have h1: "[''rusage_user'' \<mapsto> ''12.500000''] ''rusage_user'' = Some (''12'' @ ''.'' @ ''500000'') \<and>
      int_literal ''12'' \<and> int_literal ''500000'' \<and>
      ParseFloat exact ''12'' = Some 12 \<and> ParseFloat exact ''500000'' = Some 500000"
    by (simp add: int_literal_def isDigit_def exact_def decimal_def digitVal_def)
  have h2: "[''rusage_user'' \<mapsto> ''1.2.3''] ''rusage_user'' = Some ''1.2.3'' \<and>
      (length (Split ''1.2.3'' (CHR ''.'')) \<noteq> 2 \<or>
       (\<exists>p\<in>set (Split ''1.2.3'' (CHR ''.'')). ParseFloat exact p = None))"
    by simp
  have v: "validateLabelValues [''srv''] (length (variableLabels rusageUser))"
    by (simp add: valid_simps)
  have a: "fadd exact 12 (fdiv exact 500000 (fmillion exact)) = 25 / 2"
    by (simp add: exact_def)
  show ?thesis
    using h1 h2 v
      parseTimeval_split_duration [of "[''rusage_user'' \<mapsto> ''12.500000'']" "''rusage_user''"
        "''12''" "''500000''" exact 12 500000 "[''srv'']" rusageUser CounterValue "''12.500000''"]
      parseTimeval_split_duration [of "[''rusage_user'' \<mapsto> ''1.2.3'']" "''rusage_user''"
        "''1''" "''2''" exact 1 2 "[''srv'']" rusageUser CounterValue "''1.2.3''"]
    unfolding a by blast
qed

section \<open>What the translators send\<close>

lemma filter_none: "(\<And>m. m \<in> set xs \<Longrightarrow> \<not> P m) \<Longrightarrow> filter P xs = []"
  by (simp add: filter_empty_conv)

lemma filter_desc_none:
  "(\<And>m. m \<in> set xs \<Longrightarrow> mdesc m \<in> set ds) \<Longrightarrow> d \<notin> set ds \<Longrightarrow>
   filter (\<lambda>m. mdesc m = d \<and> Q m) xs = []"
  by (rule filter_none) auto

lemma filter_concat_none:
  "(\<And>x m. x \<in> set xs \<Longrightarrow> m \<in> set (f x) \<Longrightarrow> \<not> P m) \<Longrightarrow>
   filter P (concat (map f xs)) = []"
  by (rule filter_none) auto

declare steps.simps [simp del]

text \<open>
  A property of everything a part sends follows from the same property of what its calls
  send. These hold whether or not the part panics.
\<close>

lemma steps_all:
  "list_all (\<lambda>b. list_all P (fst b)) bs \<Longrightarrow> list_all P (fst (steps bs))"
  using steps_sent [of _ bs] by (auto simp: list_all_iff)

lemma firstErrorOf_all:
  "list_all (\<lambda>c. list_all P (fst c)) cs \<Longrightarrow> list_all P (fst (firstErrorOf cs))"
  using firstErrorOf_sent [of _ cs] by (auto simp: list_all_iff)

lemma extract_all:
  "\<forall>v. P (Metric d vt v ls) \<Longrightarrow> list_all P (fst (extractValueAndNewMetric d vt f u k ls))"
  by (auto simp: extractValueAndNewMetric_def send_def MustNewConstMetric_def
      split: sum.splits if_splits)

lemma parse_all:
  "\<forall>v. P (Metric d vt v ls) \<Longrightarrow> list_all P (fst (parseAndNewMetric fl d vt u k ls))"
  unfolding parseAndNewMetric_def by (rule extract_all)

lemma timeval_all:
  "\<forall>v. P (Metric d vt v ls) \<Longrightarrow> list_all P (fst (parseTimevalAndNewMetric fl d vt u k ls))"
  unfolding parseTimevalAndNewMetric_def by (rule extract_all)

lemma bool_all:
  "\<forall>v. P (Metric d vt v ls) \<Longrightarrow> list_all P (fst (parseBoolAndNewMetric fl d vt u k ls))"
  unfolding parseBoolAndNewMetric_def by (rule extract_all)

lemma send_all:
  "\<forall>v. P (Metric d vt v ls) \<Longrightarrow> list_all P (fst (send (MustNewConstMetric d vt x ls) a))"
  by (simp add: send_def MustNewConstMetric_def)

lemma list_all_sent: "list_all P xs \<Longrightarrow> m \<in> set xs \<Longrightarrow> P m"
  by (simp add: list_all_iff)

lemmas all_simps = steps_all firstErrorOf_all parse_all timeval_all bool_all send_all

text \<open>The descriptor and the labels of what each part sends.\<close>

lemma statsVersion_sent:
  "m \<in> set (fst (statsVersion fl s server)) \<Longrightarrow> mdesc m = version"
  by (auto simp: statsVersion_def send_def MustNewConstMetric_def split: if_splits)

lemma statsCommands_sent:
  "m \<in> set (fst (statsCommands fl s server)) \<Longrightarrow>
   mdesc m = commands \<and>
   (\<exists>op\<in>set ops. mlabels m = [op, ''hit'', server] \<or> mlabels m = [op, ''miss'', server])"
  by (rule list_all_sent [where xs = "fst (statsCommands fl s server)"])
    (simp_all add: statsCommands_def all_simps ops_def)

lemma statsUptime_sent:
  "m \<in> set (fst (statsUptime fl s server)) \<Longrightarrow>
   mdesc m = uptime \<or> mdesc m = time \<or>
   mdesc m = commands \<and>
     (mlabels m = [''cas'', ''badval'', server] \<or> mlabels m = [''flush'', ''hit'', server])"
  by (rule list_all_sent [where xs = "fst (statsUptime fl s server)"])
    (simp_all add: statsUptime_def all_simps)

lemma statsSet_sent:
  "m \<in> set (fst (statsSet fl s server)) \<Longrightarrow>
   mdesc m = commands \<and> mlabels m = [''set'', ''hit'', server]"
  by (auto simp: statsSet_def send_def MustNewConstMetric_def split: sum.splits if_splits)

lemma statsExtstore_sent:
  "m \<in> set (fst (statsExtstore fl s server)) \<Longrightarrow> mdesc m \<in> set extstoreDescs"
  by (rule list_all_sent [where xs = "fst (statsExtstore fl s server)"])
    (simp_all add: statsExtstore_def extstoreCalls_def extstoreDescs_def all_simps)

lemma statsGeneral_sent:
  "m \<in> set (fst (statsGeneral fl s server)) \<Longrightarrow> mdesc m \<in> set generalDescs"
  by (rule list_all_sent [where xs = "fst (statsGeneral fl s server)"])
    (simp_all add: statsGeneral_def generalCalls_def generalDescs_def all_simps)

lemma itemsTable_all:
  "list_all (\<lambda>m. mdesc m \<in> snd ` set table) (fst (itemsTable fl vt table u slab server))"
  unfolding itemsTable_def
  by (rule steps_all) (force simp: list_all_iff dest!: parse_sent split: if_splits)

lemma itemsTable_sub:
  "snd ` set table \<subseteq> set ds \<Longrightarrow>
   list_all (\<lambda>m. mdesc m \<in> set ds) (fst (itemsTable fl vt table u slab server))"
  using itemsTable_all [of table fl vt u slab server] by (auto simp: list_all_iff)

lemma statsItems_sent:
  "m \<in> set (fst (statsItems fl entry server)) \<Longrightarrow> mdesc m \<in> set itemsDescs"
proof -
  have c: "snd ` set itemsCounterMetrics \<subseteq> set itemsDescs"
    and g: "snd ` set itemsGaugeMetrics \<subseteq> set itemsDescs"
    by (simp_all add: itemsCounterMetrics_def itemsGaugeMetrics_def itemsDescs_def)
  have f: "list_all (\<lambda>m. mdesc m \<in> set itemsDescs)
      (fst (firstErrorOf (itemsCalls fl (snd entry) (Itoa (fst entry)) server)))"
    by (simp add: itemsCalls_def itemsDescs_def all_simps)
  have "list_all (\<lambda>m. mdesc m \<in> set itemsDescs) (fst (statsItems fl entry server))"
    unfolding statsItems_def Let_def
    by (rule steps_all) (simp add: f itemsTable_sub [OF c] itemsTable_sub [OF g])
  then show "m \<in> set (fst (statsItems fl entry server)) \<Longrightarrow> mdesc m \<in> set itemsDescs"
    by (rule list_all_sent)
qed

lemma slabCommands_sent:
  "m \<in> set (fst (slabCommands fl v slab server)) \<Longrightarrow>
   mdesc m = slabsCommands \<and>
   ((\<exists>op\<in>set ops. mlabels m = [slab, op, ''hit'', server]) \<or>
    mlabels m = [slab, ''cas'', ''badval'', server])"
  by (rule list_all_sent [where xs = "fst (slabCommands fl v slab server)"])
    (simp_all add: slabCommands_def all_simps ops_def)

lemma slabSet_sent:
  "m \<in> set (fst (slabSet fl v slab server)) \<Longrightarrow>
   mdesc m = slabsCommands \<and> mlabels m = [slab, ''set'', ''hit'', server]"
  by (auto simp: slabSet_def send_def MustNewConstMetric_def split: sum.splits if_splits)

lemma slabChunks_sent:
  "m \<in> set (fst (slabChunks fl v slab server)) \<Longrightarrow> mdesc m \<in> set chunkDescs"
  by (rule list_all_sent [where xs = "fst (slabChunks fl v slab server)"])
    (simp_all add: slabChunks_def chunkCalls_def chunkDescs_def all_simps)

lemma statsSlabs_parts:
  "m \<in> set (fst (statsSlabs fl entry server)) \<Longrightarrow>
   m \<in> set (fst (slabCommands fl (snd entry) (Itoa (fst entry)) server)) \<or>
   m \<in> set (fst (slabSet fl (snd entry) (Itoa (fst entry)) server)) \<or>
   m \<in> set (fst (slabChunks fl (snd entry) (Itoa (fst entry)) server))"
  unfolding statsSlabs_def Let_def
  by (drule steps_sent) auto

lemma statsSlabs_sent:
  "m \<in> set (fst (statsSlabs fl entry server)) \<Longrightarrow> mdesc m \<in> set slabsDescs"
proof -
  assume "m \<in> set (fst (statsSlabs fl entry server))"
  then consider
      "m \<in> set (fst (slabCommands fl (snd entry) (Itoa (fst entry)) server))"
    | "m \<in> set (fst (slabSet fl (snd entry) (Itoa (fst entry)) server))"
    | "m \<in> set (fst (slabChunks fl (snd entry) (Itoa (fst entry)) server))"
    using statsSlabs_parts by blast
  then show ?thesis
  proof cases
    case 1
    then have "mdesc m = slabsCommands" by (simp add: slabCommands_sent)
    then show ?thesis by (simp add: slabsDescs_def)
  next
    case 2
    then have "mdesc m = slabsCommands" by (simp add: slabSet_sent)
    then show ?thesis by (simp add: slabsDescs_def)
  next
    case 3
    then have "mdesc m \<in> set chunkDescs" by (rule slabChunks_sent)
    then show ?thesis by (simp add: slabsDescs_def)
  qed
qed

text \<open>The parts of a stats record after the version observation.\<close>

lemma after_version_sent:
  "m \<in> set (fst (statsCommands fl s server)) \<or>
   m \<in> set (fst (statsUptime fl s server)) \<or>
   m \<in> set (fst (statsSet fl s server)) \<or>
   m \<in> set (fst (statsGeneral fl s server)) \<Longrightarrow>
   mdesc m \<in> set serverDescs"
  using statsCommands_sent [of m fl s server] statsUptime_sent [of m fl s server]
    statsSet_sent [of m fl s server] statsGeneral_sent [of m fl s server]
  by (auto simp: serverDescs_def)

lemma parseStatsRecord_parts:
  "m \<in> set (fst (parseStatsRecord fl t server)) \<Longrightarrow>
   m \<in> set (fst (statsVersion fl (Stats t) server)) \<or>
   m \<in> set (fst (statsCommands fl (Stats t) server)) \<or>
   m \<in> set (fst (statsUptime fl (Stats t) server)) \<or>
   m \<in> set (fst (statsSet fl (Stats t) server)) \<or>
   m \<in> set (fst (statsExtstore fl (Stats t) server)) \<or>
   m \<in> set (fst (statsGeneral fl (Stats t) server)) \<or>
   (\<exists>entry\<in>set (Items t). m \<in> set (fst (statsItems fl entry server))) \<or>
   (\<exists>entry\<in>set (Slabs t). m \<in> set (fst (statsSlabs fl entry server)))"
  unfolding parseStatsRecord_def Let_def
  by (drule steps_sent) auto

lemma parseStatsRecord_sent:
  "m \<in> set (fst (parseStatsRecord fl t server)) \<Longrightarrow>
   mdesc m = version \<or> mdesc m \<in> set serverDescs \<or> mdesc m \<in> set extstoreDescs \<or>
   mdesc m \<in> set itemsDescs \<or> mdesc m \<in> set slabsDescs"
  using parseStatsRecord_parts [of m fl t server] statsVersion_sent [of m fl "Stats t" server]
    after_version_sent [of m fl "Stats t" server] statsExtstore_sent [of m fl "Stats t" server]
    statsItems_sent [of m fl _ server] statsSlabs_sent [of m fl _ server]
  by blast

lemma crawlerCalls_all:
  "list_all (\<lambda>c. list_all (\<lambda>m. mdesc m \<in> set crawlerDescs) (fst c))
     (crawlerCalls fl settings server)"
  by (simp add: crawlerCalls_def crawlerDescs_def all_simps)

lemma crawlerCalls_sent:
  "c \<in> set (crawlerCalls fl settings server) \<Longrightarrow> m \<in> set (fst c) \<Longrightarrow>
   mdesc m \<in> set crawlerDescs"
  using crawlerCalls_all [of fl settings server] by (auto simp: list_all_iff)

lemma parseSettingsRecord_sent:
  "m \<in> set (fst (parseSettingsRecord fl settings server)) \<Longrightarrow>
   mdesc m = maxConnections \<or> mdesc m \<in> set crawlerDescs"
proof -
  assume "m \<in> set (fst (parseSettingsRecord fl settings server))"
  then have "\<exists>b\<in>set [parseAndNewMetric fl maxConnections GaugeValue settings ''maxconns'' [server],
      if settings ''lru_crawler'' = Some ''yes''
      then firstErrorOf (crawlerCalls fl settings server) else ([], Returns None)].
      m \<in> set (fst b)"
    unfolding parseSettingsRecord_def by (rule steps_sent)
  then consider
      "m \<in> set (fst (parseAndNewMetric fl maxConnections GaugeValue settings ''maxconns'' [server]))"
    | "m \<in> set (fst (firstErrorOf (crawlerCalls fl settings server)))"
    by (auto split: if_splits)
  then consider
      "m \<in> set (fst (parseAndNewMetric fl maxConnections GaugeValue settings ''maxconns'' [server]))"
    | c where "c \<in> set (crawlerCalls fl settings server)" "m \<in> set (fst c)"
    using firstErrorOf_sent by blast
  then show ?thesis
  proof cases
    case 1
    then show ?thesis using parse_sent by blast
  next
    case 2
    then show ?thesis using crawlerCalls_sent by blast
  qed
qed

text \<open>The descriptor groups are apart from each other.\<close>

lemma up_not_sent:
  "up \<noteq> version \<and> up \<notin> set serverDescs \<and> up \<notin> set extstoreDescs \<and> up \<notin> set itemsDescs \<and>
  up \<notin> set slabsDescs \<and> up \<noteq> maxConnections \<and> up \<notin> set crawlerDescs"
  by code_simp

lemma version_not_sent:
  "version \<notin> set serverDescs \<and> version \<notin> set extstoreDescs \<and> version \<notin> set itemsDescs \<and>
  version \<notin> set slabsDescs"
  by code_simp

lemma extstore_not_sent:
  "\<forall>d\<in>set extstoreDescs.
   d \<noteq> version \<and> d \<notin> set serverDescs \<and> d \<notin> set itemsDescs \<and> d \<notin> set slabsDescs"
  by code_simp

lemma commands_not_sent:
  "commands \<noteq> version \<and> commands \<notin> set extstoreDescs \<and> commands \<notin> set itemsDescs \<and>
   commands \<notin> set slabsDescs \<and> commands \<noteq> uptime \<and> commands \<noteq> time \<and>
   commands \<notin> set generalDescs"
  by code_simp

lemma slabsCommands_not_chunk: "slabsCommands \<notin> set chunkDescs"
  by code_simp

lemma maxConnections_not_crawler: "maxConnections \<notin> set crawlerDescs"
  by code_simp

section \<open>When the translators return\<close>

text \<open>
  With a server label that is valid UTF-8, every part after the version observation
  returns: its other label values are constants of the source and slab numbers, and the
  number of label values is that of the descriptor.
\<close>

lemma statsCommands_returns:
  "ValidString server \<Longrightarrow> snd (statsCommands fl s server) \<noteq> Panics"
  by (simp add: statsCommands_def steps_panics firstErrorOf_panics ops_def parse_returns
      valid_simps)

lemma statsUptime_returns:
  "ValidString server \<Longrightarrow> snd (statsUptime fl s server) \<noteq> Panics"
  by (simp add: statsUptime_def firstErrorOf_panics parse_returns valid_simps)

lemma statsSet_returns:
  "ValidString server \<Longrightarrow> snd (statsSet fl s server) \<noteq> Panics"
  by (simp add: statsSet_def send_valid valid_simps split: sum.splits)

lemma statsExtstore_returns:
  "ValidString server \<Longrightarrow> snd (statsExtstore fl s server) \<noteq> Panics"
  by (simp add: statsExtstore_def extstoreCalls_def firstErrorOf_panics parse_returns valid_simps)

lemma statsGeneral_returns:
  "ValidString server \<Longrightarrow> snd (statsGeneral fl s server) \<noteq> Panics"
  by (simp add: statsGeneral_def generalCalls_def firstErrorOf_panics parse_returns
      timeval_returns valid_simps)

lemma itemsTable_returns:
  "ValidString server \<Longrightarrow> ValidString slab \<Longrightarrow>
   \<forall>entry\<in>set table. length (variableLabels (snd entry)) = 2 \<Longrightarrow>
   snd (itemsTable fl vt table u slab server) \<noteq> Panics"
proof -
  assume v: "ValidString server" "ValidString slab"
    and t: "\<forall>entry\<in>set table. length (variableLabels (snd entry)) = 2"
  have "snd (parseAndNewMetric fl d vt u k [slab, server]) \<noteq> Panics"
    if "length (variableLabels d) = 2" for d k
    using that v by (simp add: parse_returns validateLabelValues_def)
  with t show ?thesis
    by (fastforce simp: itemsTable_def steps_panics split: if_splits)
qed

lemma items_arity:
  "\<forall>entry\<in>set itemsCounterMetrics. length (variableLabels (snd entry)) = 2"
  "\<forall>entry\<in>set itemsGaugeMetrics. length (variableLabels (snd entry)) = 2"
  by (simp_all add: itemsCounterMetrics_def itemsGaugeMetrics_def desc_arity)

lemma statsItems_returns:
  "ValidString server \<Longrightarrow> snd (statsItems fl entry server) \<noteq> Panics"
  by (simp add: statsItems_def itemsCalls_def Let_def steps_panics firstErrorOf_panics
      parse_returns itemsTable_returns items_arity valid_simps)

lemma slabCommands_returns:
  "ValidString server \<Longrightarrow> ValidString slab \<Longrightarrow> snd (slabCommands fl v slab server) \<noteq> Panics"
  by (simp add: slabCommands_def steps_panics ops_def parse_returns valid_simps)

lemma slabSet_returns:
  "ValidString server \<Longrightarrow> ValidString slab \<Longrightarrow> snd (slabSet fl v slab server) \<noteq> Panics"
  by (simp add: slabSet_def send_valid valid_simps split: sum.splits)

lemma slabChunks_returns:
  "ValidString server \<Longrightarrow> ValidString slab \<Longrightarrow> snd (slabChunks fl v slab server) \<noteq> Panics"
  by (simp add: slabChunks_def chunkCalls_def firstErrorOf_panics parse_returns valid_simps)

lemma statsSlabs_returns:
  "ValidString server \<Longrightarrow> snd (statsSlabs fl entry server) \<noteq> Panics"
  by (simp add: statsSlabs_def Let_def steps_panics slabCommands_returns slabSet_returns
      slabChunks_returns Itoa_valid)

lemma statsSlabs_fst:
  "ValidString server \<Longrightarrow>
   fst (statsSlabs fl entry server) =
     fst (slabCommands fl (snd entry) (Itoa (fst entry)) server) @
     fst (slabSet fl (snd entry) (Itoa (fst entry)) server) @
     fst (slabChunks fl (snd entry) (Itoa (fst entry)) server)"
  unfolding statsSlabs_def Let_def
  by (subst steps_fst)
    (simp_all add: slabCommands_returns slabSet_returns slabChunks_returns Itoa_valid)

text \<open>
  The version observation decides whether a stats record runs through: it is the first
  thing sent, with the version of the record and the server as label values.
\<close>

lemma statsVersion_valid:
  "ValidString (index s ''version'') \<Longrightarrow> ValidString server \<Longrightarrow>
   statsVersion fl s server =
     ([Metric version GaugeValue (fone fl) [index s ''version'', server]], Returns None)"
  by (simp add: statsVersion_def send_valid valid_simps)

lemma statsVersion_invalid:
  "\<not> (ValidString (index s ''version'') \<and> ValidString server) \<Longrightarrow>
   statsVersion fl s server = ([], Panics)"
  by (auto simp: statsVersion_def send_def MustNewConstMetric_def valid_simps)

lemma parseStatsRecord_invalid:
  "\<not> (ValidString (index (Stats t) ''version'') \<and> ValidString server) \<Longrightarrow>
   parseStatsRecord fl t server = ([], Panics)"
  by (simp add: parseStatsRecord_def Let_def statsVersion_invalid steps.simps(2) andThen_def)

lemma parseStatsRecord_returns:
  "ValidString (index (Stats t) ''version'') \<Longrightarrow> ValidString server \<Longrightarrow>
   snd (parseStatsRecord fl t server) \<noteq> Panics"
  unfolding parseStatsRecord_def Let_def steps_panics
  by (auto simp: statsVersion_valid statsCommands_returns statsUptime_returns statsSet_returns
      statsExtstore_returns statsGeneral_returns statsItems_returns statsSlabs_returns)

lemma parseStatsRecord_fst:
  "ValidString (index (Stats t) ''version'') \<Longrightarrow> ValidString server \<Longrightarrow>
   fst (parseStatsRecord fl t server) =
     Metric version GaugeValue (fone fl) [index (Stats t) ''version'', server] #
     fst (statsCommands fl (Stats t) server) @
     fst (statsUptime fl (Stats t) server) @
     fst (statsSet fl (Stats t) server) @
     fst (statsExtstore fl (Stats t) server) @
     fst (statsGeneral fl (Stats t) server) @
     concat (map (\<lambda>entry. fst (statsItems fl entry server)) (Items t)) @
     concat (map (\<lambda>entry. fst (statsSlabs fl entry server)) (Slabs t))"
proof -
  assume v: "ValidString (index (Stats t) ''version'')" "ValidString server"
  have "\<forall>b\<in>set ([statsVersion fl (Stats t) server,
          statsCommands fl (Stats t) server,
          statsUptime fl (Stats t) server,
          statsSet fl (Stats t) server,
          statsExtstore fl (Stats t) server,
          statsGeneral fl (Stats t) server]
         @ map (\<lambda>entry. statsItems fl entry server) (Items t)
         @ map (\<lambda>entry. statsSlabs fl entry server) (Slabs t)). snd b \<noteq> Panics"
    using v by (auto simp: statsVersion_valid statsCommands_returns statsUptime_returns
        statsSet_returns statsExtstore_returns statsGeneral_returns statsItems_returns
        statsSlabs_returns)
  then show ?thesis
    unfolding parseStatsRecord_def Let_def
    by (subst steps_fst) (simp_all add: statsVersion_valid v comp_def)
qed

lemma parseStatsRecord_None:
  "(snd (parseStatsRecord fl t server) = Returns None) =
     (snd (statsVersion fl (Stats t) server) = Returns None \<and>
      snd (statsCommands fl (Stats t) server) = Returns None \<and>
      snd (statsUptime fl (Stats t) server) = Returns None \<and>
      snd (statsSet fl (Stats t) server) = Returns None \<and>
      snd (statsExtstore fl (Stats t) server) = Returns None \<and>
      snd (statsGeneral fl (Stats t) server) = Returns None \<and>
      (\<forall>entry\<in>set (Items t). snd (statsItems fl entry server) = Returns None) \<and>
      (\<forall>entry\<in>set (Slabs t). snd (statsSlabs fl entry server) = Returns None))"
  unfolding parseStatsRecord_def Let_def steps_None by auto

text \<open>The two loops over the records.\<close>

lemma parseStats_sent:
  "m \<in> set (fst (parseStats fl stats server)) \<Longrightarrow>
   \<exists>t\<in>snd ` set stats. m \<in> set (fst (parseStatsRecord fl t server))"
proof -
  assume "m \<in> set (fst (parseStats fl stats server))"
  then obtain b where
    b: "b \<in> set (map (\<lambda>(addr, t). parseStatsRecord fl t server) stats)" "m \<in> set (fst b)"
    unfolding parseStats_def using steps_sent by blast
  then obtain entry where e: "entry \<in> set stats" "b = parseStatsRecord fl (snd entry) server"
    by (auto simp: case_prod_unfold)
  show ?thesis
    by (rule bexI [where x = "snd entry"]) (use b e in simp_all)
qed

lemma parseStats_panics:
  "ValidString server \<Longrightarrow>
   (snd (parseStats fl stats server) = Panics) =
     (\<exists>t\<in>snd ` set stats. \<not> ValidString (index (Stats t) ''version''))"
proof -
  assume v: "ValidString server"
  have "(snd (parseStatsRecord fl t server) = Panics) = (\<not> ValidString (index (Stats t) ''version''))"
    for t
    using v parseStatsRecord_invalid [of t server fl] parseStatsRecord_returns [of t server fl]
    by auto
  then show ?thesis
    by (force simp: parseStats_def steps_panics)
qed

lemma parseStats_fst:
  "ValidString server \<Longrightarrow> \<forall>t\<in>snd ` set stats. ValidString (index (Stats t) ''version'') \<Longrightarrow>
   fst (parseStats fl stats server) =
     concat (map (\<lambda>entry. fst (parseStatsRecord fl (snd entry) server)) stats)"
  unfolding parseStats_def
  by (subst steps_fst) (auto simp: comp_def case_prod_unfold parseStatsRecord_returns)

lemma parseStats_None:
  "(snd (parseStats fl stats server) = Returns None) =
     (\<forall>t\<in>snd ` set stats. snd (parseStatsRecord fl t server) = Returns None)"
  by (force simp: parseStats_def steps_None)

lemma parseSettingsRecord_returns:
  "ValidString server \<Longrightarrow> snd (parseSettingsRecord fl settings server) \<noteq> Panics"
  by (simp add: parseSettingsRecord_def crawlerCalls_def steps_panics firstErrorOf_panics
      parse_returns bool_returns valid_simps)

lemma parseSettingsRecord_fst:
  "ValidString server \<Longrightarrow>
   fst (parseSettingsRecord fl settings server) =
     fst (parseAndNewMetric fl maxConnections GaugeValue settings ''maxconns'' [server]) @
     (if settings ''lru_crawler'' = Some ''yes''
      then concat (map fst (crawlerCalls fl settings server)) else [])"
proof -
  assume v: "ValidString server"
  have c: "\<forall>c\<in>set (crawlerCalls fl settings server). snd c \<noteq> Panics"
    using v by (simp add: crawlerCalls_def parse_returns bool_returns valid_simps)
  have m: "snd (parseAndNewMetric fl maxConnections GaugeValue settings ''maxconns'' [server])
      \<noteq> Panics"
    using v by (simp add: parse_returns valid_simps)
  show ?thesis
    unfolding parseSettingsRecord_def
    by (subst steps_fst) (auto simp: m c firstErrorOf_panics firstErrorOf_fst)
qed

lemma parseStatsSettings_sent:
  "m \<in> set (fst (parseStatsSettings fl statsSettings server)) \<Longrightarrow>
   \<exists>settings\<in>snd ` set statsSettings. m \<in> set (fst (parseSettingsRecord fl settings server))"
proof -
  assume "m \<in> set (fst (parseStatsSettings fl statsSettings server))"
  then obtain b where
    b: "b \<in> set (map (\<lambda>(addr, settings). parseSettingsRecord fl settings server) statsSettings)"
      "m \<in> set (fst b)"
    unfolding parseStatsSettings_def using steps_sent by blast
  then obtain entry where
    e: "entry \<in> set statsSettings" "b = parseSettingsRecord fl (snd entry) server"
    by (auto simp: case_prod_unfold)
  show ?thesis
    by (rule bexI [where x = "snd entry"]) (use b e in simp_all)
qed

lemma parseStatsSettings_returns:
  "ValidString server \<Longrightarrow> snd (parseStatsSettings fl statsSettings server) \<noteq> Panics"
  by (auto simp: parseStatsSettings_def steps_panics parseSettingsRecord_returns)

lemma parseStatsSettings_None:
  "(snd (parseStatsSettings fl statsSettings server) = Returns None) =
     (\<forall>settings\<in>snd ` set statsSettings.
        snd (parseSettingsRecord fl settings server) = Returns None)"
  by (force simp: parseStatsSettings_def steps_None)

text \<open>The definitions to unfold when a translator is run on a given record.\<close>

lemmas translator_defs =
  parseStats_def parseStatsRecord_def statsVersion_def statsCommands_def statsUptime_def
  statsSet_def statsExtstore_def statsGeneral_def generalCalls_def extstoreCalls_def
  parseStatsSettings_def parseSettingsRecord_def crawlerCalls_def
  firstErrorOf_def andThen_def parseAndNewMetric_def parseTimevalAndNewMetric_def
  parseBoolAndNewMetric_def extractValueAndNewMetric_def parse_def parseTimeval_def
  parseBool_def sum_keys_def ops_def index_def send_def MustNewConstMetric_def

lemmas exact_defs = exact_def decimal_def digitVal_def

section \<open>When the translators return no error\<close>

text \<open>
  Each part returns no error exactly when none of the fields it reads is malformed, and,
  for the two derived set counters, when all their inputs are there as well.
\<close>

lemma parse_Inr: "(\<exists>v. parse fl s k = Inr v) = (s k \<noteq> None \<and> \<not> rejected fl s k)"
  by (auto simp: parse_def rejected_def split: option.splits)

lemma sum_loop_Inr:
  "(\<exists>v. sum_loop fl s keys a = Inr v) = (\<forall>k\<in>set keys. s k \<noteq> None \<and> \<not> rejected fl s k)"
  by (induction keys arbitrary: a) (auto simp: rejected_def split: option.splits)

lemma statsCommands_None:
  "ValidString server \<Longrightarrow>
   (snd (statsCommands fl s server) = Returns None) = (\<forall>k\<in>set commandKeys. \<not> rejected fl s k)"
  by (simp add: statsCommands_def steps_None firstErrorOf_None parse_None valid_simps
      commandKeys_def ops_def)

lemma statsUptime_None:
  "ValidString server \<Longrightarrow>
   (snd (statsUptime fl s server) = Returns None) = (\<forall>k\<in>set uptimeKeys. \<not> rejected fl s k)"
  by (simp add: statsUptime_def firstErrorOf_None parse_None valid_simps uptimeKeys_def)

lemma statsSet_None:
  "ValidString server \<Longrightarrow>
   (snd (statsSet fl s server) = Returns None) =
     (\<forall>k\<in>set setKeys. s k \<noteq> None \<and> \<not> rejected fl s k)"
proof -
  assume v: "ValidString server"
  have "(snd (statsSet fl s server) = Returns None) =
      ((\<exists>x. parse fl s ''cmd_set'' = Inr x) \<and>
       (\<exists>y. sum_loop fl s [''cas_misses'', ''cas_hits'', ''cas_badval''] (fzero fl) = Inr y))"
    using v by (auto simp: statsSet_def sum_keys_def send_valid valid_simps split: sum.splits)
  then show ?thesis
    unfolding parse_Inr sum_loop_Inr by (simp add: setKeys_def)
qed

lemma statsExtstore_None:
  "ValidString server \<Longrightarrow>
   (snd (statsExtstore fl s server) = Returns None) =
     (s ''extstore_limit_maxbytes'' = None \<or> (\<forall>k\<in>set extstoreKeys. \<not> rejected fl s k))"
  by (cases "s ''extstore_limit_maxbytes''")
    (simp_all add: statsExtstore_def extstoreCalls_def firstErrorOf_None parse_None valid_simps
      extstoreKeys_def)

lemma statsGeneral_None:
  "ValidString server \<Longrightarrow>
   (snd (statsGeneral fl s server) = Returns None) =
     ((\<forall>k\<in>set timevalKeys. \<not> notTimeval fl s k) \<and> (\<forall>k\<in>set generalKeys. \<not> rejected fl s k))"
  by (simp add: statsGeneral_def generalCalls_def firstErrorOf_None parse_None timeval_None
      valid_simps timevalKeys_def generalKeys_def)

lemma itemsTable_None:
  "ValidString server \<Longrightarrow> ValidString slab \<Longrightarrow>
   \<forall>entry\<in>set table. length (variableLabels (snd entry)) = 2 \<Longrightarrow>
   (snd (itemsTable fl vt table u slab server) = Returns None) =
     (\<forall>k\<in>set (map fst table). \<not> rejected fl u k)"
proof -
  assume v: "ValidString server" "ValidString slab"
    and t: "\<forall>entry\<in>set table. length (variableLabels (snd entry)) = 2"
  have h: "(snd (if u (fst entry) = None then ([], Returns None)
              else parseAndNewMetric fl (snd entry) vt u (fst entry) [slab, server]) = Returns None)
      = (\<not> rejected fl u (fst entry))"
    if "entry \<in> set table" for entry
    using that t v by (auto simp: parse_None validateLabelValues_def rejected_def)
  have "(\<forall>entry\<in>set table.
        snd (if u (fst entry) = None then ([], Returns None)
             else parseAndNewMetric fl (snd entry) vt u (fst entry) [slab, server]) = Returns None)
      = (\<forall>entry\<in>set table. \<not> rejected fl u (fst entry))"
    by (rule ball_cong [OF refl]) (rule h)
  then show ?thesis
    unfolding itemsTable_def steps_None case_prod_unfold
    by (simp only: set_map ball_simps)
qed

lemma statsItems_None:
  "ValidString server \<Longrightarrow>
   (snd (statsItems fl entry server) = Returns None) =
     (\<forall>k\<in>set itemsKeys. \<not> rejected fl (snd entry) k)"
proof -
  assume v: "ValidString server"
  have c: "(snd (firstErrorOf (itemsCalls fl (snd entry) (Itoa (fst entry)) server)) = Returns None)
      = (\<forall>k\<in>set [''number'', ''age'', ''hits_to_hot'', ''hits_to_warm'', ''hits_to_cold'',
           ''hits_to_temp'']. \<not> rejected fl (snd entry) k)"
    using v by (simp add: itemsCalls_def firstErrorOf_None parse_None valid_simps)
  show ?thesis
    unfolding statsItems_def Let_def steps_None itemsKeys_def
    using v c by (simp add: itemsTable_None items_arity Itoa_valid ball_Un)
qed

lemma slabCommands_None:
  "ValidString server \<Longrightarrow> ValidString slab \<Longrightarrow>
   (snd (slabCommands fl v slab server) = Returns None) =
     (\<forall>k\<in>set (map (\<lambda>op. op @ ''_hits'') ops @ [''cas_badval'']). \<not> rejected fl v k)"
  by (simp add: slabCommands_def steps_None parse_None valid_simps ops_def)

lemma slabSet_None:
  "ValidString server \<Longrightarrow> ValidString slab \<Longrightarrow>
   (snd (slabSet fl v slab server) = Returns None) =
     (\<forall>k\<in>set slabSetKeys. v k \<noteq> None \<and> \<not> rejected fl v k)"
proof -
  assume s: "ValidString server" "ValidString slab"
  have "(snd (slabSet fl v slab server) = Returns None) =
      ((\<exists>x. parse fl v ''cmd_set'' = Inr x) \<and>
       (\<exists>y. sum_loop fl v [''cas_hits'', ''cas_badval''] (fzero fl) = Inr y))"
    using s by (auto simp: slabSet_def sum_keys_def send_valid valid_simps split: sum.splits)
  then show ?thesis
    unfolding parse_Inr sum_loop_Inr by (simp add: slabSetKeys_def)
qed

lemma slabChunks_None:
  "ValidString server \<Longrightarrow> ValidString slab \<Longrightarrow>
   (snd (slabChunks fl v slab server) = Returns None) = (\<forall>k\<in>set chunkKeys. \<not> rejected fl v k)"
  by (simp add: slabChunks_def chunkCalls_def firstErrorOf_None parse_None valid_simps
      chunkKeys_def)

lemma statsSlabs_None:
  "ValidString server \<Longrightarrow>
   (snd (statsSlabs fl entry server) = Returns None) =
     ((\<forall>k\<in>set slabKeys. \<not> rejected fl (snd entry) k) \<and>
      (\<forall>k\<in>set slabSetKeys. snd entry k \<noteq> None))"
  unfolding statsSlabs_def Let_def steps_None slabKeys_def
  by (auto simp: slabCommands_None slabSet_None slabChunks_None Itoa_valid ball_Un)

text \<open>A stats record and a settings record.\<close>

lemma parseStatsRecord_ok:
  "ValidString (index (Stats t) ''version'') \<Longrightarrow> ValidString server \<Longrightarrow>
   (snd (parseStatsRecord fl t server) = Returns None) =
     (\<not> malformedStats fl t \<and> \<not> missingSetInput t)"
  unfolding parseStatsRecord_None malformedStats_def missingSetInput_def
  by (auto simp: statsVersion_valid statsCommands_None statsUptime_None statsSet_None
      statsExtstore_None statsGeneral_None statsItems_None statsSlabs_None ball_Un)

lemma parseStats_ok:
  "ValidString server \<Longrightarrow> \<forall>t\<in>snd ` set stats. ValidString (index (Stats t) ''version'') \<Longrightarrow>
   (snd (parseStats fl stats server) = Returns None) =
     (\<forall>t\<in>snd ` set stats. \<not> malformedStats fl t \<and> \<not> missingSetInput t)"
  unfolding parseStats_None by (simp add: parseStatsRecord_ok)

lemma parseSettingsRecord_ok:
  "ValidString server \<Longrightarrow>
   (snd (parseSettingsRecord fl settings server) = Returns None) =
     (\<not> malformedSettings fl settings)"
proof -
  assume v: "ValidString server"
  have "(snd (firstErrorOf (crawlerCalls fl settings server)) = Returns None) =
      ((\<forall>k\<in>set crawlerKeys. \<not> rejected fl settings k) \<and>
       \<not> notBool settings ''lru_maintainer_thread'')"
    if "settings ''lru_crawler'' = Some ''yes''"
    using v that
    by (auto simp: crawlerCalls_def firstErrorOf_None parse_None bool_None valid_simps
        crawlerKeys_def notBool_def)
  then show ?thesis
    using v
    by (auto simp: parseSettingsRecord_def steps_None parse_None valid_simps
        malformedSettings_def)
qed

lemma parseStatsSettings_ok:
  "ValidString server \<Longrightarrow>
   (snd (parseStatsSettings fl statsSettings server) = Returns None) =
     (\<forall>settings\<in>snd ` set statsSettings. \<not> malformedSettings fl settings)"
  unfolding parseStatsSettings_None by (simp add: parseSettingsRecord_ok)

text \<open>The definitions to unfold when these conditions are decided for a given record.\<close>

lemmas key_defs =
  malformedStats_def missingSetInput_def malformedSettings_def commandKeys_def ops_def
  uptimeKeys_def setKeys_def extstoreKeys_def timevalKeys_def generalKeys_def itemsKeys_def
  slabSetKeys_def chunkKeys_def slabKeys_def crawlerKeys_def itemsCounterMetrics_def
  itemsGaugeMetrics_def rejected_def notTimeval_def notBool_def parseTimeval_def

section \<open>The version observation\<close>

lemma version_of_record:
  "ValidString (index (Stats t) ''version'') \<Longrightarrow> ValidString server \<Longrightarrow>
   filter (\<lambda>m. mdesc m = version) (fst (parseStatsRecord fl t server)) =
     [Metric version GaugeValue (fone fl) [index (Stats t) ''version'', server]]"
proof -
  assume v: "ValidString (index (Stats t) ''version'')" "ValidString server"
  have n: "version \<notin> set serverDescs" "version \<notin> set extstoreDescs"
    "version \<notin> set itemsDescs" "version \<notin> set slabsDescs"
    using version_not_sent by simp_all
  have a: "filter (\<lambda>m. mdesc m = version) (fst (statsCommands fl (Stats t) server)) = []"
    using after_version_sent [of _ fl "Stats t" server] n(1) by (intro filter_none) metis
  have b: "filter (\<lambda>m. mdesc m = version) (fst (statsUptime fl (Stats t) server)) = []"
    using after_version_sent [of _ fl "Stats t" server] n(1) by (intro filter_none) metis
  have c: "filter (\<lambda>m. mdesc m = version) (fst (statsSet fl (Stats t) server)) = []"
    using after_version_sent [of _ fl "Stats t" server] n(1) by (intro filter_none) metis
  have d: "filter (\<lambda>m. mdesc m = version) (fst (statsExtstore fl (Stats t) server)) = []"
    using statsExtstore_sent [of _ fl "Stats t" server] n(2) by (intro filter_none) metis
  have e: "filter (\<lambda>m. mdesc m = version) (fst (statsGeneral fl (Stats t) server)) = []"
    using after_version_sent [of _ fl "Stats t" server] n(1) by (intro filter_none) metis
  have f: "filter (\<lambda>m. mdesc m = version)
      (concat (map (\<lambda>entry. fst (statsItems fl entry server)) (Items t))) = []"
    using statsItems_sent [of _ fl _ server] n(3) by (intro filter_concat_none) metis
  have g: "filter (\<lambda>m. mdesc m = version)
      (concat (map (\<lambda>entry. fst (statsSlabs fl entry server)) (Slabs t))) = []"
    using statsSlabs_sent [of _ fl _ server] n(4) by (intro filter_concat_none) metis
  show ?thesis
    unfolding parseStatsRecord_fst [OF v] using a b c d e f g by simp
qed

text \<open>
  Claim C8, as the code has it. For every stats record exactly one version observation is
  sent, a gauge of value 1 whose labels are the version and the server, provided both
  label values are valid UTF-8. It is sent whether or not the record has a \<^verbatim>\<open>version\<close>
  field: without the field the version label is the empty string. When the version or the
  server is not valid UTF-8, \<^verbatim>\<open>MustNewConstMetric\<close> panics at this first send of the record
  and nothing is sent for the record.
\<close>

theorem version_always_sent:
  "(ValidString (case Stats t ''version'' of None \<Rightarrow> [] | Some v \<Rightarrow> v) \<and> ValidString server \<longrightarrow>
      filter (\<lambda>m. mdesc m = version) (fst (parseStatsRecord fl t server)) =
        [Metric version GaugeValue (fone fl)
           [(case Stats t ''version'' of None \<Rightarrow> [] | Some v \<Rightarrow> v), server]]) \<and>
   (\<not> (ValidString (case Stats t ''version'' of None \<Rightarrow> [] | Some v \<Rightarrow> v) \<and> ValidString server) \<longrightarrow>
      parseStatsRecord fl t server = ([], Panics))"
  using version_of_record [of t server fl] parseStatsRecord_invalid [of t server fl]
  unfolding index_def by blast

theorem version_always_sent_witness:
  "ValidString ''1.6.21'' \<and> ValidString ''srv'' \<and>
   filter (\<lambda>m. mdesc m = version)
     (fst (parseStatsRecord exact \<lparr>Stats = [''version'' \<mapsto> ''1.6.21''], Slabs = [], Items = []\<rparr>
        ''srv'')) =
     [Metric version GaugeValue 1 [''1.6.21'', ''srv'']] \<and>
   \<not> ValidString [CHR 0xFF] \<and>
   parseStatsRecord exact \<lparr>Stats = [''version'' \<mapsto> [CHR 0xFF]], Slabs = [], Items = []\<rparr> ''srv'' =
     ([], Panics)"
proof -
  have v: "ValidString ''1.6.21''" "ValidString ''srv''"
    by (simp_all add: ascii_valid ascii_def)
  have n: "\<not> ValidString [CHR 0xFF]"
    by (simp add: ValidString_def)
  show ?thesis
    using v n
      version_always_sent
        [of "\<lparr>Stats = [''version'' \<mapsto> ''1.6.21''], Slabs = [], Items = []\<rparr>" "''srv''" exact]
      version_always_sent
        [of "\<lparr>Stats = [''version'' \<mapsto> [CHR 0xFF]], Slabs = [], Items = []\<rparr>" "''srv''" exact]
    by (simp add: exact_def)
qed

text \<open>
  The specification has the observation sent only if the field exists. The record with
  no field at all gives one, with the empty string as version.
\<close>

theorem version_absent_counterexample:
  "Stats \<lparr>Stats = Map.empty, Slabs = [], Items = []\<rparr> ''version'' = None \<and>
   filter (\<lambda>m. mdesc m = version)
     (fst (parseStatsRecord exact \<lparr>Stats = Map.empty, Slabs = [], Items = []\<rparr> ''srv'')) =
     [Metric version GaugeValue 1 ['''', ''srv'']]"
proof -
  have "ValidString (index (Stats \<lparr>Stats = Map.empty, Slabs = [], Items = []\<rparr>) ''version'')"
    "ValidString ''srv''"
    by (simp_all add: index_def ascii_valid ascii_def)
  then show ?thesis
    using version_of_record [of "\<lparr>Stats = Map.empty, Slabs = [], Items = []\<rparr>" "''srv''" exact]
    by (simp add: index_def exact_def)
qed

section \<open>The reachability observation\<close>

lemma parseStats_no_up: "m \<in> set (fst (parseStats fl stats server)) \<Longrightarrow> mdesc m \<noteq> up"
proof -
  assume "m \<in> set (fst (parseStats fl stats server))"
  then obtain t where "m \<in> set (fst (parseStatsRecord fl t server))"
    using parseStats_sent by blast
  then show ?thesis
    using parseStatsRecord_sent [of m fl t server] up_not_sent by auto
qed

lemma parseStatsSettings_no_up:
  "m \<in> set (fst (parseStatsSettings fl statsSettings server)) \<Longrightarrow> mdesc m \<noteq> up"
proof -
  assume "m \<in> set (fst (parseStatsSettings fl statsSettings server))"
  then obtain settings where "m \<in> set (fst (parseSettingsRecord fl settings server))"
    using parseStatsSettings_sent by blast
  then show ?thesis
    using parseSettingsRecord_sent [of m fl settings server] up_not_sent by auto
qed

lemma up_valid: "validateLabelValues [server] (length (variableLabels up)) = ValidString server"
  by (simp add: validateLabelValues_def desc_arity)

lemma CollectServer_new_failed:
  "newErr c \<noteq> None \<Longrightarrow>
   CollectServer fl c server = send (MustNewConstMetric up GaugeValue (fzero fl) [server]) ()"
  by (auto simp: CollectServer_def)

lemma CollectServer_unfold:
  "newErr c = None \<Longrightarrow>
   CollectServer fl c server =
     next_run (parseStats fl (fst (statsResult c)) server) (\<lambda>err3.
       next_run (parseStatsSettings fl (fst (settingsResult c)) server) (\<lambda>err4.
         send (MustNewConstMetric up GaugeValue
           (if snd (statsResult c) = None \<and> snd (settingsResult c) = None \<and>
               err3 = None \<and> err4 = None
            then fone fl else fzero fl) [server]) ()))"
proof -
  assume n: "newErr c = None"
  have h: "(if err4 \<noteq> None then fzero fl
       else if err3 \<noteq> None then fzero fl
       else if err2 \<noteq> None then fzero fl
       else if err1 \<noteq> None then fzero fl else fone fl) =
      (if err1 = None \<and> err2 = None \<and> err3 = None \<and> err4 = None then fone fl else fzero fl)"
    for err1 err2 err3 err4 :: "error option"
    by simp
  show ?thesis
    apply (simp only: CollectServer_def n option.case Let_def case_prod_unfold)
    apply (simp only: h)
    done
qed

text \<open>The value of the \<^verbatim>\<open>up\<close> observation of a run in which the client was created.\<close>

lemma CollectServer_valid:
  "newErr c = None \<Longrightarrow> labelsValid c server \<Longrightarrow>
   CollectServer fl c server =
     (fst (parseStats fl (fst (statsResult c)) server) @
      fst (parseStatsSettings fl (fst (settingsResult c)) server) @
      [Metric up GaugeValue
         (if snd (statsResult c) = None \<and> snd (settingsResult c) = None \<and>
             snd (parseStats fl (fst (statsResult c)) server) = Returns None \<and>
             snd (parseStatsSettings fl (fst (settingsResult c)) server) = Returns None
          then fone fl else fzero fl)
         [server]],
      Returns ())"
proof -
  assume n: "newErr c = None" and l: "labelsValid c server"
  from n l have v: "ValidString server"
    and r: "\<forall>t\<in>snd ` set (fst (statsResult c)). ValidString (index (Stats t) ''version'')"
    by (simp_all add: labelsValid_def)
  from v r have "snd (parseStats fl (fst (statsResult c)) server) \<noteq> Panics"
    by (simp add: parseStats_panics)
  then obtain e3 where e3: "snd (parseStats fl (fst (statsResult c)) server) = Returns e3"
    by (cases "snd (parseStats fl (fst (statsResult c)) server)") auto
  from v have "snd (parseStatsSettings fl (fst (settingsResult c)) server) \<noteq> Panics"
    by (rule parseStatsSettings_returns)
  then obtain e4 where
    e4: "snd (parseStatsSettings fl (fst (settingsResult c)) server) = Returns e4"
    by (cases "snd (parseStatsSettings fl (fst (settingsResult c)) server)") auto
  show ?thesis
    unfolding CollectServer_unfold [OF n]
    by (simp add: next_run_def e3 e4 send_valid up_valid v)
qed

lemma CollectServer_returns:
  "labelsValid c server \<Longrightarrow> snd (CollectServer fl c server) = Returns ()"
proof (cases "newErr c")
  case None
  assume "labelsValid c server"
  then show ?thesis
    using CollectServer_valid [OF None, of server fl] by simp
next
  case (Some err)
  assume "labelsValid c server"
  then show ?thesis
    using Some by (simp add: CollectServer_new_failed send_valid up_valid labelsValid_def)
qed

lemma CollectServer_up:
  "labelsValid c server \<Longrightarrow>
   filter (\<lambda>m. mdesc m = up) (fst (CollectServer fl c server)) =
     [Metric up GaugeValue
        (if newErr c = None \<and> snd (statsResult c) = None \<and> snd (settingsResult c) = None \<and>
            snd (parseStats fl (fst (statsResult c)) server) = Returns None \<and>
            snd (parseStatsSettings fl (fst (settingsResult c)) server) = Returns None
         then fone fl else fzero fl)
        [server]]"
proof (cases "newErr c")
  case None
  assume l: "labelsValid c server"
  have a: "filter (\<lambda>m. mdesc m = up) (fst (parseStats fl (fst (statsResult c)) server)) = []"
    using parseStats_no_up by (rule filter_none)
  have b: "filter (\<lambda>m. mdesc m = up)
      (fst (parseStatsSettings fl (fst (settingsResult c)) server)) = []"
    using parseStatsSettings_no_up by (rule filter_none)
  show ?thesis
    unfolding CollectServer_valid [OF None l] using a b None by simp
next
  case (Some err)
  assume "labelsValid c server"
  then show ?thesis
    using Some by (simp add: CollectServer_new_failed send_valid up_valid labelsValid_def)
qed

text \<open>A label value that is not valid UTF-8 ends the run before the \<^verbatim>\<open>up\<close> observation.\<close>

lemma CollectServer_panics:
  "\<not> labelsValid c server \<Longrightarrow>
   snd (CollectServer fl c server) = Panics \<and>
   filter (\<lambda>m. mdesc m = up) (fst (CollectServer fl c server)) = []"
proof (cases "newErr c")
  case (Some err)
  assume "\<not> labelsValid c server"
  then have "\<not> ValidString server"
    using Some by (simp add: labelsValid_def)
  then show ?thesis
    using Some by (simp add: CollectServer_new_failed send_invalid up_valid)
next
  case None
  assume l: "\<not> labelsValid c server"
  let ?P = "parseStats fl (fst (statsResult c)) server"
  let ?S = "parseStatsSettings fl (fst (settingsResult c)) server"
  have a: "filter (\<lambda>m. mdesc m = up) (fst ?P) = []"
    using parseStats_no_up by (rule filter_none)
  have b: "filter (\<lambda>m. mdesc m = up) (fst ?S) = []"
    using parseStatsSettings_no_up by (rule filter_none)
  show ?thesis
  proof (cases "ValidString server")
    case True
    with l None have "snd ?P = Panics"
      by (simp add: labelsValid_def parseStats_panics)
    then show ?thesis
      unfolding CollectServer_unfold [OF None] using a by (simp add: next_run_def)
  next
    case False
    then have s: "send (MustNewConstMetric up GaugeValue x [server]) () = ([], Panics)" for x :: 'a
      by (simp add: send_invalid up_valid)
    show ?thesis
      unfolding CollectServer_unfold [OF None] using a b
      by (simp add: next_run_def s split: ending.splits)
  qed
qed

lemma Collect_valid:
  "\<forall>a\<in>set addresses. labelsValid (net a) a \<Longrightarrow>
   snd (Collect fl net addresses) = Returns () \<and>
   length (filter (\<lambda>m. mdesc m = up \<and> mlabels m = [server]) (fst (Collect fl net addresses))) =
     count_list addresses server"
proof (induction addresses)
  case Nil
  then show ?case by simp
next
  case (Cons a addresses)
  then have l: "labelsValid (net a) a"
    by simp
  have "filter (\<lambda>m. mdesc m = up \<and> mlabels m = [server]) (fst (CollectServer fl (net a) a)) =
      filter (\<lambda>m. mlabels m = [server])
        (filter (\<lambda>m. mdesc m = up) (fst (CollectServer fl (net a) a)))"
    by (simp add: conj_commute)
  then have "length (filter (\<lambda>m. mdesc m = up \<and> mlabels m = [server])
      (fst (CollectServer fl (net a) a))) = (if a = server then 1 else 0)"
    unfolding CollectServer_up [OF l] by simp
  with Cons show ?case
    by (simp add: next_run_def CollectServer_returns [OF l])
qed

lemma Collect_panics:
  "\<exists>a\<in>set addresses. \<not> labelsValid (net a) a \<Longrightarrow> snd (Collect fl net addresses) = Panics"
proof (induction addresses)
  case Nil
  then show ?case by simp
next
  case (Cons a addresses)
  show ?case
  proof (cases "labelsValid (net a) a")
    case True
    with Cons show ?thesis
      by (simp add: next_run_def CollectServer_returns)
  next
    case False
    then show ?thesis
      by (simp add: next_run_def CollectServer_panics)
  qed
qed

text \<open>
  Claim C1, as the code has it. A run of \<^verbatim>\<open>CollectServer\<close> whose label values are valid
  UTF-8 returns and sends exactly one \<^verbatim>\<open>up\<close> observation, labelled with the server. Its
  value is 1 when \<^verbatim>\<open>memcache.New\<close>, the stats fetch and the settings fetch returned no error
  and both translators returned no error, and 0 otherwise. When \<^verbatim>\<open>memcache.New\<close> fails,
  nothing else is sent for the server. When it succeeds, the run sends what the stats
  translator sends for the records the client returned, then what the settings translator
  sends, then the \<^verbatim>\<open>up\<close> observation, also after a fetch that failed. A run with a label
  value that is not valid UTF-8 panics and sends no \<^verbatim>\<open>up\<close> observation. In a cycle whose
  runs all have valid label values, the number of \<^verbatim>\<open>up\<close> observations labelled with a server
  is the number of times its address is configured, so one for an address configured once;
  a cycle with a run that has an invalid label value panics.
\<close>

theorem up_once_per_server:
  "(labelsValid c server \<longrightarrow>
      snd (CollectServer fl c server) = Returns () \<and>
      filter (\<lambda>m. mdesc m = up) (fst (CollectServer fl c server)) =
        [Metric up GaugeValue
           (if newErr c = None \<and> snd (statsResult c) = None \<and> snd (settingsResult c) = None \<and>
               snd (parseStats fl (fst (statsResult c)) server) = Returns None \<and>
               snd (parseStatsSettings fl (fst (settingsResult c)) server) = Returns None
            then fone fl else fzero fl)
           [server]] \<and>
      (newErr c \<noteq> None \<longrightarrow>
         fst (CollectServer fl c server) = [Metric up GaugeValue (fzero fl) [server]]) \<and>
      (newErr c = None \<longrightarrow>
         fst (CollectServer fl c server) =
           fst (parseStats fl (fst (statsResult c)) server) @
           fst (parseStatsSettings fl (fst (settingsResult c)) server) @
           [Metric up GaugeValue
              (if snd (statsResult c) = None \<and> snd (settingsResult c) = None \<and>
                  snd (parseStats fl (fst (statsResult c)) server) = Returns None \<and>
                  snd (parseStatsSettings fl (fst (settingsResult c)) server) = Returns None
               then fone fl else fzero fl)
              [server]])) \<and>
   (\<not> labelsValid c server \<longrightarrow>
      snd (CollectServer fl c server) = Panics \<and>
      filter (\<lambda>m. mdesc m = up) (fst (CollectServer fl c server)) = []) \<and>
   ((\<forall>a\<in>set addresses. labelsValid (net a) a) \<longrightarrow>
      snd (Collect fl net addresses) = Returns () \<and>
      length (filter (\<lambda>m. mdesc m = up \<and> mlabels m = [server]) (fst (Collect fl net addresses))) =
        count_list addresses server) \<and>
   ((\<exists>a\<in>set addresses. \<not> labelsValid (net a) a) \<longrightarrow>
      snd (Collect fl net addresses) = Panics)"
proof -
  have "fst (CollectServer fl c server) = [Metric up GaugeValue (fzero fl) [server]]"
    if "labelsValid c server" "newErr c \<noteq> None"
    using that by (simp add: CollectServer_new_failed send_valid up_valid labelsValid_def)
  moreover have "fst (CollectServer fl c server) =
           fst (parseStats fl (fst (statsResult c)) server) @
           fst (parseStatsSettings fl (fst (settingsResult c)) server) @
           [Metric up GaugeValue
              (if snd (statsResult c) = None \<and> snd (settingsResult c) = None \<and>
                  snd (parseStats fl (fst (statsResult c)) server) = Returns None \<and>
                  snd (parseStatsSettings fl (fst (settingsResult c)) server) = Returns None
               then fone fl else fzero fl)
              [server]]"
    if "labelsValid c server" "newErr c = None"
    using CollectServer_valid [OF that(2) that(1), of fl] by simp
  ultimately show ?thesis
    using CollectServer_returns [of c server fl] CollectServer_up [of c server fl]
      CollectServer_panics [of c server fl] Collect_valid [of addresses net fl server]
      Collect_panics [of addresses net fl]
    by blast
qed

theorem up_once_per_server_witness:
  "labelsValid \<lparr>newErr = Some (ClientError ''refused''), statsResult = ([], None),
      settingsResult = ([], None)\<rparr> ''down'' \<and>
   CollectServer exact
     \<lparr>newErr = Some (ClientError ''refused''), statsResult = ([], None),
      settingsResult = ([], None)\<rparr> ''down''
     = ([Metric up GaugeValue 0 [''down'']], Returns ()) \<and>
   labelsValid
     \<lparr>newErr = None,
      statsResult =
        ([(''a'', \<lparr>Stats = [''cmd_set'' \<mapsto> ''120'', ''cas_hits'' \<mapsto> ''3'', ''cas_misses'' \<mapsto> ''2'',
                  ''cas_badval'' \<mapsto> ''1''], Slabs = [], Items = []\<rparr>)], None),
      settingsResult = ([(''a'', [''maxconns'' \<mapsto> ''1024''])], None)\<rparr> ''live'' \<and>
   filter (\<lambda>m. mdesc m = up)
     (fst (CollectServer exact
        \<lparr>newErr = None,
         statsResult =
           ([(''a'', \<lparr>Stats = [''cmd_set'' \<mapsto> ''120'', ''cas_hits'' \<mapsto> ''3'', ''cas_misses'' \<mapsto> ''2'',
                     ''cas_badval'' \<mapsto> ''1''], Slabs = [], Items = []\<rparr>)], None),
         settingsResult = ([(''a'', [''maxconns'' \<mapsto> ''1024''])], None)\<rparr> ''live''))
     = [Metric up GaugeValue 1 [''live'']] \<and>
   \<not> labelsValid \<lparr>newErr = Some (ClientError ''refused''), statsResult = ([], None),
      settingsResult = ([], None)\<rparr> [CHR 0xFF] \<and>
   CollectServer exact
     \<lparr>newErr = Some (ClientError ''refused''), statsResult = ([], None),
      settingsResult = ([], None)\<rparr> [CHR 0xFF]
     = ([], Panics) \<and>
   length (filter (\<lambda>m. mdesc m = up \<and> mlabels m = [''down''])
     (fst (Collect exact
        (\<lambda>a. \<lparr>newErr = Some (ClientError ''refused''), statsResult = ([], None),
               settingsResult = ([], None)\<rparr>)
        [''down'', ''other'']))) = 1 \<and>
   snd (Collect exact
        (\<lambda>a. \<lparr>newErr = Some (ClientError ''refused''), statsResult = ([], None),
               settingsResult = ([], None)\<rparr>)
        [''down'', [CHR 0xFF]]) = Panics"
proof -
  let ?c1 = "\<lparr>newErr = Some (ClientError ''refused''), statsResult = ([], None),
      settingsResult = ([], None)\<rparr>"
  let ?T = "[(''a'', \<lparr>Stats = [''cmd_set'' \<mapsto> ''120'', ''cas_hits'' \<mapsto> ''3'', ''cas_misses'' \<mapsto> ''2'',
                     ''cas_badval'' \<mapsto> ''1''], Slabs = [], Items = []\<rparr>)]"
  let ?S = "[(''a'', [''maxconns'' \<mapsto> ''1024''])]"
  let ?c2 = "\<lparr>newErr = None, statsResult = (?T, None), settingsResult = (?S, None)\<rparr>"
  have l1: "labelsValid ?c1 ''down''" "labelsValid ?c1 ''other''"
    by (simp_all add: labelsValid_def ascii_valid ascii_def)
  have l2: "labelsValid ?c2 ''live''"
    by (simp add: labelsValid_def index_def ascii_valid ascii_def)
  have l3: "\<not> labelsValid ?c1 [CHR 0xFF]"
    by (simp add: labelsValid_def ValidString_def)
  have v: "ValidString ''live''"
    by (simp add: ascii_valid ascii_def)
  have r: "\<forall>t\<in>snd ` set ?T. ValidString (index (Stats t) ''version'')"
    by (simp add: index_def ascii_valid)
  have t: "snd (parseStats exact ?T ''live'') = Returns None"
    unfolding parseStats_ok [OF v r] by (simp add: key_defs exact_defs)
  have s: "snd (parseStatsSettings exact ?S ''live'') = Returns None"
    unfolding parseStatsSettings_ok [OF v] by (simp add: key_defs exact_defs)
  have p: "CollectServer exact ?c1 [CHR 0xFF] = ([], Panics)"
    by (simp add: CollectServer_def send_invalid up_valid ValidString_def)
  have z: "fzero exact = 0" "fone exact = 1"
    by (simp_all add: exact_def)
  note a = up_once_per_server [where c = ?c1 and server = "''down''" and fl = exact
      and net = "\<lambda>a. ?c1" and addresses = "[''down'', ''other'']"]
  note b = up_once_per_server [where c = ?c2 and server = "''live''" and fl = exact
      and net = "\<lambda>a. ?c1" and addresses = "[]"]
  note c = up_once_per_server [where c = ?c1 and server = "[CHR 0xFF]" and fl = exact
      and net = "\<lambda>a. ?c1" and addresses = "[''down'', [CHR 0xFF]]"]
  have a1: "CollectServer exact ?c1 ''down'' = ([Metric up GaugeValue 0 [''down'']], Returns ())"
    using a l1 z by (simp add: prod_eq_iff)
  have a2: "length (filter (\<lambda>m. mdesc m = up \<and> mlabels m = [''down''])
      (fst (Collect exact (\<lambda>a. ?c1) [''down'', ''other'']))) = 1"
    using a l1 by simp
  have b1: "filter (\<lambda>m. mdesc m = up) (fst (CollectServer exact ?c2 ''live'')) =
      [Metric up GaugeValue 1 [''live'']]"
    using b [THEN conjunct1, THEN mp, OF l2, THEN conjunct2, THEN conjunct1] t s z by simp
  have c1: "snd (Collect exact (\<lambda>a. ?c1) [''down'', [CHR 0xFF]]) = Panics"
    using c l3 by simp
  show ?thesis
    using l1(1) l2 l3 a1 a2 b1 c1 p by simp
qed

text \<open>
  The specification gives the value 1 whenever the connection succeeded and both
  translators reported no failure, and lets nothing but the 0-valued observation through
  when the connection failed. Here \<^verbatim>\<open>memcache.New\<close> succeeds, the stats fetch fails and the
  settings fetch succeeds: both translators return no error, the value is 0, and the
  max-connections gauge of the settings is sent.
\<close>

theorem up_stats_fetch_failed_counterexample:
  "snd (parseStats exact [] ''srv'') = Returns None \<and>
   snd (parseStatsSettings exact [(''srv'', [''maxconns'' \<mapsto> ''1024''])] ''srv'') = Returns None \<and>
   CollectServer exact
     \<lparr>newErr = None, statsResult = ([], Some (ClientError ''timeout'')),
      settingsResult = ([(''srv'', [''maxconns'' \<mapsto> ''1024''])], None)\<rparr> ''srv''
     = ([Metric maxConnections GaugeValue 1024 [''srv''],
         Metric up GaugeValue 0 [''srv'']], Returns ())"
proof -
  have v: "ValidString ''srv''"
    by (simp add: ascii_valid ascii_def)
  have d: "ParseFloat exact ''1024'' = Some 1024"
    by (simp add: exact_defs)
  have s: "parseStatsSettings exact [(''srv'', [''maxconns'' \<mapsto> ''1024''])] ''srv'' =
      ([Metric maxConnections GaugeValue 1024 [''srv'']], Returns None)"
    using d v
    by (simp add: parseStatsSettings_def parseSettingsRecord_def steps.simps andThen_def
        parseAndNewMetric_ok validateLabelValues_def desc_arity)
  have t: "parseStats exact [] ''srv'' = ([], Returns None)"
    by (simp add: parseStats_def steps.simps)
  show ?thesis
    using s t v
    by (simp add: CollectServer_def next_run_def send_valid up_valid exact_def)
qed

section \<open>The derived set counter\<close>

text \<open>A key that is missing, or whose value ParseFloat rejects, makes the sum fail.\<close>

lemma sum_loop_fails:
  "k \<in> set keys \<Longrightarrow> (case s k of None \<Rightarrow> True | Some v \<Rightarrow> ParseFloat fl v = None) \<Longrightarrow>
   \<exists>e. sum_loop fl s keys acc = Inl e"
  by (induction keys arbitrary: acc) (auto split: option.splits)

lemma statsSet_ok:
  "ValidString server \<Longrightarrow>
   s ''cmd_set'' = Some a \<Longrightarrow> ParseFloat fl a = Some c \<Longrightarrow>
   s ''cas_hits'' = Some a1 \<Longrightarrow> ParseFloat fl a1 = Some h \<Longrightarrow>
   s ''cas_misses'' = Some a2 \<Longrightarrow> ParseFloat fl a2 = Some ms \<Longrightarrow>
   s ''cas_badval'' = Some a3 \<Longrightarrow> ParseFloat fl a3 = Some b \<Longrightarrow>
   statsSet fl s server =
     ([Metric commands CounterValue
         (fsub fl c (fadd fl (fadd fl (fadd fl (fzero fl) ms) h) b)) [''set'', ''hit'', server]],
      Returns None)"
  by (simp add: statsSet_def parse_def sum_keys_def send_valid valid_simps)

lemma statsSet_fails:
  "k \<in> set [''cmd_set'', ''cas_hits'', ''cas_misses'', ''cas_badval''] \<Longrightarrow>
   (case s k of None \<Rightarrow> True | Some v \<Rightarrow> ParseFloat fl v = None) \<Longrightarrow>
   \<exists>e. statsSet fl s server = ([], Returns (Some e))"
proof -
  assume k: "k \<in> set [''cmd_set'', ''cas_hits'', ''cas_misses'', ''cas_badval'']"
    and bad: "case s k of None \<Rightarrow> True | Some v \<Rightarrow> ParseFloat fl v = None"
  show ?thesis
  proof (cases "parse fl s ''cmd_set''")
    case (Inl e)
    then show ?thesis by (simp add: statsSet_def)
  next
    case (Inr setCmd)
    then have "k \<noteq> ''cmd_set''"
      using bad by (auto simp: parse_def split: option.splits)
    with k have "k \<in> set [''cas_misses'', ''cas_hits'', ''cas_badval'']" by auto
    then obtain e where "sum_keys fl s [''cas_misses'', ''cas_hits'', ''cas_badval''] = Inl e"
      using sum_loop_fails [where k = k and keys = "[''cas_misses'', ''cas_hits'', ''cas_badval'']"
          and s = s and fl = fl and acc = "fzero fl"] bad
      unfolding sum_keys_def by blast
    with Inr show ?thesis by (simp add: statsSet_def)
  qed
qed

lemma set_of_record:
  "ValidString (index (Stats t) ''version'') \<Longrightarrow> ValidString server \<Longrightarrow>
   filter (\<lambda>m. mdesc m = commands \<and> mlabels m = [''set'', ''hit'', server])
     (fst (parseStatsRecord fl t server)) = fst (statsSet fl (Stats t) server)"
proof -
  assume v: "ValidString (index (Stats t) ''version'')" "ValidString server"
  let ?P = "\<lambda>m. mdesc m = commands \<and> mlabels m = [''set'', ''hit'', server]"
  note n = commands_not_sent
  have 2: "filter ?P (fst (statsCommands fl (Stats t) server)) = []"
  proof (rule filter_none)
    fix m
    assume "m \<in> set (fst (statsCommands fl (Stats t) server))"
    then show "\<not> ?P m"
      using statsCommands_sent [of m fl "Stats t" server] by (auto simp: ops_def)
  qed
  have 3: "filter ?P (fst (statsUptime fl (Stats t) server)) = []"
  proof (rule filter_none)
    fix m
    assume "m \<in> set (fst (statsUptime fl (Stats t) server))"
    then show "\<not> ?P m"
      using statsUptime_sent [of m fl "Stats t" server] n by auto
  qed
  have 4: "filter ?P (fst (statsSet fl (Stats t) server)) = fst (statsSet fl (Stats t) server)"
    using statsSet_sent [of _ fl "Stats t" server] by (simp add: filter_id_conv)
  have 5: "filter ?P (fst (statsExtstore fl (Stats t) server)) = []"
    using statsExtstore_sent n by (intro filter_desc_none [where ds = extstoreDescs]) auto
  have 6: "filter ?P (fst (statsGeneral fl (Stats t) server)) = []"
    using statsGeneral_sent n by (intro filter_desc_none [where ds = generalDescs]) auto
  have 7: "filter ?P (concat (map (\<lambda>entry. fst (statsItems fl entry server)) (Items t))) = []"
  proof (rule filter_concat_none)
    fix x m
    assume "m \<in> set (fst (statsItems fl x server))"
    then show "\<not> ?P m" using statsItems_sent [of m fl x server] n by auto
  qed
  have 8: "filter ?P (concat (map (\<lambda>entry. fst (statsSlabs fl entry server)) (Slabs t))) = []"
  proof (rule filter_concat_none)
    fix x m
    assume "m \<in> set (fst (statsSlabs fl x server))"
    then show "\<not> ?P m" using statsSlabs_sent [of m fl x server] n by auto
  qed
  show ?thesis
    unfolding parseStatsRecord_fst [OF v] filter.simps filter_append 2 3 4 5 6 7 8
    using n by simp
qed

text \<open>
  Claim C2. Take a stats record of the server whose label values are valid UTF-8. When
  \<^verbatim>\<open>cmd_set\<close>, \<^verbatim>\<open>cas_hits\<close>, \<^verbatim>\<open>cas_misses\<close> and \<^verbatim>\<open>cas_badval\<close> are all there and ParseFloat reads
  them as \<open>c\<close>, \<open>h\<close>, \<open>ms\<close> and \<open>b\<close>, the record gives exactly one \<^verbatim>\<open>commands\<close> observation
  labelled \<^verbatim>\<open>set\<close> and \<^verbatim>\<open>hit\<close>, a counter whose value is \<open>c\<close> minus the sum of the three, in
  \<^verbatim>\<open>float64\<close> arithmetic and in the order of the code: \<open>((0 + ms) + h) + b\<close>. That is
  \<open>c - ((h + ms) + b)\<close> when \<open>0 + ms\<close> is \<open>ms\<close> and \<open>ms + h\<close> is \<open>h + ms\<close>. When one of the four is
  missing or rejected by ParseFloat, the record gives no such observation, and the
  translator returns an error for the record and for the records of the server.
\<close>

theorem derived_set_counter:
  "(ValidString (index (Stats t) ''version'') \<and> ValidString server \<and>
    Stats t ''cmd_set'' = Some a \<and> ParseFloat fl a = Some c \<and>
    Stats t ''cas_hits'' = Some a1 \<and> ParseFloat fl a1 = Some h \<and>
    Stats t ''cas_misses'' = Some a2 \<and> ParseFloat fl a2 = Some ms \<and>
    Stats t ''cas_badval'' = Some a3 \<and> ParseFloat fl a3 = Some b \<longrightarrow>
    filter (\<lambda>m. mdesc m = commands \<and> mlabels m = [''set'', ''hit'', server])
      (fst (parseStatsRecord fl t server)) =
      [Metric commands CounterValue (fsub fl c (fadd fl (fadd fl (fadd fl (fzero fl) ms) h) b))
         [''set'', ''hit'', server]] \<and>
    (fadd fl (fzero fl) ms = ms \<and> fadd fl ms h = fadd fl h ms \<longrightarrow>
       filter (\<lambda>m. mdesc m = commands \<and> mlabels m = [''set'', ''hit'', server])
         (fst (parseStatsRecord fl t server)) =
         [Metric commands CounterValue (fsub fl c (fadd fl (fadd fl h ms) b))
            [''set'', ''hit'', server]]))
   \<and>
   (k \<in> set [''cmd_set'', ''cas_hits'', ''cas_misses'', ''cas_badval''] \<and>
    (case Stats t k of None \<Rightarrow> True | Some v \<Rightarrow> ParseFloat fl v = None) \<longrightarrow>
    filter (\<lambda>m. mdesc m = commands \<and> mlabels m = [''set'', ''hit'', server])
      (fst (parseStatsRecord fl t server)) = [] \<and>
    (ValidString (index (Stats t) ''version'') \<and> ValidString server \<longrightarrow>
       (\<exists>e. snd (parseStatsRecord fl t server) = Returns (Some e))) \<and>
    ((addr, t) \<in> set stats \<and> ValidString server \<and>
     (\<forall>r\<in>snd ` set stats. ValidString (index (Stats r) ''version'')) \<longrightarrow>
       (\<exists>e. snd (parseStats fl stats server) = Returns (Some e))))"
proof (intro conjI impI)
  let ?P = "\<lambda>m. mdesc m = commands \<and> mlabels m = [''set'', ''hit'', server]"
  assume h: "ValidString (index (Stats t) ''version'') \<and> ValidString server \<and>
    Stats t ''cmd_set'' = Some a \<and> ParseFloat fl a = Some c \<and>
    Stats t ''cas_hits'' = Some a1 \<and> ParseFloat fl a1 = Some h \<and>
    Stats t ''cas_misses'' = Some a2 \<and> ParseFloat fl a2 = Some ms \<and>
    Stats t ''cas_badval'' = Some a3 \<and> ParseFloat fl a3 = Some b"
  then have s: "filter ?P (fst (parseStatsRecord fl t server)) = fst (statsSet fl (Stats t) server)"
    by (simp add: set_of_record)
  from h show r: "filter ?P (fst (parseStatsRecord fl t server)) =
      [Metric commands CounterValue (fsub fl c (fadd fl (fadd fl (fadd fl (fzero fl) ms) h) b))
         [''set'', ''hit'', server]]"
    unfolding s
    using statsSet_ok [where s = "Stats t" and fl = fl and server = server] by simp
  assume "fadd fl (fzero fl) ms = ms \<and> fadd fl ms h = fadd fl h ms"
  then show "filter ?P (fst (parseStatsRecord fl t server)) =
      [Metric commands CounterValue (fsub fl c (fadd fl (fadd fl h ms) b)) [''set'', ''hit'', server]]"
    unfolding r by simp
next
  let ?P = "\<lambda>m. mdesc m = commands \<and> mlabels m = [''set'', ''hit'', server]"
  assume h: "k \<in> set [''cmd_set'', ''cas_hits'', ''cas_misses'', ''cas_badval''] \<and>
    (case Stats t k of None \<Rightarrow> True | Some v \<Rightarrow> ParseFloat fl v = None)"
  then obtain e where e: "statsSet fl (Stats t) server = ([], Returns (Some e))"
    using statsSet_fails [where k = k and s = "Stats t" and fl = fl and server = server] by blast
  show "filter ?P (fst (parseStatsRecord fl t server)) = []"
  proof (cases "ValidString (index (Stats t) ''version'') \<and> ValidString server")
    case True
    then show ?thesis using e by (simp add: set_of_record)
  next
    case False
    then show ?thesis by (simp add: parseStatsRecord_invalid)
  qed
  have r: "\<exists>e. snd (parseStatsRecord fl r server) = Returns (Some e)"
    if "ValidString (index (Stats r) ''version'')" "ValidString server"
      "snd (statsSet fl (Stats r) server) \<noteq> Returns None" for r
  proof -
    have "snd (parseStatsRecord fl r server) \<noteq> Returns None"
      using that(3) unfolding parseStatsRecord_None by simp
    then show ?thesis
      using returns_cases [OF parseStatsRecord_returns [OF that(1) that(2)]] by blast
  qed
  show "\<exists>e. snd (parseStatsRecord fl t server) = Returns (Some e)"
    if "ValidString (index (Stats t) ''version'') \<and> ValidString server"
    using that r [of t] e by simp
  show "\<exists>e. snd (parseStats fl stats server) = Returns (Some e)"
    if a: "(addr, t) \<in> set stats \<and> ValidString server \<and>
     (\<forall>r\<in>snd ` set stats. ValidString (index (Stats r) ''version''))"
  proof -
    from a have m: "t \<in> snd ` set stats"
      by force
    with a have "snd (parseStatsRecord fl t server) \<noteq> Returns None"
      using r [of t] e by force
    with m have "snd (parseStats fl stats server) \<noteq> Returns None"
      unfolding parseStats_None by blast
    moreover from a have "snd (parseStats fl stats server) \<noteq> Panics"
      by (simp add: parseStats_panics)
    ultimately show ?thesis
      using returns_cases [of "parseStats fl stats server"] by blast
  qed
qed

theorem derived_set_counter_witness:
  "filter (\<lambda>m. mdesc m = commands \<and> mlabels m = [''set'', ''hit'', ''srv''])
     (fst (parseStatsRecord exact
        \<lparr>Stats = [''cmd_set'' \<mapsto> ''120'', ''cas_hits'' \<mapsto> ''3'', ''cas_misses'' \<mapsto> ''2'',
                  ''cas_badval'' \<mapsto> ''1''],
         Slabs = [], Items = []\<rparr> ''srv'')) =
     [Metric commands CounterValue 114 [''set'', ''hit'', ''srv'']] \<and>
   filter (\<lambda>m. mdesc m = commands \<and> mlabels m = [''set'', ''hit'', ''srv''])
     (fst (parseStatsRecord exact
        \<lparr>Stats = [''cmd_set'' \<mapsto> ''120'', ''cas_hits'' \<mapsto> ''3'', ''cas_misses'' \<mapsto> ''2''],
         Slabs = [], Items = []\<rparr> ''srv'')) = [] \<and>
   (\<exists>e. snd (parseStats exact
        [(''a'', \<lparr>Stats = [''cmd_set'' \<mapsto> ''120'', ''cas_hits'' \<mapsto> ''3'', ''cas_misses'' \<mapsto> ''2''],
           Slabs = [], Items = []\<rparr>)] ''srv'') = Returns (Some e))"
proof -
  let ?t1 = "\<lparr>Stats = [''cmd_set'' \<mapsto> ''120'', ''cas_hits'' \<mapsto> ''3'', ''cas_misses'' \<mapsto> ''2'',
                  ''cas_badval'' \<mapsto> ''1''], Slabs = [], Items = []\<rparr>"
  let ?t2 = "\<lparr>Stats = [''cmd_set'' \<mapsto> ''120'', ''cas_hits'' \<mapsto> ''3'', ''cas_misses'' \<mapsto> ''2''],
                  Slabs = [], Items = []\<rparr>"
  have h1: "ValidString (index (Stats ?t1) ''version'') \<and> ValidString ''srv'' \<and>
    Stats ?t1 ''cmd_set'' = Some ''120'' \<and> ParseFloat exact ''120'' = Some 120 \<and>
    Stats ?t1 ''cas_hits'' = Some ''3'' \<and> ParseFloat exact ''3'' = Some 3 \<and>
    Stats ?t1 ''cas_misses'' = Some ''2'' \<and> ParseFloat exact ''2'' = Some 2 \<and>
    Stats ?t1 ''cas_badval'' = Some ''1'' \<and> ParseFloat exact ''1'' = Some 1"
    by (simp add: exact_defs index_def ascii_valid ascii_def)
  have h2: "''cas_badval'' \<in> set [''cmd_set'', ''cas_hits'', ''cas_misses'', ''cas_badval''] \<and>
    (case Stats ?t2 ''cas_badval'' of None \<Rightarrow> True | Some v \<Rightarrow> ParseFloat exact v = None)"
    by simp
  have h3: "(''a'', ?t2) \<in> set [(''a'', ?t2)] \<and> ValidString ''srv'' \<and>
    (\<forall>r\<in>snd ` set [(''a'', ?t2)]. ValidString (index (Stats r) ''version''))"
    by (simp add: index_def ascii_valid ascii_def)
  have h4: "fadd exact (fzero exact) 2 = 2 \<and> fadd exact 2 3 = fadd exact 3 2"
    by (simp add: exact_def)
  have a: "fsub exact 120 (fadd exact (fadd exact 3 2) 1) = 114"
    by (simp add: exact_def)
  note w1 = derived_set_counter [where t = ?t1 and fl = exact and server = "''srv''"
      and a = "''120''" and c = 120 and ?a1.0 = "''3''" and h = 3 and ?a2.0 = "''2''" and ms = 2
      and ?a3.0 = "''1''" and b = 1, THEN conjunct1, THEN mp, OF h1, THEN conjunct2, THEN mp, OF h4]
  note w2 = derived_set_counter [where t = ?t2 and fl = exact and server = "''srv''"
      and k = "''cas_badval''" and addr = "''a''" and stats = "[(''a'', ?t2)]",
      THEN conjunct2, THEN mp, OF h2]
  show ?thesis
    using w1 w2 [THEN conjunct1] w2 [THEN conjunct2, THEN conjunct2, THEN mp, OF h3]
    unfolding a by blast
qed

section \<open>The derived set counter of a slab\<close>

lemma slabSet_ok:
  "ValidString server \<Longrightarrow> ValidString slab \<Longrightarrow>
   v ''cmd_set'' = Some a \<Longrightarrow> ParseFloat fl a = Some c \<Longrightarrow>
   v ''cas_hits'' = Some a1 \<Longrightarrow> ParseFloat fl a1 = Some h \<Longrightarrow>
   v ''cas_badval'' = Some a3 \<Longrightarrow> ParseFloat fl a3 = Some b \<Longrightarrow>
   slabSet fl v slab server =
     ([Metric slabsCommands CounterValue (fsub fl c (fadd fl (fadd fl (fzero fl) h) b))
         [slab, ''set'', ''hit'', server]],
      Returns None)"
  by (simp add: slabSet_def parse_def sum_keys_def send_valid valid_simps)

lemma set_of_slab:
  "ValidString server \<Longrightarrow>
   filter (\<lambda>m. mdesc m = slabsCommands \<and> mlabels m = [Itoa i, ''set'', ''hit'', server])
     (fst (statsSlabs fl (i, v) server)) = fst (slabSet fl v (Itoa i) server)"
proof -
  assume s: "ValidString server"
  let ?P = "\<lambda>m. mdesc m = slabsCommands \<and> mlabels m = [Itoa i, ''set'', ''hit'', server]"
  note n = slabsCommands_not_chunk
  have 1: "filter ?P (fst (slabCommands fl v (Itoa i) server)) = []"
  proof (rule filter_none)
    fix m
    assume "m \<in> set (fst (slabCommands fl v (Itoa i) server))"
    then show "\<not> ?P m"
      using slabCommands_sent [of m fl v "Itoa i" server] by (auto simp: ops_def)
  qed
  have 2: "filter ?P (fst (slabSet fl v (Itoa i) server)) = fst (slabSet fl v (Itoa i) server)"
    using slabSet_sent [of _ fl v "Itoa i" server] by (simp add: filter_id_conv)
  have 3: "filter ?P (fst (slabChunks fl v (Itoa i) server)) = []"
    using slabChunks_sent n by (intro filter_desc_none [where ds = chunkDescs]) auto
  show ?thesis
    unfolding statsSlabs_fst [OF s] filter_append fst_conv snd_conv 1 2 3 by simp
qed

text \<open>
  Claim C3, as the code has it. For the record of a slab class in which \<^verbatim>\<open>cmd_set\<close>, \<^verbatim>\<open>cas_hits\<close>
  and \<^verbatim>\<open>cas_badval\<close> are there and read by ParseFloat as \<open>c\<close>, \<open>h\<close> and \<open>b\<close>, and for a server
  label that is valid UTF-8, the round of the slab loop gives exactly one \<^verbatim>\<open>slabsCommands\<close>
  observation labelled with the slab, \<^verbatim>\<open>set\<close> and \<^verbatim>\<open>hit\<close>. Its value is \<open>c\<close> minus the sum of the
  two, in \<^verbatim>\<open>float64\<close> arithmetic and in the order of the code: \<open>(0 + h) + b\<close>, which is \<open>h + b\<close>
  when \<open>0 + h\<close> is \<open>h\<close>. The field \<^verbatim>\<open>cas_misses\<close> of the slab is not read: the statement asks
  nothing of it.
\<close>

theorem slab_set_counter:
  "ValidString server \<and>
   v ''cmd_set'' = Some a \<and> ParseFloat fl a = Some c \<and>
   v ''cas_hits'' = Some a1 \<and> ParseFloat fl a1 = Some h \<and>
   v ''cas_badval'' = Some a3 \<and> ParseFloat fl a3 = Some b \<longrightarrow>
   filter (\<lambda>m. mdesc m = slabsCommands \<and> mlabels m = [Itoa i, ''set'', ''hit'', server])
     (fst (statsSlabs fl (i, v) server)) =
     [Metric slabsCommands CounterValue (fsub fl c (fadd fl (fadd fl (fzero fl) h) b))
        [Itoa i, ''set'', ''hit'', server]] \<and>
   (fadd fl (fzero fl) h = h \<longrightarrow>
      filter (\<lambda>m. mdesc m = slabsCommands \<and> mlabels m = [Itoa i, ''set'', ''hit'', server])
        (fst (statsSlabs fl (i, v) server)) =
        [Metric slabsCommands CounterValue (fsub fl c (fadd fl h b))
           [Itoa i, ''set'', ''hit'', server]])"
proof (intro impI)
  assume h: "ValidString server \<and>
   v ''cmd_set'' = Some a \<and> ParseFloat fl a = Some c \<and>
   v ''cas_hits'' = Some a1 \<and> ParseFloat fl a1 = Some h \<and>
   v ''cas_badval'' = Some a3 \<and> ParseFloat fl a3 = Some b"
  then have "slabSet fl v (Itoa i) server =
     ([Metric slabsCommands CounterValue (fsub fl c (fadd fl (fadd fl (fzero fl) h) b))
         [Itoa i, ''set'', ''hit'', server]], Returns None)"
    using slabSet_ok [where v = v and fl = fl and slab = "Itoa i" and server = server]
    by (simp add: Itoa_valid)
  with h show "filter (\<lambda>m. mdesc m = slabsCommands \<and> mlabels m = [Itoa i, ''set'', ''hit'', server])
     (fst (statsSlabs fl (i, v) server)) =
     [Metric slabsCommands CounterValue (fsub fl c (fadd fl (fadd fl (fzero fl) h) b))
        [Itoa i, ''set'', ''hit'', server]] \<and>
   (fadd fl (fzero fl) h = h \<longrightarrow>
      filter (\<lambda>m. mdesc m = slabsCommands \<and> mlabels m = [Itoa i, ''set'', ''hit'', server])
        (fst (statsSlabs fl (i, v) server)) =
        [Metric slabsCommands CounterValue (fsub fl c (fadd fl h b))
           [Itoa i, ''set'', ''hit'', server]])"
    by (simp add: set_of_slab)
qed

theorem slab_set_counter_witness:
  "filter (\<lambda>m. mdesc m = slabsCommands \<and> mlabels m = [Itoa 4, ''set'', ''hit'', ''srv''])
     (fst (statsSlabs exact
        (4, [''cmd_set'' \<mapsto> ''10'', ''cas_hits'' \<mapsto> ''1'', ''cas_badval'' \<mapsto> ''3'']) ''srv'')) =
     [Metric slabsCommands CounterValue 6 [Itoa 4, ''set'', ''hit'', ''srv'']]"
proof -
  let ?v = "[''cmd_set'' \<mapsto> ''10'', ''cas_hits'' \<mapsto> ''1'', ''cas_badval'' \<mapsto> ''3'']"
  have h: "ValidString ''srv'' \<and>
    ?v ''cmd_set'' = Some ''10'' \<and> ParseFloat exact ''10'' = Some 10 \<and>
    ?v ''cas_hits'' = Some ''1'' \<and> ParseFloat exact ''1'' = Some 1 \<and>
    ?v ''cas_badval'' = Some ''3'' \<and> ParseFloat exact ''3'' = Some 3"
    by (simp add: exact_defs ascii_valid ascii_def)
  have z: "fadd exact (fzero exact) 1 = 1"
    by (simp add: exact_def)
  have a: "fsub exact 10 (fadd exact 1 3) = 6"
    by (simp add: exact_def)
  show ?thesis
    using slab_set_counter [where v = ?v and fl = exact and i = 4 and server = "''srv''"
        and a = "''10''" and c = 10 and ?a1.0 = "''1''" and h = 1 and ?a3.0 = "''3''" and b = 3,
        THEN mp, OF h, THEN conjunct2, THEN mp, OF z]
    unfolding a .
qed

text \<open>
  The specification takes all three cas fields off \<^verbatim>\<open>cmd_set\<close>, as for the server. For the slab record
  with \<^verbatim>\<open>cmd_set\<close> 10, \<^verbatim>\<open>cas_hits\<close> 1, \<^verbatim>\<open>cas_misses\<close> 2 and \<^verbatim>\<open>cas_badval\<close> 3 that would be 4; the
  observation has the value 6.
\<close>

theorem slab_set_ignores_cas_misses_counterexample:
  "filter (\<lambda>m. mdesc m = slabsCommands \<and> mlabels m = [''1'', ''set'', ''hit'', ''srv''])
     (fst (statsSlabs exact
        (1, [''cmd_set'' \<mapsto> ''10'', ''cas_hits'' \<mapsto> ''1'', ''cas_misses'' \<mapsto> ''2'',
             ''cas_badval'' \<mapsto> ''3'']) ''srv'')) =
     [Metric slabsCommands CounterValue 6 [''1'', ''set'', ''hit'', ''srv'']] \<and>
   (6::real) \<noteq> fsub exact 10 (fadd exact (fadd exact 1 2) 3)"
proof -
  let ?v = "[''cmd_set'' \<mapsto> ''10'', ''cas_hits'' \<mapsto> ''1'', ''cas_misses'' \<mapsto> ''2'',
             ''cas_badval'' \<mapsto> ''3'']"
  have i: "Itoa 1 = ''1''"
    by (simp add: Itoa_def digits.simps digit_def)
  have s: "ValidString ''srv''" "ValidString ''1''"
    by (simp_all add: ascii_valid ascii_def)
  have "slabSet exact ?v ''1'' ''srv'' =
      ([Metric slabsCommands CounterValue
          (fsub exact 10 (fadd exact (fadd exact (fzero exact) 1) 3))
          [''1'', ''set'', ''hit'', ''srv'']],
       Returns None)"
    by (rule slabSet_ok [where a = "''10''" and ?a1.0 = "''1''" and ?a3.0 = "''3''"])
      (simp_all add: exact_defs s)
  then show ?thesis
    using set_of_slab [of "''srv''" 1 exact ?v] s by (simp add: i exact_def)
qed

section \<open>The extstore group\<close>

text \<open>Only the extstore part of a record sends under an extstore descriptor.\<close>

lemma extstore_only:
  "m \<in> set (fst (parseStatsRecord fl t server)) \<Longrightarrow> mdesc m \<in> set extstoreDescs \<Longrightarrow>
   m \<in> set (fst (statsExtstore fl (Stats t) server))"
proof -
  assume m: "m \<in> set (fst (parseStatsRecord fl t server))" and d: "mdesc m \<in> set extstoreDescs"
  from d have n: "mdesc m \<noteq> version" "mdesc m \<notin> set serverDescs" "mdesc m \<notin> set itemsDescs"
    "mdesc m \<notin> set slabsDescs"
    using extstore_not_sent by blast+
  from n(1) have 1: "m \<notin> set (fst (statsVersion fl (Stats t) server))"
    using statsVersion_sent by blast
  from n(2) have 2: "m \<notin> set (fst (statsCommands fl (Stats t) server))"
    "m \<notin> set (fst (statsUptime fl (Stats t) server))"
    "m \<notin> set (fst (statsSet fl (Stats t) server))"
    "m \<notin> set (fst (statsGeneral fl (Stats t) server))"
    using after_version_sent [of m fl "Stats t" server] by blast+
  from n(3) have 3: "\<not> (\<exists>entry\<in>set (Items t). m \<in> set (fst (statsItems fl entry server)))"
    using statsItems_sent by blast
  from n(4) have 4: "\<not> (\<exists>entry\<in>set (Slabs t). m \<in> set (fst (statsSlabs fl entry server)))"
    using statsSlabs_sent by blast
  show ?thesis
    using parseStatsRecord_parts [OF m] 1 2 3 4 by blast
qed

lemma extstore_of_record:
  "ValidString (index (Stats t) ''version'') \<Longrightarrow> ValidString server \<Longrightarrow>
   filter (\<lambda>m. mdesc m \<in> set extstoreDescs) (fst (parseStatsRecord fl t server)) =
     fst (statsExtstore fl (Stats t) server)"
proof -
  assume v: "ValidString (index (Stats t) ''version'')" "ValidString server"
  let ?P = "\<lambda>m. mdesc m \<in> set extstoreDescs"
  have n: "d \<noteq> version \<and> d \<notin> set serverDescs \<and> d \<notin> set itemsDescs \<and> d \<notin> set slabsDescs"
    if "d \<in> set extstoreDescs" for d
    using that extstore_not_sent by blast
  have 0: "\<not> ?P (Metric version GaugeValue (fone fl) [index (Stats t) ''version'', server])"
    using n by auto
  have 2: "filter ?P (fst (statsCommands fl (Stats t) server)) = []"
    using after_version_sent [of _ fl "Stats t" server] n by (intro filter_none) blast
  have 3: "filter ?P (fst (statsUptime fl (Stats t) server)) = []"
    using after_version_sent [of _ fl "Stats t" server] n by (intro filter_none) blast
  have 4: "filter ?P (fst (statsSet fl (Stats t) server)) = []"
    using after_version_sent [of _ fl "Stats t" server] n by (intro filter_none) blast
  have 5: "filter ?P (fst (statsExtstore fl (Stats t) server)) =
      fst (statsExtstore fl (Stats t) server)"
    using statsExtstore_sent [of _ fl "Stats t" server] by (simp add: filter_id_conv)
  have 6: "filter ?P (fst (statsGeneral fl (Stats t) server)) = []"
    using after_version_sent [of _ fl "Stats t" server] n by (intro filter_none) blast
  have 7: "filter ?P (concat (map (\<lambda>entry. fst (statsItems fl entry server)) (Items t))) = []"
  proof (rule filter_concat_none)
    fix x m
    assume "m \<in> set (fst (statsItems fl x server))"
    then show "\<not> ?P m" using statsItems_sent [of m fl x server] n by auto
  qed
  have 8: "filter ?P (concat (map (\<lambda>entry. fst (statsSlabs fl entry server)) (Slabs t))) = []"
  proof (rule filter_concat_none)
    fix x m
    assume "m \<in> set (fst (statsSlabs fl x server))"
    then show "\<not> ?P m" using statsSlabs_sent [of m fl x server] n by auto
  qed
  show ?thesis
    unfolding parseStatsRecord_fst [OF v] filter.simps filter_append 2 3 4 5 6 7 8
    using 0 by simp
qed

text \<open>
  Claim C7. A stats record without the key \<^verbatim>\<open>extstore_limit_maxbytes\<close> gives no observation
  under an extstore descriptor, whatever other extstore fields it has. With the key, and
  with label values that are valid UTF-8, the extstore observations of the record are those
  of the nineteen binder calls of the group, each of which is made, and an error of any of
  the calls makes the record fail. With a version or a server that is not valid UTF-8 the
  record panics at its first send and gives nothing.
\<close>

theorem extstore_group_gated:
  "(Stats t ''extstore_limit_maxbytes'' = None \<longrightarrow>
      filter (\<lambda>m. mdesc m \<in> set extstoreDescs) (fst (parseStatsRecord fl t server)) = [])
   \<and>
   (Stats t ''extstore_limit_maxbytes'' \<noteq> None \<and>
    ValidString (index (Stats t) ''version'') \<and> ValidString server \<longrightarrow>
      filter (\<lambda>m. mdesc m \<in> set extstoreDescs) (fst (parseStatsRecord fl t server)) =
        concat (map fst (extstoreCalls fl (Stats t) server)) \<and>
      (\<forall>c\<in>set (extstoreCalls fl (Stats t) server).
         (\<exists>e. snd c = Returns (Some e)) \<longrightarrow>
         (\<exists>e. snd (parseStatsRecord fl t server) = Returns (Some e))))
   \<and>
   (\<not> (ValidString (index (Stats t) ''version'') \<and> ValidString server) \<longrightarrow>
      parseStatsRecord fl t server = ([], Panics))"
proof (intro conjI impI ballI)
  assume a: "Stats t ''extstore_limit_maxbytes'' = None"
  show "filter (\<lambda>m. mdesc m \<in> set extstoreDescs) (fst (parseStatsRecord fl t server)) = []"
  proof (rule filter_none)
    fix m
    assume "m \<in> set (fst (parseStatsRecord fl t server))"
    then show "mdesc m \<notin> set extstoreDescs"
      using extstore_only [of m fl t server] a by (auto simp: statsExtstore_def)
  qed
next
  assume a: "Stats t ''extstore_limit_maxbytes'' \<noteq> None \<and>
    ValidString (index (Stats t) ''version'') \<and> ValidString server"
  then have "\<forall>c\<in>set (extstoreCalls fl (Stats t) server). snd c \<noteq> Panics"
    by (simp add: extstoreCalls_def parse_returns valid_simps)
  with a show "filter (\<lambda>m. mdesc m \<in> set extstoreDescs) (fst (parseStatsRecord fl t server)) =
      concat (map fst (extstoreCalls fl (Stats t) server))"
    by (simp add: extstore_of_record statsExtstore_def firstErrorOf_fst)
next
  fix c
  assume a: "Stats t ''extstore_limit_maxbytes'' \<noteq> None \<and>
    ValidString (index (Stats t) ''version'') \<and> ValidString server"
    and c: "c \<in> set (extstoreCalls fl (Stats t) server)" "\<exists>e. snd c = Returns (Some e)"
  from c have "snd (firstErrorOf (extstoreCalls fl (Stats t) server)) \<noteq> Returns None"
    unfolding firstErrorOf_None by force
  with a have "snd (statsExtstore fl (Stats t) server) \<noteq> Returns None"
    by (simp add: statsExtstore_def)
  then have "snd (parseStatsRecord fl t server) \<noteq> Returns None"
    unfolding parseStatsRecord_None by simp
  moreover from a have "snd (parseStatsRecord fl t server) \<noteq> Panics"
    by (simp add: parseStatsRecord_returns)
  ultimately show "\<exists>e. snd (parseStatsRecord fl t server) = Returns (Some e)"
    using returns_cases [of "parseStatsRecord fl t server"] by blast
next
  assume "\<not> (ValidString (index (Stats t) ''version'') \<and> ValidString server)"
  then show "parseStatsRecord fl t server = ([], Panics)"
    by (rule parseStatsRecord_invalid)
qed

theorem extstore_group_gated_witness:
  "filter (\<lambda>m. mdesc m \<in> set extstoreDescs)
     (fst (parseStatsRecord exact
        \<lparr>Stats = [''extstore_pages_free'' \<mapsto> ''7''], Slabs = [], Items = []\<rparr> ''srv'')) = [] \<and>
   filter (\<lambda>m. mdesc m \<in> set extstoreDescs)
     (fst (parseStatsRecord exact
        \<lparr>Stats = [''extstore_pages_free'' \<mapsto> ''7'', ''extstore_limit_maxbytes'' \<mapsto> ''64''],
         Slabs = [], Items = []\<rparr> ''srv'')) =
     [Metric extstorePagesFree GaugeValue 7 [''srv''],
      Metric extstoreBytesLimit GaugeValue 64 [''srv'']] \<and>
   (\<exists>e. snd (parseStatsRecord exact
        \<lparr>Stats = [''extstore_pages_free'' \<mapsto> ''x'', ''extstore_limit_maxbytes'' \<mapsto> ''64''],
         Slabs = [], Items = []\<rparr> ''srv'') = Returns (Some e)) \<and>
   parseStatsRecord exact
     \<lparr>Stats = [''extstore_limit_maxbytes'' \<mapsto> ''64''], Slabs = [], Items = []\<rparr> [CHR 0xFF] =
     ([], Panics)"
proof -
  let ?t1 = "\<lparr>Stats = [''extstore_pages_free'' \<mapsto> ''7''], Slabs = [], Items = []\<rparr>"
  let ?s2 = "[''extstore_pages_free'' \<mapsto> ''7'', ''extstore_limit_maxbytes'' \<mapsto> ''64'']"
  let ?t2 = "\<lparr>Stats = ?s2, Slabs = [], Items = []\<rparr>"
  let ?s3 = "[''extstore_pages_free'' \<mapsto> ''x'', ''extstore_limit_maxbytes'' \<mapsto> ''64'']"
  let ?t3 = "\<lparr>Stats = ?s3, Slabs = [], Items = []\<rparr>"
  let ?t4 = "\<lparr>Stats = [''extstore_limit_maxbytes'' \<mapsto> ''64''], Slabs = [], Items = []\<rparr>"
  let ?c = "parseAndNewMetric exact extstorePagesFree GaugeValue ?s3 ''extstore_pages_free''
      [''srv'']"
  have v: "ValidString ''srv''" "ValidString []"
    by (simp_all add: ascii_valid ascii_def)
  have h1: "Stats ?t1 ''extstore_limit_maxbytes'' = None"
    by simp
  have h2: "Stats ?t2 ''extstore_limit_maxbytes'' \<noteq> None \<and>
    ValidString (index (Stats ?t2) ''version'') \<and> ValidString ''srv''"
    using v by (simp add: index_def)
  have h3: "Stats ?t3 ''extstore_limit_maxbytes'' \<noteq> None \<and>
    ValidString (index (Stats ?t3) ''version'') \<and> ValidString ''srv''"
    using v by (simp add: index_def)
  have h4: "\<not> (ValidString (index (Stats ?t4) ''version'') \<and> ValidString [CHR 0xFF])"
    by (simp add: ValidString_def)
  have d: "ParseFloat exact ''7'' = Some 7" "ParseFloat exact ''64'' = Some 64"
    "ParseFloat exact ''x'' = None"
    by (simp_all add: exact_defs)
  have e: "concat (map fst (extstoreCalls exact (Stats ?t2) ''srv'')) =
     [Metric extstorePagesFree GaugeValue 7 [''srv''],
      Metric extstoreBytesLimit GaugeValue 64 [''srv'']]"
    using d v
    by (simp add: extstoreCalls_def parseAndNewMetric_def extractValueAndNewMetric_def
        parse_def send_valid valid_simps)
  have c: "?c \<in> set (extstoreCalls exact (Stats ?t3) ''srv'')"
    by (simp add: extstoreCalls_def)
  have f: "\<exists>e. snd ?c = Returns (Some e)"
    using d by (simp add: parseAndNewMetric_def extractValueAndNewMetric_def parse_def)
  note w1 = extstore_group_gated [of ?t1 exact "''srv''", THEN conjunct1, THEN mp, OF h1]
  note w2 = extstore_group_gated [of ?t2 exact "''srv''", THEN conjunct2, THEN conjunct1,
      THEN mp, OF h2, THEN conjunct1]
  note w3 = extstore_group_gated [of ?t3 exact "''srv''", THEN conjunct2, THEN conjunct1,
      THEN mp, OF h3, THEN conjunct2, THEN bspec, OF c, THEN mp, OF f]
  note w4 = extstore_group_gated [of ?t4 exact "[CHR 0xFF]", THEN conjunct2, THEN conjunct2,
      THEN mp, OF h4]
  show ?thesis
    using w1 w2 w3 w4 unfolding e by blast
qed

section \<open>The crawler settings\<close>

lemma maxconns_not_crawler:
  "filter (\<lambda>m. mdesc m \<in> set crawlerDescs)
     (fst (parseAndNewMetric fl maxConnections GaugeValue settings ''maxconns'' [server])) = []"
proof (rule filter_none)
  fix m
  assume "m \<in> set (fst (parseAndNewMetric fl maxConnections GaugeValue settings ''maxconns''
      [server]))"
  then show "mdesc m \<notin> set crawlerDescs"
    using parse_sent [of m] maxConnections_not_crawler by auto
qed

lemma crawler_of_record:
  "ValidString server \<Longrightarrow>
   filter (\<lambda>m. mdesc m \<in> set crawlerDescs) (fst (parseSettingsRecord fl settings server)) =
     (if settings ''lru_crawler'' = Some ''yes''
      then concat (map fst (crawlerCalls fl settings server)) else [])"
proof -
  assume v: "ValidString server"
  let ?P = "\<lambda>m. mdesc m \<in> set crawlerDescs"
  have 2: "filter ?P (concat (map fst (crawlerCalls fl settings server))) =
      concat (map fst (crawlerCalls fl settings server))"
    using crawlerCalls_sent [of _ fl settings server] by (auto simp: filter_id_conv)
  show ?thesis
    unfolding parseSettingsRecord_fst [OF v] filter_append maxconns_not_crawler using 2 by simp
qed

text \<open>
  What a settings record sends is what the binder call for \<^verbatim>\<open>maxconns\<close> sends, followed by
  observations of the crawler group.
\<close>

lemma parseSettingsRecord_shape:
  "\<exists>rest. fst (parseSettingsRecord fl settings server) =
     fst (parseAndNewMetric fl maxConnections GaugeValue settings ''maxconns'' [server]) @ rest \<and>
     (\<forall>m\<in>set rest. mdesc m \<in> set crawlerDescs)"
proof -
  let ?p = "parseAndNewMetric fl maxConnections GaugeValue settings ''maxconns'' [server]"
  let ?q = "if settings ''lru_crawler'' = Some ''yes''
      then firstErrorOf (crawlerCalls fl settings server) else ([], Returns None)"
  have "mdesc m \<in> set crawlerDescs"
    if "m \<in> set (fst (firstErrorOf (crawlerCalls fl settings server)))" for m
    using firstErrorOf_sent [OF that] crawlerCalls_sent by blast
  then have q: "\<forall>m\<in>set (fst ?q). mdesc m \<in> set crawlerDescs"
    by (auto split: if_splits)
  have "fst (parseSettingsRecord fl settings server) = fst ?p @ [] \<or>
      fst (parseSettingsRecord fl settings server) = fst ?p @ fst ?q"
    unfolding parseSettingsRecord_def
    by (simp add: steps.simps andThen_def split: ending.splits)
  with q show ?thesis
    by (metis empty_iff list.set(1))
qed

lemma maxconns_of_record:
  "filter (\<lambda>m. mdesc m = maxConnections) (fst (parseSettingsRecord fl settings server)) =
     fst (parseAndNewMetric fl maxConnections GaugeValue settings ''maxconns'' [server])"
proof -
  let ?P = "\<lambda>m. mdesc m = maxConnections"
  obtain rest where r: "fst (parseSettingsRecord fl settings server) =
      fst (parseAndNewMetric fl maxConnections GaugeValue settings ''maxconns'' [server]) @ rest"
    and d: "\<forall>m\<in>set rest. mdesc m \<in> set crawlerDescs"
    using parseSettingsRecord_shape by blast
  have 1: "filter ?P
      (fst (parseAndNewMetric fl maxConnections GaugeValue settings ''maxconns'' [server])) =
      fst (parseAndNewMetric fl maxConnections GaugeValue settings ''maxconns'' [server])"
    using parse_sent [of _ fl maxConnections] by (simp add: filter_id_conv)
  have 2: "filter ?P rest = []"
    using d maxConnections_not_crawler by (intro filter_none) auto
  show ?thesis
    unfolding r filter_append 1 2 by simp
qed

text \<open>
  Claim C10. For every settings record: unless \<^verbatim>\<open>lru_crawler\<close> is there and is exactly \<^verbatim>\<open>yes\<close>,
  the record gives no observation under a crawler descriptor (the enabled gauge among
  them) and does just what the binder call for \<^verbatim>\<open>maxconns\<close> does, so the flag causes no
  error. When the field is \<^verbatim>\<open>yes\<close> and the server label is valid UTF-8, the crawler
  observations are those of the eight binder calls of the group, and the enabled gauge is
  sent with value 1. The max-connections gauge is bound in both cases.
\<close>

theorem crawler_group_gated:
  "(settings ''lru_crawler'' \<noteq> Some ''yes'' \<longrightarrow>
      filter (\<lambda>m. mdesc m \<in> set crawlerDescs) (fst (parseSettingsRecord fl settings server)) = [] \<and>
      parseSettingsRecord fl settings server =
        parseAndNewMetric fl maxConnections GaugeValue settings ''maxconns'' [server])
   \<and>
   (settings ''lru_crawler'' = Some ''yes'' \<and> ValidString server \<longrightarrow>
      filter (\<lambda>m. mdesc m \<in> set crawlerDescs) (fst (parseSettingsRecord fl settings server)) =
        concat (map fst (crawlerCalls fl settings server)) \<and>
      Metric lruCrawlerEnabled GaugeValue (fone fl) [server]
        \<in> set (fst (parseSettingsRecord fl settings server)))
   \<and>
   filter (\<lambda>m. mdesc m = maxConnections) (fst (parseSettingsRecord fl settings server)) =
     fst (parseAndNewMetric fl maxConnections GaugeValue settings ''maxconns'' [server])"
proof (intro conjI impI)
  assume a: "settings ''lru_crawler'' \<noteq> Some ''yes''"
  then show r: "parseSettingsRecord fl settings server =
      parseAndNewMetric fl maxConnections GaugeValue settings ''maxconns'' [server]"
    by (simp add: parseSettingsRecord_def steps.simps andThen_def prod_eq_iff
        split: ending.splits)
  show "filter (\<lambda>m. mdesc m \<in> set crawlerDescs)
      (fst (parseSettingsRecord fl settings server)) = []"
    unfolding r by (rule maxconns_not_crawler)
next
  assume a: "settings ''lru_crawler'' = Some ''yes'' \<and> ValidString server"
  then show "filter (\<lambda>m. mdesc m \<in> set crawlerDescs)
      (fst (parseSettingsRecord fl settings server)) =
      concat (map fst (crawlerCalls fl settings server))"
    by (simp add: crawler_of_record)
  from a show "Metric lruCrawlerEnabled GaugeValue (fone fl) [server]
      \<in> set (fst (parseSettingsRecord fl settings server))"
    by (simp add: parseSettingsRecord_fst crawlerCalls_def parseBoolAndNewMetric_def
        extractValueAndNewMetric_def parseBool_def send_valid valid_simps)
next
  show "filter (\<lambda>m. mdesc m = maxConnections) (fst (parseSettingsRecord fl settings server)) =
     fst (parseAndNewMetric fl maxConnections GaugeValue settings ''maxconns'' [server])"
    by (rule maxconns_of_record)
qed

theorem crawler_group_gated_witness:
  "parseSettingsRecord exact [''maxconns'' \<mapsto> ''1024'', ''lru_crawler'' \<mapsto> ''no''] ''srv'' =
     parseAndNewMetric exact maxConnections GaugeValue
       [''maxconns'' \<mapsto> ''1024'', ''lru_crawler'' \<mapsto> ''no''] ''maxconns'' [''srv''] \<and>
   filter (\<lambda>m. mdesc m \<in> set crawlerDescs)
     (fst (parseSettingsRecord exact [''maxconns'' \<mapsto> ''1024'', ''lru_crawler'' \<mapsto> ''no'']
        ''srv'')) = [] \<and>
   Metric lruCrawlerEnabled GaugeValue 1 [''srv'']
     \<in> set (fst (parseSettingsRecord exact
         [''maxconns'' \<mapsto> ''1024'', ''lru_crawler'' \<mapsto> ''yes''] ''srv''))"
proof -
  let ?s1 = "[''maxconns'' \<mapsto> ''1024'', ''lru_crawler'' \<mapsto> ''no'']"
  let ?s2 = "[''maxconns'' \<mapsto> ''1024'', ''lru_crawler'' \<mapsto> ''yes'']"
  have h1: "?s1 ''lru_crawler'' \<noteq> Some ''yes''"
    by simp
  have h2: "?s2 ''lru_crawler'' = Some ''yes'' \<and> ValidString ''srv''"
    by (simp add: ascii_valid ascii_def)
  have o: "fone exact = 1"
    by (simp add: exact_def)
  note w1 = crawler_group_gated [of ?s1 exact "''srv''", THEN conjunct1, THEN mp, OF h1]
  note w2 = crawler_group_gated [of ?s2 exact "''srv''", THEN conjunct2, THEN conjunct1,
      THEN mp, OF h2, THEN conjunct2]
  show ?thesis
    using w1 w2 unfolding o by blast
qed

section \<open>Where a failure comes from\<close>

lemma parseStatsRecord_Some:
  "snd (parseStatsRecord fl t server) = Returns (Some e) \<Longrightarrow>
   snd (statsVersion fl (Stats t) server) = Returns (Some e) \<or>
   snd (statsCommands fl (Stats t) server) = Returns (Some e) \<or>
   snd (statsUptime fl (Stats t) server) = Returns (Some e) \<or>
   snd (statsSet fl (Stats t) server) = Returns (Some e) \<or>
   snd (statsExtstore fl (Stats t) server) = Returns (Some e) \<or>
   snd (statsGeneral fl (Stats t) server) = Returns (Some e) \<or>
   (\<exists>entry\<in>set (Items t). snd (statsItems fl entry server) = Returns (Some e)) \<or>
   (\<exists>entry\<in>set (Slabs t). snd (statsSlabs fl entry server) = Returns (Some e))"
  unfolding parseStatsRecord_def Let_def
  by (drule steps_Some) auto

lemma parseStats_fails:
  "ValidString server \<Longrightarrow> \<forall>t\<in>snd ` set stats. ValidString (index (Stats t) ''version'') \<Longrightarrow>
   (\<exists>e. snd (parseStats fl stats server) = Returns (Some e)) =
     (\<exists>t\<in>snd ` set stats. malformedStats fl t \<or> missingSetInput t)"
proof -
  assume v: "ValidString server"
    and r: "\<forall>t\<in>snd ` set stats. ValidString (index (Stats t) ''version'')"
  have "snd (parseStats fl stats server) \<noteq> Panics"
    using v r by (simp add: parseStats_panics)
  then have "(\<exists>e. snd (parseStats fl stats server) = Returns (Some e)) =
      (snd (parseStats fl stats server) \<noteq> Returns None)"
    by (rule returns_cases)
  then show ?thesis
    unfolding parseStats_ok [OF v r] by blast
qed

lemma parseStatsSettings_fails:
  "ValidString server \<Longrightarrow>
   (\<exists>e. snd (parseStatsSettings fl statsSettings server) = Returns (Some e)) =
     (\<exists>settings\<in>snd ` set statsSettings. malformedSettings fl settings)"
proof -
  assume v: "ValidString server"
  then have "snd (parseStatsSettings fl statsSettings server) \<noteq> Panics"
    by (rule parseStatsSettings_returns)
  then have "(\<exists>e. snd (parseStatsSettings fl statsSettings server) = Returns (Some e)) =
      (snd (parseStatsSettings fl statsSettings server) \<noteq> Returns None)"
    by (rule returns_cases)
  then show ?thesis
    unfolding parseStatsSettings_ok [OF v] by blast
qed

text \<open>
  Claim C4, as the code has it, for label values that are valid UTF-8. The settings
  translator returns an error exactly when some settings record has a field that is there
  and malformed among those it reads: \<^verbatim>\<open>maxconns\<close>, and with \<^verbatim>\<open>lru_crawler\<close> equal to \<^verbatim>\<open>yes\<close> the
  numbers of the crawler group and \<^verbatim>\<open>lru_maintainer_thread\<close>. The stats translator returns an
  error exactly when some stats record has a field that is there and malformed among those
  it reads (in the server record, in a record of \<^verbatim>\<open>t.Items\<close> or of \<^verbatim>\<open>t.Slabs\<close>), or lacks an
  input of a derived set counter: \<^verbatim>\<open>cmd_set\<close>, \<^verbatim>\<open>cas_misses\<close>, \<^verbatim>\<open>cas_hits\<close> or \<^verbatim>\<open>cas_badval\<close> of the
  server record, \<^verbatim>\<open>cmd_set\<close>, \<^verbatim>\<open>cas_hits\<close> or \<^verbatim>\<open>cas_badval\<close> of a record of \<^verbatim>\<open>t.Slabs\<close>. No other
  missing key makes a translator fail. In a run of \<^verbatim>\<open>CollectServer\<close> that created its client,
  such a record makes the \<^verbatim>\<open>up\<close> observation 0.
\<close>

theorem failure_origin:
  "(ValidString server \<longrightarrow>
      (\<exists>e. snd (parseStatsSettings fl statsSettings server) = Returns (Some e)) =
      (\<exists>settings\<in>snd ` set statsSettings. malformedSettings fl settings))
   \<and>
   (ValidString server \<and> (\<forall>t\<in>snd ` set stats. ValidString (index (Stats t) ''version'')) \<longrightarrow>
      (\<exists>e. snd (parseStats fl stats server) = Returns (Some e)) =
      (\<exists>t\<in>snd ` set stats. malformedStats fl t \<or> missingSetInput t))
   \<and>
   (labelsValid c server \<and> newErr c = None \<and>
    ((\<exists>t\<in>snd ` set (fst (statsResult c)). malformedStats fl t \<or> missingSetInput t) \<or>
     (\<exists>settings\<in>snd ` set (fst (settingsResult c)). malformedSettings fl settings)) \<longrightarrow>
      filter (\<lambda>m. mdesc m = up) (fst (CollectServer fl c server)) =
        [Metric up GaugeValue (fzero fl) [server]])"
proof (intro conjI impI)
  assume "ValidString server"
  then show "(\<exists>e. snd (parseStatsSettings fl statsSettings server) = Returns (Some e)) =
      (\<exists>settings\<in>snd ` set statsSettings. malformedSettings fl settings)"
    by (rule parseStatsSettings_fails)
next
  assume "ValidString server \<and>
    (\<forall>t\<in>snd ` set stats. ValidString (index (Stats t) ''version''))"
  then show "(\<exists>e. snd (parseStats fl stats server) = Returns (Some e)) =
      (\<exists>t\<in>snd ` set stats. malformedStats fl t \<or> missingSetInput t)"
    by (simp add: parseStats_fails)
next
  assume a: "labelsValid c server \<and> newErr c = None \<and>
    ((\<exists>t\<in>snd ` set (fst (statsResult c)). malformedStats fl t \<or> missingSetInput t) \<or>
     (\<exists>settings\<in>snd ` set (fst (settingsResult c)). malformedSettings fl settings))"
  then have v: "ValidString server"
    and r: "\<forall>t\<in>snd ` set (fst (statsResult c)). ValidString (index (Stats t) ''version'')"
    by (simp_all add: labelsValid_def)
  from a have "snd (parseStats fl (fst (statsResult c)) server) \<noteq> Returns None \<or>
      snd (parseStatsSettings fl (fst (settingsResult c)) server) \<noteq> Returns None"
    unfolding parseStats_ok [OF v r] parseStatsSettings_ok [OF v] by blast
  then have "\<not> (newErr c = None \<and> snd (statsResult c) = None \<and> snd (settingsResult c) = None \<and>
      snd (parseStats fl (fst (statsResult c)) server) = Returns None \<and>
      snd (parseStatsSettings fl (fst (settingsResult c)) server) = Returns None)"
    by blast
  moreover from a have "labelsValid c server"
    by simp
  ultimately show "filter (\<lambda>m. mdesc m = up) (fst (CollectServer fl c server)) =
      [Metric up GaugeValue (fzero fl) [server]]"
    by (simp only: CollectServer_up if_False)
qed

theorem failure_origin_witness:
  "malformedSettings exact [''maxconns'' \<mapsto> ''many''] \<and>
   (\<exists>e. snd (parseStatsSettings exact [(''a'', [''maxconns'' \<mapsto> ''many''])] ''srv'') =
      Returns (Some e)) \<and>
   malformedStats exact
     \<lparr>Stats = [''cmd_set'' \<mapsto> ''120'', ''cas_hits'' \<mapsto> ''3'', ''cas_misses'' \<mapsto> ''2'',
               ''cas_badval'' \<mapsto> ''1'', ''uptime'' \<mapsto> ''soon''], Slabs = [], Items = []\<rparr> \<and>
   (\<exists>e. snd (parseStats exact
     [(''a'', \<lparr>Stats = [''cmd_set'' \<mapsto> ''120'', ''cas_hits'' \<mapsto> ''3'', ''cas_misses'' \<mapsto> ''2'',
               ''cas_badval'' \<mapsto> ''1'', ''uptime'' \<mapsto> ''soon''], Slabs = [], Items = []\<rparr>)]
     ''srv'') = Returns (Some e)) \<and>
   \<not> (\<exists>e. snd (parseStats exact
     [(''a'', \<lparr>Stats = [''cmd_set'' \<mapsto> ''120'', ''cas_hits'' \<mapsto> ''3'', ''cas_misses'' \<mapsto> ''2'',
               ''cas_badval'' \<mapsto> ''1'', ''version'' \<mapsto> ''1.6.21''], Slabs = [], Items = []\<rparr>)]
     ''srv'') = Returns (Some e)) \<and>
   filter (\<lambda>m. mdesc m = up)
     (fst (CollectServer exact
        \<lparr>newErr = None, statsResult = ([], None),
         settingsResult = ([(''a'', [''maxconns'' \<mapsto> ''many''])], None)\<rparr> ''srv'')) =
     [Metric up GaugeValue 0 [''srv'']]"
proof -
  let ?S = "[(''a'', [''maxconns'' \<mapsto> ''many''])]"
  let ?t = "\<lparr>Stats = [''cmd_set'' \<mapsto> ''120'', ''cas_hits'' \<mapsto> ''3'', ''cas_misses'' \<mapsto> ''2'',
               ''cas_badval'' \<mapsto> ''1'', ''uptime'' \<mapsto> ''soon''], Slabs = [], Items = []\<rparr>"
  let ?h = "\<lparr>Stats = [''cmd_set'' \<mapsto> ''120'', ''cas_hits'' \<mapsto> ''3'', ''cas_misses'' \<mapsto> ''2'',
               ''cas_badval'' \<mapsto> ''1'', ''version'' \<mapsto> ''1.6.21''], Slabs = [], Items = []\<rparr>"
  let ?c = "\<lparr>newErr = None, statsResult = ([], None), settingsResult = (?S, None)\<rparr>"
  have v: "ValidString ''srv''"
    by (simp add: ascii_valid ascii_def)
  have m1: "malformedSettings exact [''maxconns'' \<mapsto> ''many'']"
    by (simp add: malformedSettings_def rejected_def exact_defs)
  have m2: "malformedStats exact ?t"
    by (simp add: malformedStats_def uptimeKeys_def rejected_def exact_defs)
  have m3: "\<not> (malformedStats exact ?h \<or> missingSetInput ?h)"
    by (simp add: key_defs exact_defs)
  have v2: "ValidString ''srv'' \<and>
      (\<forall>r\<in>snd ` set [(''a'', ?t)]. ValidString (index (Stats r) ''version''))"
    using v by (simp add: index_def ascii_valid)
  have v3: "ValidString ''srv'' \<and>
      (\<forall>r\<in>snd ` set [(''a'', ?h)]. ValidString (index (Stats r) ''version''))"
    using v by (simp add: index_def ascii_valid ascii_def)
  have l: "labelsValid ?c ''srv'' \<and> newErr ?c = None \<and>
    ((\<exists>t\<in>snd ` set (fst (statsResult ?c)). malformedStats exact t \<or> missingSetInput t) \<or>
     (\<exists>settings\<in>snd ` set (fst (settingsResult ?c)). malformedSettings exact settings))"
    using v m1 by (simp add: labelsValid_def)
  have z: "fzero exact = 0"
    by (simp add: exact_def)
  note w1 = failure_origin [where fl = exact and server = "''srv''" and statsSettings = ?S,
      THEN conjunct1, THEN mp, OF v]
  note w2 = failure_origin [where fl = exact and server = "''srv''" and stats = "[(''a'', ?t)]",
      THEN conjunct2, THEN conjunct1, THEN mp, OF v2]
  note w3 = failure_origin [where fl = exact and server = "''srv''" and stats = "[(''a'', ?h)]",
      THEN conjunct2, THEN conjunct1, THEN mp, OF v3]
  note w4 = failure_origin [where fl = exact and server = "''srv''" and c = ?c,
      THEN conjunct2, THEN conjunct2, THEN mp, OF l]
  have 1: "\<exists>e. snd (parseStatsSettings exact ?S ''srv'') = Returns (Some e)"
    unfolding w1 using m1 by simp
  have 2: "\<exists>e. snd (parseStats exact [(''a'', ?t)] ''srv'') = Returns (Some e)"
    unfolding w2 using m2 by simp
  have 3: "\<not> (\<exists>e. snd (parseStats exact [(''a'', ?h)] ''srv'') = Returns (Some e))"
    unfolding w3 using m3 by simp
  show ?thesis
    using m1 m2 1 2 3 w4 unfolding z by blast
qed

text \<open>
  The specification lets no missing key make the outcome unhealthy. In the record
  below the one field that is there, \<^verbatim>\<open>uptime\<close>, is well formed; \<^verbatim>\<open>cmd_set\<close> is missing, the
  stats translator returns \<^verbatim>\<open>errKeyNotFound\<close>, and the reachability observation is 0.
\<close>

theorem missing_cmd_set_counterexample:
  "ParseFloat exact ''5'' = Some 5 \<and>
   \<not> malformedStats exact \<lparr>Stats = [''uptime'' \<mapsto> ''5''], Slabs = [], Items = []\<rparr> \<and>
   snd (parseStats exact [(''a'', \<lparr>Stats = [''uptime'' \<mapsto> ''5''], Slabs = [], Items = []\<rparr>)]
     ''srv'') = Returns (Some errKeyNotFound) \<and>
   filter (\<lambda>m. mdesc m = up)
     (fst (CollectServer exact
        \<lparr>newErr = None,
         statsResult = ([(''a'', \<lparr>Stats = [''uptime'' \<mapsto> ''5''], Slabs = [], Items = []\<rparr>)], None),
         settingsResult = ([], None)\<rparr> ''srv'')) =
     [Metric up GaugeValue 0 [''srv'']]"
proof -
  let ?s = "[''uptime'' \<mapsto> ''5'']"
  let ?t = "\<lparr>Stats = ?s, Slabs = [], Items = []\<rparr>"
  let ?c = "\<lparr>newErr = None, statsResult = ([(''a'', ?t)], None), settingsResult = ([], None)\<rparr>"
  have d: "ParseFloat exact ''5'' = Some 5"
    by (simp add: exact_defs)
  have v: "ValidString ''srv''" "ValidString (index (Stats ?t) ''version'')"
    by (simp_all add: index_def ascii_valid ascii_def)
  have m: "\<not> malformedStats exact ?t"
    by (simp add: key_defs exact_defs)
  have s: "snd (statsSet exact ?s ''srv'') = Returns (Some errKeyNotFound)"
    by (simp add: statsSet_def parse_def)
  have o: "snd (statsVersion exact ?s ''srv'') = Returns None"
    "snd (statsCommands exact ?s ''srv'') = Returns None"
    "snd (statsUptime exact ?s ''srv'') = Returns None"
    "snd (statsExtstore exact ?s ''srv'') = Returns None"
    "snd (statsGeneral exact ?s ''srv'') = Returns None"
    using v
    by (simp_all add: statsVersion_valid statsCommands_None statsUptime_None statsExtstore_None
        statsGeneral_None key_defs exact_defs)
  have "snd (parseStatsRecord exact ?t ''srv'') \<noteq> Returns None"
    unfolding parseStatsRecord_None using s by simp
  moreover have "snd (parseStatsRecord exact ?t ''srv'') \<noteq> Panics"
    using v by (simp add: parseStatsRecord_returns)
  ultimately obtain e where e: "snd (parseStatsRecord exact ?t ''srv'') = Returns (Some e)"
    using returns_cases [of "parseStatsRecord exact ?t ''srv''"] by blast
  then have "e = errKeyNotFound"
    using parseStatsRecord_Some [OF e] s o by simp
  with e have r: "snd (parseStatsRecord exact ?t ''srv'') = Returns (Some errKeyNotFound)"
    by simp
  have p: "snd (parseStats exact [(''a'', ?t)] ''srv'') = Returns (Some errKeyNotFound)"
    using r by (simp add: parseStats_def steps.simps andThen_def)
  have l: "labelsValid ?c ''srv''"
    using v by (simp add: labelsValid_def)
  have u: "filter (\<lambda>m. mdesc m = up) (fst (CollectServer exact ?c ''srv'')) =
      [Metric up GaugeValue 0 [''srv'']]"
    unfolding CollectServer_up [OF l] using p by (simp add: exact_def)
  show ?thesis
    using d m p u by blast
qed

section \<open>Describe\<close>

lemma Describe_lengths: "length Describe = 87 \<and> length descriptor_fields = 86"
  by (simp add: Describe_def descriptor_fields_def)

lemma Describe_covers_fields: "set descriptor_fields \<subseteq> set Describe"
  by (simp add: Describe_def descriptor_fields_def)

lemma Describe_mset:
  "mset Describe = add_mset itemsExpiredUnfetched (mset descriptor_fields)"
  by (simp add: Describe_def descriptor_fields_def add_mset_commute)

lemma Describe_count: "count_list Describe itemsExpiredUnfetched = 2"
  by code_simp

text \<open>
  Claim C9. \<^verbatim>\<open>Describe\<close> sends every descriptor field of the exporter, but not each of them
  once: what it sends is the descriptor fields, in some order, and \<^verbatim>\<open>itemsExpiredUnfetched\<close>
  once more. That descriptor is sent after \<^verbatim>\<open>itemsEvictedUnfetched\<close> and again after
  \<^verbatim>\<open>itemsTailrepairs\<close>.
\<close>

theorem Describe_sends_itemsExpiredUnfetched_twice:
  "mset Describe = add_mset itemsExpiredUnfetched (mset descriptor_fields) \<and>
   count_list Describe itemsExpiredUnfetched = 2"
  using Describe_mset Describe_count by simp


end
